theory Spec2Isabelle
  imports Main "HOL-Library.Sublist" "HOL-Library.AList"
begin

section \<open>Python values\<close>

text \<open>
  A Python \<open>str\<close> is a sequence of Unicode code points, so it is modelled as a list of
  natural numbers; \<open>u\<close> turns an ASCII literal into that form.  This keeps
  \<open>str.strip\<close> exact (its whitespace set reaches beyond ASCII) and lets the status
  glyphs of pwsh-manager be single code points.
\<close>

type_synonym pstr = "nat list"

definition u :: "string \<Rightarrow> pstr" where
  "u s = map of_char s"

text \<open>The code points \<open>str.strip()\<close> removes (those where \<open>str.isspace\<close> holds).\<close>

definition isspace :: "nat \<Rightarrow> bool" where
  "isspace c \<longleftrightarrow>
     (9 \<le> c \<and> c \<le> 13) \<or> (28 \<le> c \<and> c \<le> 32) \<or> c = 133 \<or> c = 160 \<or> c = 5760 \<or>
     (8192 \<le> c \<and> c \<le> 8202) \<or> c = 8232 \<or> c = 8233 \<or> c = 8239 \<or> c = 8287 \<or> c = 12288"

definition strip :: "pstr \<Rightarrow> pstr" where
  "strip s = rev (dropWhile isspace (rev (dropWhile isspace s)))"

text \<open>\<open>sep.join(xs)\<close>\<close>

fun join :: "pstr \<Rightarrow> pstr list \<Rightarrow> pstr" where
  "join sep [] = []"
| "join sep [x] = x"
| "join sep (x # y # ys) = x @ sep @ join sep (y # ys)"

text \<open>
  \<open>str.lower\<close> on ASCII text.  The model takes \<open>str.lower\<close> itself as a parameter
  (the full Unicode case mapping is the library's); this is the instance used when a
  concrete ASCII input is evaluated.
\<close>

definition ascii_lower :: "pstr \<Rightarrow> pstr" where
  "ascii_lower s = map (\<lambda>c. if 65 \<le> c \<and> c \<le> 90 then c + 32 else c) s"

text \<open>
  The values \<open>json.loads\<close> produces and MCP arguments carry.  An object is an
  association list, as a Python dict keeps insertion order; numbers are integers
  (non-integral JSON numbers are outside the model).
\<close>

datatype json =
    JNull
  | JBool bool
  | JInt int
  | JStr pstr
  | JList "json list"
  | JObj "(pstr \<times> json) list"

type_synonym dict = "(pstr \<times> json) list"

datatype py_error = AttributeError | TypeError | KeyError | OSError

text \<open>Truth value testing (\<open>if x\<close>, \<open>not x\<close>).\<close>

fun truthy :: "json \<Rightarrow> bool" where
  "truthy JNull = False"
| "truthy (JBool b) = b"
| "truthy (JInt i) = (i \<noteq> 0)"
| "truthy (JStr s) = (s \<noteq> [])"
| "truthy (JList xs) = (xs \<noteq> [])"
| "truthy (JObj d) = (d \<noteq> [])"

text \<open>\<open>d.get(k, default)\<close> on a dict; \<open>d.get(k)\<close> is \<open>dict_get d k JNull\<close>.\<close>

definition dict_get :: "dict \<Rightarrow> pstr \<Rightarrow> json \<Rightarrow> json" where
  "dict_get d k dflt = (case map_of d k of None \<Rightarrow> dflt | Some v \<Rightarrow> v)"

text \<open>\<open>x.get(k, default)\<close> on any value: only a dict has \<open>get\<close>.\<close>

fun py_get :: "json \<Rightarrow> pstr \<Rightarrow> json \<Rightarrow> py_error + json" where
  "py_get (JObj d) k dflt = Inr (dict_get d k dflt)"
| "py_get _ k dflt = Inl AttributeError"

text \<open>
  \<open>x.get(key, default)\<close> where the key is itself any value: a list or dict key is
  unhashable, any other non-string key is simply not among the string keys.
\<close>

fun py_get_key :: "json \<Rightarrow> json \<Rightarrow> json \<Rightarrow> py_error + json" where
  "py_get_key (JObj d) (JStr k) dflt = Inr (dict_get d k dflt)"
| "py_get_key (JObj d) (JList xs) dflt = Inl TypeError"
| "py_get_key (JObj d) (JObj e) dflt = Inl TypeError"
| "py_get_key (JObj d) _ dflt = Inr dflt"
| "py_get_key _ _ dflt = Inl AttributeError"

text \<open>\<open>k in x\<close> for a string \<open>k\<close>: key of a dict, element of a list, substring of a string.\<close>

fun py_in :: "pstr \<Rightarrow> json \<Rightarrow> py_error + bool" where
  "py_in k (JObj d) = Inr (k \<in> set (map fst d))"
| "py_in k (JList xs) = Inr (JStr k \<in> set xs)"
| "py_in k (JStr s) = Inr (sublist k s)"
| "py_in k _ = Inl TypeError"

text \<open>\<open>x[k] = v\<close> for a string \<open>k\<close>; the container after the assignment.\<close>

fun py_setitem :: "json \<Rightarrow> pstr \<Rightarrow> json \<Rightarrow> py_error + json" where
  "py_setitem (JObj d) k v = Inr (JObj (AList.update k v d))"
| "py_setitem _ k v = Inl TypeError"

text \<open>\<open>x[k]\<close> for a string \<open>k\<close>.\<close>

fun py_getitem :: "json \<Rightarrow> pstr \<Rightarrow> py_error + json" where
  "py_getitem (JObj d) k = (case map_of d k of None \<Rightarrow> Inl KeyError | Some v \<Rightarrow> Inr v)"
| "py_getitem _ k = Inl TypeError"

text \<open>\<open>x.pop(k)\<close> for a string \<open>k\<close>: the removed value and the container afterwards.\<close>

fun py_pop :: "json \<Rightarrow> pstr \<Rightarrow> py_error + (json \<times> json)" where
  "py_pop (JObj d) k =
     (case map_of d k of None \<Rightarrow> Inl KeyError | Some v \<Rightarrow> Inr (v, JObj (AList.delete k d)))"
| "py_pop (JList xs) k = Inl TypeError"
| "py_pop _ k = Inl AttributeError"

text \<open>\<open>list(x.keys())\<close>\<close>

fun py_keys :: "json \<Rightarrow> py_error + json" where
  "py_keys (JObj d) = Inr (JList (map (\<lambda>p. JStr (fst p)) d))"
| "py_keys _ = Inl AttributeError"

text \<open>\<open>x.strip()\<close>: only a string has it.\<close>

fun py_strip :: "json \<Rightarrow> py_error + pstr" where
  "py_strip (JStr s) = Inr (strip s)"
| "py_strip _ = Inl AttributeError"

text \<open>\<open>x.lower()\<close>, with \<open>str.lower\<close> as the parameter \<open>lw\<close>.\<close>

fun py_lower :: "(pstr \<Rightarrow> pstr) \<Rightarrow> json \<Rightarrow> py_error + pstr" where
  "py_lower lw (JStr s) = Inr (lw s)"
| "py_lower lw _ = Inl AttributeError"

text \<open>
  \<open>str(x)\<close> as an f-string applies it: a string is itself; the rendering of any other
  value is the library's and enters as the parameter \<open>fmt\<close>.
\<close>

fun py_str :: "(json \<Rightarrow> pstr) \<Rightarrow> json \<Rightarrow> pstr" where
  "py_str fmt (JStr s) = s"
| "py_str fmt v = fmt v"

text \<open>
  What a tool call hands back: \<open>Text t\<close> is a text content with that text,
  \<open>JsonDump j\<close> one whose text is \<open>json.dumps(j, indent=2)\<close>.
\<close>

datatype rendered = Text pstr | JsonDump json

text \<open>
  Exceptions: a step that may raise yields \<open>Inl\<close> the exception or \<open>Inr\<close> its value.
  \<open>bnd\<close> chains such steps; \<open>attempt\<close> does so inside a function that also carries
  the world along, where a raise leaves the world as it is at that point.
\<close>

definition bnd :: "py_error + 'a \<Rightarrow> ('a \<Rightarrow> py_error + 'b) \<Rightarrow> py_error + 'b" where
  "bnd m f = (case m of Inl x \<Rightarrow> Inl x | Inr v \<Rightarrow> f v)"

definition attempt :: "py_error + 'a \<Rightarrow> 'w \<Rightarrow> ('a \<Rightarrow> (py_error + 'b) \<times> 'w) \<Rightarrow> (py_error + 'b) \<times> 'w" where
  "attempt m w f = (case m of Inl x \<Rightarrow> (Inl x, w) | Inr v \<Rightarrow> f v)"

section \<open>The registry file and the session pool\<close>

text \<open>
  The registry file \<open>~/.m365-connections.json\<close> as a reader finds it: absent, not
  valid JSON, unreadable for another reason, or holding a JSON document.
\<close>

datatype file_state = Missing | Malformed | Unreadable | Parsed json

text \<open>How an HTTP request ends: a JSON body, or an exception of some kind with its \<open>str(e)\<close>.\<close>

datatype failure = ConnectTimeout | ReadTimeout | ConnectError | OtherError

datatype http_outcome = Responded json | Failed failure pstr

text \<open>How a write of the registry file goes: the \<open>open(..., 'w')\<close> may fail, or a later
  step may fail after the file has been truncated.\<close>

datatype save_outcome = SaveOk | OpenFails | DumpFails

text \<open>What a tool call does to the outside: a request to the pool (endpoint, verb,
  JSON body) and an invocation of \<open>save_registry\<close> with the document to write.\<close>

datatype event = PoolCall pstr pstr "json option" | Save json

record world =
  regfile :: file_state
  trace :: "event list"

text \<open>The surroundings of one tool call.\<close>

record env =
  http :: "pstr \<Rightarrow> pstr \<Rightarrow> json option \<Rightarrow> http_outcome"
  disk :: save_outcome
  fmt :: "json \<Rightarrow> pstr"
  lower :: "pstr \<Rightarrow> pstr"

section \<open>mm (microsoft-master/server.py)\<close>

subsection \<open>Registry store\<close>

definition load_registry :: "world \<Rightarrow> py_error + json" where
  "load_registry w =
     (case regfile w of
        Parsed j \<Rightarrow> Inr j
      | Missing \<Rightarrow> Inr (JObj [(u ''connections'', JObj [])])
      | Malformed \<Rightarrow> Inr (JObj [(u ''connections'', JObj [])])
      | Unreadable \<Rightarrow> Inl OSError)"

definition save_registry :: "env \<Rightarrow> json \<Rightarrow> world \<Rightarrow> bool \<times> world" where
  "save_registry e data w =
     (case disk e of
        SaveOk \<Rightarrow> (True, w\<lparr>regfile := Parsed data, trace := trace w @ [Save data]\<rparr>)
      | OpenFails \<Rightarrow> (False, w\<lparr>trace := trace w @ [Save data]\<rparr>)
      | DumpFails \<Rightarrow> (False, w\<lparr>regfile := Malformed, trace := trace w @ [Save data]\<rparr>))"

subsection \<open>GUID format\<close>

definition is_hex :: "nat \<Rightarrow> bool" where
  "is_hex c \<longleftrightarrow> (48 \<le> c \<and> c \<le> 57) \<or> (97 \<le> c \<and> c \<le> 102) \<or> (65 \<le> c \<and> c \<le> 70)"

text \<open>\<open>[0-9a-fA-F]{n}\<close> at the head of the text: what follows it.\<close>

fun hex_run :: "nat \<Rightarrow> pstr \<Rightarrow> pstr option" where
  "hex_run 0 s = Some s"
| "hex_run (Suc n) [] = None"
| "hex_run (Suc n) (c # s) = (if is_hex c then hex_run n s else None)"

text \<open>A literal \<open>-\<close> at the head of the text: what follows it.\<close>

fun dash :: "pstr \<Rightarrow> pstr option" where
  "dash [] = None"
| "dash (c # s) = (if c = 45 then Some s else None)"

text \<open>
  \<open>re.match(r'^[0-9a-fA-F]{8}-[0-9a-fA-F]{4}-[0-9a-fA-F]{4}-[0-9a-fA-F]{4}-[0-9a-fA-F]{12}$', s)\<close>:
  without the MULTILINE flag \<open>$\<close> matches at the end of the string and also just
  before a newline that ends it.
\<close>

definition is_valid_guid :: "pstr \<Rightarrow> bool" where
  "is_valid_guid s =
     (case Option.bind (Option.bind (Option.bind (Option.bind (Option.bind (Option.bind
            (Option.bind (Option.bind (hex_run 8 s) dash) (hex_run 4)) dash) (hex_run 4)) dash)
            (hex_run 4)) dash) (hex_run 12) of
        None \<Rightarrow> False
      | Some r \<Rightarrow> r = [] \<or> r = [10])"

text \<open>\<open>is_valid_guid(x)\<close> on any value: \<open>re.match\<close> wants a string.\<close>

fun py_is_valid_guid :: "json \<Rightarrow> py_error + bool" where
  "py_is_valid_guid (JStr s) = Inr (is_valid_guid s)"
| "py_is_valid_guid _ = Inl TypeError"

subsection \<open>Pool client\<close>

text \<open>\<open>httpx.TimeoutException\<close> is the base class of httpx's timeouts.\<close>

fun httpx_timeout :: "failure \<Rightarrow> bool" where
  "httpx_timeout ConnectTimeout = True"
| "httpx_timeout ReadTimeout = True"
| "httpx_timeout _ = False"

definition call_pool :: "env \<Rightarrow> pstr \<Rightarrow> pstr \<Rightarrow> json option \<Rightarrow> world \<Rightarrow> json \<times> world" where
  "call_pool e endpoint method data w =
     (let verb = (if method = u ''GET'' then u ''GET'' else u ''POST'');
          body = (if method = u ''GET'' then None else data);
          w' = w\<lparr>trace := trace w @ [PoolCall endpoint verb body]\<rparr>
      in case http e endpoint verb body of
           Responded j \<Rightarrow> (j, w')
         | Failed f msg \<Rightarrow>
             (if httpx_timeout f
              then (JObj [(u ''status'', JStr (u ''error'')), (u ''error'', JStr (u ''Request timed out''))], w')
              else (JObj [(u ''status'', JStr (u ''error'')), (u ''error'', JStr msg)], w')))"

subsection \<open>Terminal control sequences\<close>

definition is_digit :: "nat \<Rightarrow> bool" where
  "is_digit c \<longleftrightarrow> 48 \<le> c \<and> c \<le> 57"

text \<open>
  \<open>\\[[0-9;]*m\<close> at the head of the text that follows an ESC: what follows the match.
  The class cannot consume the closing \<open>m\<close>, so the greedy run is the only candidate.
\<close>

definition sgr_end :: "pstr \<Rightarrow> pstr option" where
  "sgr_end cs =
     (case cs of
        [] \<Rightarrow> None
      | b # rest \<Rightarrow>
          if b = 91 then
            (case dropWhile (\<lambda>c. is_digit c \<or> c = 59) rest of
               [] \<Rightarrow> None
             | m # after \<Rightarrow> if m = 109 then Some after else None)
          else None)"

text \<open>\<open>\\[\\?[0-9]+[hl]\<close> at the head of the text that follows an ESC: what follows the match.\<close>

definition cursor_end :: "pstr \<Rightarrow> pstr option" where
  "cursor_end cs =
     (case cs of
        b # q # rest \<Rightarrow>
          if b = 91 \<and> q = 63 \<and> takeWhile is_digit rest \<noteq> [] then
            (case dropWhile is_digit rest of
               [] \<Rightarrow> None
             | t # after \<Rightarrow> if t = 104 \<or> t = 108 then Some after else None)
          else None
      | _ \<Rightarrow> None)"

lemma sgr_end_length: "sgr_end cs = Some after \<Longrightarrow> length after < length cs"
proof -
  assume a: "sgr_end cs = Some after"
  then obtain b rest where cs: "cs = b # rest"
    by (cases cs) (auto simp: sgr_end_def)
  from a cs obtain m where "dropWhile (\<lambda>c. is_digit c \<or> c = 59) rest = m # after"
    by (auto simp: sgr_end_def split: if_splits list.splits)
  then have "Suc (length after) = length (dropWhile (\<lambda>c. is_digit c \<or> c = 59) rest)"
    by simp
  also have "\<dots> \<le> length rest"
    by (rule length_dropWhile_le)
  finally show ?thesis using cs by simp
qed

lemma cursor_end_length: "cursor_end cs = Some after \<Longrightarrow> length after < length cs"
proof -
  assume a: "cursor_end cs = Some after"
  then obtain b q rest where cs: "cs = b # q # rest"
    by (cases cs; cases "tl cs") (auto simp: cursor_end_def)
  from a cs obtain t where "dropWhile is_digit rest = t # after"
    by (auto simp: cursor_end_def split: if_splits list.splits)
  then have "Suc (length after) = length (dropWhile is_digit rest)"
    by simp
  also have "\<dots> \<le> length rest"
    by (rule length_dropWhile_le)
  finally show ?thesis using cs by simp
qed

text \<open>\<open>re.sub(r'\x1b\[[0-9;]*m', '', s)\<close>: scan from the left, drop each match, go on after it.\<close>

function sub_sgr :: "pstr \<Rightarrow> pstr" where
  "sub_sgr [] = []"
| "sub_sgr (c # cs) =
     (if c = 27 then (case sgr_end cs of Some after \<Rightarrow> sub_sgr after | None \<Rightarrow> c # sub_sgr cs)
      else c # sub_sgr cs)"
  by pat_completeness auto
termination
  by (relation "measure length") (auto dest: sgr_end_length)

text \<open>\<open>re.sub(r'\x1b\[\?[0-9]+[hl]', '', s)\<close>\<close>

function sub_cursor :: "pstr \<Rightarrow> pstr" where
  "sub_cursor [] = []"
| "sub_cursor (c # cs) =
     (if c = 27 then (case cursor_end cs of Some after \<Rightarrow> sub_cursor after | None \<Rightarrow> c # sub_cursor cs)
      else c # sub_cursor cs)"
  by pat_completeness auto
termination
  by (relation "measure length") (auto dest: cursor_end_length)

text \<open>\<open>re.sub(pattern, '', x)\<close> on any value: \<open>re.sub\<close> wants a string.\<close>

fun py_sub_sgr :: "json \<Rightarrow> py_error + pstr" where
  "py_sub_sgr (JStr s) = Inr (sub_sgr s)"
| "py_sub_sgr _ = Inl TypeError"

subsection \<open>Registry tools\<close>

definition err :: "pstr \<Rightarrow> rendered" where
  "err msg = JsonDump (JObj [(u ''error'', JStr msg)])"

text \<open>\<open>f"'{name}'"\<close>\<close>

definition quoted :: "pstr \<Rightarrow> pstr" where
  "quoted name = [39] @ name @ [39]"

definition connection_add :: "env \<Rightarrow> dict \<Rightarrow> world \<Rightarrow> (py_error + rendered) \<times> world" where
  "connection_add e args w =
     attempt (py_strip (dict_get args (u ''name'') (JStr []))) w (\<lambda>name.
     attempt (py_strip (dict_get args (u ''tenant'') (JStr []))) w (\<lambda>tenant.
     attempt (py_strip (dict_get args (u ''appId'') (JStr []))) w (\<lambda>app_id.
     attempt (py_strip (dict_get args (u ''description'') (JStr []))) w (\<lambda>desc.
       let mcps = dict_get args (u ''mcps'') (JList []);
           missing = filter (\<lambda>f. \<not> truthy (dict_get args f JNull))
                       [u ''name'', u ''tenant'', u ''appId'', u ''description'', u ''mcps'']
       in
       if missing \<noteq> [] then (Inr (err (u ''Missing: '' @ join (u '', '') missing)), w)
       else if \<not> is_valid_guid app_id then (Inr (err (u ''Invalid appId format: '' @ app_id)), w)
       else
         attempt (load_registry w) w (\<lambda>registry.
         attempt (py_get registry (u ''connections'') (JObj [])) w (\<lambda>conns.
         attempt (py_in name conns) w (\<lambda>found.
           if found then
             (Inr (err (quoted name @ u '' already exists. Use connection_update.'')), w)
           else
             attempt (py_setitem conns name
                        (JObj [(u ''appId'', JStr app_id), (u ''tenant'', JStr tenant),
                               (u ''description'', JStr desc), (u ''mcps'', mcps)])) w (\<lambda>conns'.
             attempt (py_setitem registry (u ''connections'') conns') w (\<lambda>registry'.
               let (ok, w') = save_registry e registry' w in
               if ok then
                 (Inr (JsonDump (JObj [(u ''success'', JBool True),
                        (u ''message'', JStr (u ''Connection '' @ quoted name @ u '' added''))])), w')
               else (Inr (err (u ''Failed to save'')), w'))))))))))"

definition connection_remove :: "env \<Rightarrow> dict \<Rightarrow> world \<Rightarrow> (py_error + rendered) \<times> world" where
  "connection_remove e args w =
     attempt (py_strip (dict_get args (u ''name'') (JStr []))) w (\<lambda>name.
       if name = [] then (Inr (err (u ''name is required'')), w)
       else
         attempt (load_registry w) w (\<lambda>registry.
         attempt (py_get registry (u ''connections'') (JObj [])) w (\<lambda>conns.
         attempt (py_in name conns) w (\<lambda>found.
           if \<not> found then
             attempt (py_keys conns) w (\<lambda>names.
               (Inr (JsonDump (JObj [(u ''error'', JStr (quoted name @ u '' not found'')),
                                     (u ''available'', names)])), w))
           else
             attempt (py_getitem registry (u ''connections'')) w (\<lambda>conns0.
             attempt (py_pop conns0 name) w (\<lambda>(removed, conns').
             attempt (py_setitem registry (u ''connections'') conns') w (\<lambda>registry'.
               let (ok, w') = save_registry e registry' w in
               if ok then
                 (Inr (JsonDump (JObj [(u ''success'', JBool True),
                        (u ''message'', JStr (quoted name @ u '' removed'')),
                        (u ''removed'', removed)])), w')
               else (Inr (err (u ''Failed to save'')), w'))))))))"

text \<open>
  The loop of \<open>_connection_update\<close> over \<open>["appId", "tenant", "description"]\<close>: it
  raises, returns early with an error result (\<open>Inr (Inl r)\<close>), or ends with the record
  and the list of updated fields.
\<close>

fun update_fields :: "(json \<Rightarrow> pstr) \<Rightarrow> dict \<Rightarrow> pstr list \<Rightarrow> json \<Rightarrow> pstr list \<Rightarrow> py_error + (rendered + json \<times> pstr list)" where
  "update_fields fm args [] conn updated = Inr (Inr (conn, updated))"
| "update_fields fm args (field # rest) conn updated =
     (if truthy (dict_get args field JNull) then
        bnd (if field = u ''appId'' then py_is_valid_guid (dict_get args field JNull) else Inr True) (\<lambda>ok.
          if \<not> ok then Inr (Inl (err (u ''Invalid appId: '' @ py_str fm (dict_get args field JNull))))
          else
            bnd (py_strip (dict_get args field JNull)) (\<lambda>v.
            bnd (py_setitem conn field (JStr v)) (\<lambda>conn'.
              update_fields fm args rest conn' (updated @ [field]))))
      else update_fields fm args rest conn updated)"

definition connection_update :: "env \<Rightarrow> dict \<Rightarrow> world \<Rightarrow> (py_error + rendered) \<times> world" where
  "connection_update e args w =
     attempt (py_strip (dict_get args (u ''name'') (JStr []))) w (\<lambda>name.
       if name = [] then (Inr (err (u ''name is required'')), w)
       else
         attempt (load_registry w) w (\<lambda>registry.
         attempt (py_get registry (u ''connections'') (JObj [])) w (\<lambda>conns.
         attempt (py_in name conns) w (\<lambda>found.
           if \<not> found then (Inr (err (quoted name @ u '' not found'')), w)
           else
             attempt (py_getitem registry (u ''connections'')) w (\<lambda>conns0.
             attempt (py_getitem conns0 name) w (\<lambda>conn.
             attempt (update_fields (fmt e) args [u ''appId'', u ''tenant'', u ''description''] conn []) w (\<lambda>looped.
               case looped of
                 Inl early \<Rightarrow> (Inr early, w)
               | Inr (conn1, updated1) \<Rightarrow>
                   attempt (if truthy (dict_get args (u ''mcps'') JNull)
                            then bnd (py_setitem conn1 (u ''mcps'') (dict_get args (u ''mcps'') JNull))
                                   (\<lambda>c. Inr (c, updated1 @ [u ''mcps'']))
                            else Inr (conn1, updated1)) w (\<lambda>(conn2, updated).
                     if updated = [] then
                       (Inr (JsonDump (JObj [(u ''message'', JStr (u ''No changes''))])), w)
                     else
                       attempt (py_setitem conns0 name conn2) w (\<lambda>conns'.
                       attempt (py_setitem registry (u ''connections'') conns') w (\<lambda>registry'.
                         let (ok, w') = save_registry e registry' w in
                         if ok then
                           (Inr (JsonDump (JObj [(u ''success'', JBool True),
                                  (u ''updated'', JList (map JStr updated)),
                                  (u ''connection'', conn2)])), w')
                         else (Inr (err (u ''Failed to save'')), w')))))))))))"

subsection \<open>Tool dispatch and the run tool\<close>

text \<open>\<open>x.items()\<close>\<close>

fun py_items :: "json \<Rightarrow> py_error + dict" where
  "py_items (JObj d) = Inr d"
| "py_items _ = Inl AttributeError"

text \<open>The loop that lists the pool's connections, one line each.\<close>

fun conn_lines :: "(json \<Rightarrow> pstr) \<Rightarrow> dict \<Rightarrow> py_error + pstr" where
  "conn_lines fm [] = Inr []"
| "conn_lines fm ((conn_name, config) # rest) =
     bnd (py_get config (u ''tenant'') (JStr (u ''unknown''))) (\<lambda>t.
     bnd (py_get config (u ''description'') (JStr [])) (\<lambda>d.
     bnd (conn_lines fm rest) (\<lambda>more.
       Inr (u ''- '' @ conn_name @ u '': '' @ py_str fm t @ u '' ('' @ py_str fm d @ u '')'' @ [10] @ more))))"

text \<open>The branch of \<open>_call_tool_impl\<close> for \<open>run\<close> without parameters.\<close>

definition run_list :: "env \<Rightarrow> world \<Rightarrow> (py_error + rendered) \<times> world" where
  "run_list e w =
     (let (result, w1) = call_pool e (u ''/connections'') (u ''GET'') None w in
      attempt (py_get result (u ''connections'') (JObj [])) w1 (\<lambda>connections.
        let (metrics, w2) = call_pool e (u ''/metrics'') (u ''GET'') None w1 in
        attempt (py_items connections) w2 (\<lambda>items.
        attempt (conn_lines (fmt e) items) w2 (\<lambda>lines.
        attempt (py_get metrics (u ''uptime_human'') (JStr (u ''unknown''))) w2 (\<lambda>uptime.
        attempt (py_get metrics (u ''total_requests'') (JInt 0)) w2 (\<lambda>total.
        attempt (py_get metrics (u ''error_rate'') (JInt 0)) w2 (\<lambda>rate.
        attempt (py_get metrics (u ''active_sessions'') (JInt 0)) w2 (\<lambda>active.
        attempt (py_get metrics (u ''avg_response_ms'') (JInt 0)) w2 (\<lambda>avg.
          (Inr (Text (u ''**Available Connections:**'' @ [10] @ lines @
                      [10] @ u ''**Session Pool Status:**'' @ [10] @
                      u ''- Uptime: '' @ py_str (fmt e) uptime @ [10] @
                      u ''- Requests: '' @ py_str (fmt e) total @ u '' ('' @ py_str (fmt e) rate @ u ''% errors)'' @ [10] @
                      u ''- Active sessions: '' @ py_str (fmt e) active @ [10] @
                      u ''- Avg response: '' @ py_str (fmt e) avg @ u ''ms'' @ [10])), w2))))))))))"

text \<open>The branch \<open>if status == "auth_required"\<close>.\<close>

definition run_auth_required :: "env \<Rightarrow> json \<Rightarrow> json \<Rightarrow> json \<Rightarrow> world \<Rightarrow> (py_error + rendered) \<times> world" where
  "run_auth_required e connection module result w =
     attempt (py_get result (u ''device_code'') (JStr [])) w (\<lambda>device_code.
     attempt (load_registry w) w (\<lambda>registry.
     attempt (py_get registry (u ''connections'') (JObj [])) w (\<lambda>conns.
     attempt (py_get_key conns connection (JObj [])) w (\<lambda>conn_config.
     attempt (py_get conn_config (u ''expectedEmail'') (JStr [])) w (\<lambda>expected_email.
     attempt (if truthy expected_email
              then Inr ([10] @ u ''>>> SIGN IN AS: '' @ py_str (fmt e) expected_email @ u '' <<<'')
              else bnd (py_get conn_config (u ''tenant'') (JStr [])) (\<lambda>tenant.
                     Inr (if truthy tenant
                          then [10] @ u ''>>> Sign in with your @'' @ py_str (fmt e) tenant @ u '' account <<<''
                          else []))) w (\<lambda>sign_in_hint.
       (Inr (Text (u ''**DEVICE CODE: '' @ py_str (fmt e) device_code @ u ''**'' @ [10] @
                   u ''Go to: https://microsoft.com/devicelogin'' @ [10] @
                   sign_in_hint @ [10, 10] @
                   u ''Connection: '' @ py_str (fmt e) connection @ [10] @
                   u ''Module: '' @ py_str (fmt e) module @ [10, 10] @
                   u ''After authenticating, retry the command.'')), w)))))))"

text \<open>The branch \<open>if status == "success"\<close>.\<close>

definition run_success :: "env \<Rightarrow> json \<Rightarrow> json \<Rightarrow> world \<Rightarrow> (py_error + rendered) \<times> world" where
  "run_success e connection result w =
     attempt (py_get result (u ''output'') (JStr [])) w (\<lambda>output0.
     attempt (py_sub_sgr output0) w (\<lambda>output1.
     let output2 = sub_cursor output1 in
     attempt (py_get result (u ''authenticated_as'') JNull) w (\<lambda>authenticated_as.
     attempt (if truthy authenticated_as then
                bnd (load_registry w) (\<lambda>registry.
                bnd (py_get registry (u ''connections'') (JObj [])) (\<lambda>conns.
                bnd (py_get_key conns connection (JObj [])) (\<lambda>conn_config.
                bnd (py_get conn_config (u ''expectedEmail'') (JStr [])) (\<lambda>expected_email.
                  if truthy expected_email then
                    bnd (py_lower (lower e) expected_email) (\<lambda>expected_l.
                    bnd (py_lower (lower e) authenticated_as) (\<lambda>authenticated_l.
                      if expected_l \<noteq> authenticated_l
                      then Inr (u ''WARNING: Wrong account! Expected '' @ py_str (fmt e) expected_email @
                                u '', got '' @ py_str (fmt e) authenticated_as @ [10, 10] @ output2)
                      else Inr output2))
                  else Inr output2))))
              else Inr output2) w (\<lambda>output.
       (Inr (Text (if strip output \<noteq> [] then strip output else u ''(no output)'')), w)))))"

definition call_tool_impl :: "env \<Rightarrow> pstr \<Rightarrow> dict \<Rightarrow> world \<Rightarrow> (py_error + rendered) \<times> world" where
  "call_tool_impl e name arguments w =
     (if name = u ''connection_add'' then connection_add e arguments w
      else if name = u ''connection_remove'' then connection_remove e arguments w
      else if name = u ''connection_update'' then connection_update e arguments w
      else if name \<noteq> u ''run'' then (Inr (Text (u ''Unknown tool: '' @ name)), w)
      else
        let connection = dict_get arguments (u ''connection'') JNull;
            module = dict_get arguments (u ''module'') JNull;
            command = dict_get arguments (u ''command'') JNull
        in
        if \<not> truthy connection \<and> \<not> truthy module \<and> \<not> truthy command then run_list e w
        else if \<not> (truthy connection \<and> truthy module \<and> truthy command) then
          (Inr (Text (u ''Error: connection, module, and command are all required'')), w)
        else
          let (result, w1) =
                call_pool e (u ''/run'') (u ''POST'')
                  (Some (JObj [(u ''connection'', connection), (u ''module'', module),
                               (u ''command'', command), (u ''caller_id'', JStr (u ''mm-mcp''))])) w
          in
          attempt (py_get result (u ''status'') JNull) w1 (\<lambda>status.
            if status = JStr (u ''auth_required'') then run_auth_required e connection module result w1
            else if status = JStr (u ''auth_in_progress'') then
              (Inr (Text (u ''Auth in progress by another caller. Retry in a few seconds.'')), w1)
            else if status = JStr (u ''error'') then
              attempt (py_get result (u ''error'') (JStr (u ''Unknown error''))) w1 (\<lambda>msg.
                (Inr (Text (u ''Error: '' @ py_str (fmt e) msg)), w1))
            else if status = JStr (u ''success'') then run_success e connection result w1
            else (Inr (JsonDump result), w1)))"

section \<open>pwsh-manager (pwsh-manager/mcp_server.py)\<close>

text \<open>
  A tool result of pwsh-manager: its one text content and whether \<open>isError\<close> is set.
  \<open>Raw v\<close> is a text field holding the value \<open>v\<close> itself, not a string made from it.
\<close>

datatype content = Rendered rendered | Raw json

record response =
  content :: content
  isError :: bool

definition MCP_NAME :: pstr where
  "MCP_NAME = u ''pwsh-manager''"

subsection \<open>Connection filter\<close>

definition load_connections :: "world \<Rightarrow> json" where
  "load_connections w =
     (case regfile w of
        Parsed data \<Rightarrow> (case py_get data (u ''connections'') (JObj []) of Inl x \<Rightarrow> JObj [] | Inr c \<Rightarrow> c)
      | _ \<Rightarrow> JObj [])"

text \<open>\<open>MCP_NAME in conn.get("mcps", [])\<close>\<close>

definition allowed :: "json \<Rightarrow> py_error + bool" where
  "allowed conn = bnd (py_get conn (u ''mcps'') (JList [])) (py_in MCP_NAME)"

definition get_connection :: "world \<Rightarrow> json \<Rightarrow> py_error + json option" where
  "get_connection w name =
     bnd (py_get_key (load_connections w) name JNull) (\<lambda>conn.
       if truthy conn then bnd (allowed conn) (\<lambda>ok. Inr (if ok then Some conn else None))
       else Inr None)"

text \<open>The comprehension over \<open>connections.items()\<close> that keeps the entries of this MCP.\<close>

fun available_items :: "dict \<Rightarrow> py_error + dict" where
  "available_items [] = Inr []"
| "available_items ((name, conn) # rest) =
     bnd (allowed conn) (\<lambda>ok.
     bnd (available_items rest) (\<lambda>more.
       Inr (if ok then (name, conn) # more else more)))"

definition list_available_connections :: "world \<Rightarrow> py_error + json" where
  "list_available_connections w =
     bnd (py_items (load_connections w)) (\<lambda>items.
     bnd (available_items items) (\<lambda>kept.
       Inr (JList (map (\<lambda>p. JStr (fst p)) kept))))"

subsection \<open>Requests to the session manager\<close>

text \<open>\<open>tenant_domain.split(".")[0]\<close>, and the lookup in \<open>SHAREPOINT_TENANTS\<close> before it.\<close>

fun get_sharepoint_tenant :: "json \<Rightarrow> py_error + pstr" where
  "get_sharepoint_tenant (JStr tenant_domain) =
     Inr (if tenant_domain = u ''forit.io'' then u ''foritllc''
          else takeWhile (\<lambda>c. c \<noteq> 46) tenant_domain)"
| "get_sharepoint_tenant _ = Inl AttributeError"

text \<open>\<open>requests.exceptions.ConnectTimeout\<close> is a \<open>ConnectionError\<close> as well as a \<open>Timeout\<close>.\<close>

fun requests_connection_error :: "failure \<Rightarrow> bool" where
  "requests_connection_error ConnectTimeout = True"
| "requests_connection_error ConnectError = True"
| "requests_connection_error _ = False"

definition api_call :: "env \<Rightarrow> pstr \<Rightarrow> json option \<Rightarrow> world \<Rightarrow> json \<times> world" where
  "api_call e endpoint data w =
     (let post = (case data of None \<Rightarrow> False | Some d \<Rightarrow> truthy d);
          verb = (if post then u ''POST'' else u ''GET'');
          body = (if post then data else None);
          w' = w\<lparr>trace := trace w @ [PoolCall endpoint verb body]\<rparr>
      in case http e endpoint verb body of
           Responded j \<Rightarrow> (j, w')
         | Failed f msg \<Rightarrow>
             (if requests_connection_error f
              then (JObj [(u ''success'', JBool False),
                          (u ''error'', JStr (u ''Cannot connect to pwsh-manager. Is Docker running?''))], w')
              else (JObj [(u ''success'', JBool False), (u ''error'', JStr msg)], w')))"

text \<open>The local function \<open>build_request\<close>, closed over \<open>tenant\<close> and \<open>module\<close>.\<close>

definition build_request :: "json \<Rightarrow> json \<Rightarrow> dict \<Rightarrow> py_error + json" where
  "build_request tenant module extra =
     bnd (if module = JStr (u ''pnp'')
          then bnd (get_sharepoint_tenant tenant) (\<lambda>sp.
                 Inr [(u ''tenant'', tenant), (u ''module'', module), (u ''sharepoint_tenant'', JStr sp)])
          else Inr [(u ''tenant'', tenant), (u ''module'', module)]) (\<lambda>data.
       Inr (JObj (fold (\<lambda>(k, v). AList.update k v) extra data)))"

subsection \<open>Tool dispatch\<close>

definition reply :: "rendered \<Rightarrow> response" where
  "reply r = \<lparr>content = Rendered r, isError = False\<rparr>"

definition failure_reply :: "rendered \<Rightarrow> response" where
  "failure_reply r = \<lparr>content = Rendered r, isError = True\<rparr>"

text \<open>The loop of \<open>pwsh_list_connections\<close> that builds one summary per kept entry.\<close>

fun conn_summaries :: "dict \<Rightarrow> py_error + json list" where
  "conn_summaries [] = Inr []"
| "conn_summaries ((conn_name, conn) # rest) =
     bnd (py_get conn (u ''tenant'') (JStr [])) (\<lambda>t.
     bnd (py_get conn (u ''description'') (JStr [])) (\<lambda>d.
     bnd (conn_summaries rest) (\<lambda>more.
       Inr (JObj [(u ''name'', JStr conn_name), (u ''tenant'', t), (u ''description'', d)] # more))))"

text \<open>\<open>for s in x\<close>: the elements of a list, the keys of a dict, the characters of a string.\<close>

fun py_iter :: "json \<Rightarrow> py_error + json list" where
  "py_iter (JList xs) = Inr xs"
| "py_iter (JObj d) = Inr (map (\<lambda>p. JStr (fst p)) d)"
| "py_iter (JStr s) = Inr (map (\<lambda>c. JStr [c]) s)"
| "py_iter _ = Inl TypeError"

text \<open>One line of \<open>pwsh_sessions\<close>; the glyphs are U+2713, U+23F3 and U+2717.\<close>

definition session_line :: "(json \<Rightarrow> pstr) \<Rightarrow> json \<Rightarrow> py_error + pstr" where
  "session_line fm s =
     bnd (py_getitem s (u ''connected'')) (\<lambda>connected.
     bnd (if truthy connected then Inr [10003]
          else bnd (py_getitem s (u ''auth_pending'')) (\<lambda>pending.
                 Inr (if truthy pending then [9203] else [10007]))) (\<lambda>status.
     bnd (py_getitem s (u ''tenant'')) (\<lambda>t.
     bnd (py_getitem s (u ''module'')) (\<lambda>m.
     bnd (py_getitem s (u ''last_used'')) (\<lambda>l.
       Inr (status @ u '' '' @ py_str fm t @ u '' ('' @ py_str fm m @ u '') - Last used: '' @ py_str fm l))))))"

fun session_lines :: "(json \<Rightarrow> pstr) \<Rightarrow> json list \<Rightarrow> py_error + pstr list" where
  "session_lines fm [] = Inr []"
| "session_lines fm (s # rest) =
     bnd (session_line fm s) (\<lambda>l.
     bnd (session_lines fm rest) (\<lambda>more. Inr (l # more)))"

text \<open>The result of \<open>pwsh_disconnect\<close> when the confirmation is not given.\<close>

definition confirmation_required :: response where
  "confirmation_required =
     failure_reply (JsonDump (JObj [
       (u ''error'', JStr (u ''Disconnect requires explicit user confirmation'')),
       (u ''required'', JStr (u ''Set confirmation='' @ quoted (u ''DISCONNECT'') @ u '' to proceed'')),
       (u ''reason'', JStr (u ''This is a destructive action that terminates an authenticated session''))]))"

text \<open>The part of \<open>_handle_call_tool_impl\<close> that follows the resolution of the connection.\<close>

definition handle_on_connection ::
    "env \<Rightarrow> json \<Rightarrow> dict \<Rightarrow> json \<Rightarrow> json \<Rightarrow> json \<Rightarrow> world \<Rightarrow> (py_error + response) \<times> world" where
  "handle_on_connection e name arguments conn_name module conn w =
     attempt (py_get conn (u ''tenant'') (JStr [])) w (\<lambda>tenant.
       let title = py_str (fmt e) conn_name @ u '' ('' @ py_str (fmt e) tenant @ u '') - '' @ py_str (fmt e) module in
       if name = JStr (u ''pwsh_login'') then
         attempt (build_request tenant module [(u ''account'', dict_get arguments (u ''account'') (JStr (u ''1'')))]) w (\<lambda>data.
           let (result, w1) = api_call e (u ''/login'') (Some data) w in
           attempt (py_get result (u ''device_code'') JNull) w1 (\<lambda>device_code.
             if truthy device_code then
               attempt (py_get result (u ''auth_url'') (JStr (u ''https://microsoft.com/devicelogin''))) w1 (\<lambda>auth_url.
               attempt (py_get result (u ''auth_pending'') JNull) w1 (\<lambda>pending.
                 (Inr (reply (Text (
                    u ''**DEVICE CODE: '' @ py_str (fmt e) device_code @ u ''**'' @ [10] @
                    u ''Go to: '' @ py_str (fmt e) auth_url @ [10, 10] @
                    u ''Connection: '' @ py_str (fmt e) conn_name @ [10] @
                    u ''Tenant: '' @ py_str (fmt e) tenant @ [10] @
                    u ''Module: '' @ py_str (fmt e) module @ [10, 10] @
                    (if truthy pending
                     then u ''Authentication pending. Complete device code flow, then check status.''
                     else u ''Connected'')))), w1)))
             else
               attempt (py_get result (u ''success'') JNull) w1 (\<lambda>success.
                 if truthy success then (Inr (reply (Text (u ''Connected to '' @ title))), w1)
                 else
                   attempt (py_get result (u ''result'') (JStr (u ''Unknown error''))) w1 (\<lambda>fallback.
                   attempt (py_get result (u ''error'') fallback) w1 (\<lambda>msg.
                     (Inr (failure_reply (Text (u ''Login failed: '' @ py_str (fmt e) msg))), w1))))))
       else if name = JStr (u ''pwsh_status'') then
         attempt (build_request tenant module []) w (\<lambda>data.
           let (result, w1) = api_call e (u ''/status'') (Some data) w in
           attempt (py_get result (u ''connected'') JNull) w1 (\<lambda>connected.
             if truthy connected then (Inr (reply (Text ([10003] @ u '' '' @ title @ u '': Connected''))), w1)
             else
               attempt (py_get result (u ''auth_pending'') JNull) w1 (\<lambda>pending.
                 if truthy pending then
                   (Inr (reply (Text ([9203] @ u '' '' @ title @
                      u '': Authentication pending (complete device code flow)''))), w1)
                 else (Inr (reply (Text ([10007] @ u '' '' @ title @ u '': Not connected''))), w1))))
       else if name = JStr (u ''pwsh_run'') then
         (let command = dict_get arguments (u ''command'') (JStr []) in
          if \<not> truthy command then (Inr (failure_reply (Text (u ''Error: command is required''))), w)
          else
            attempt (build_request tenant module [(u ''command'', command)]) w (\<lambda>data.
              let (result, w1) = api_call e (u ''/run'') (Some data) w in
              attempt (py_get result (u ''success'') JNull) w1 (\<lambda>success.
                if truthy success then
                  attempt (py_get result (u ''result'') (JStr (u ''OK''))) w1 (\<lambda>v.
                    (Inr \<lparr>content = (case v of JStr t \<Rightarrow> Rendered (Text t) | _ \<Rightarrow> Raw v), isError = False\<rparr>, w1))
                else
                  attempt (py_get result (u ''result'') (JStr (u ''Command failed''))) w1 (\<lambda>fallback.
                  attempt (py_get result (u ''error'') fallback) w1 (\<lambda>msg.
                    (Inr (failure_reply (Text (u ''Error: '' @ py_str (fmt e) msg))), w1))))))
       else if name = JStr (u ''pwsh_disconnect'') then
         (let confirmation = dict_get arguments (u ''confirmation'') (JStr []) in
          if confirmation \<noteq> JStr (u ''DISCONNECT'') then
            (Inr confirmation_required, w)
          else
            attempt (build_request tenant module []) w (\<lambda>data.
              let (result, w1) = api_call e (u ''/disconnect'') (Some data) w in
              attempt (py_get result (u ''success'') JNull) w1 (\<lambda>success.
                if truthy success then (Inr (reply (Text (u ''Disconnected '' @ title))), w1)
                else
                  attempt (py_get result (u ''error'') (JStr (u ''Disconnect failed''))) w1 (\<lambda>msg.
                    (Inr (failure_reply (Text (u ''Error: '' @ py_str (fmt e) msg))), w1)))))
       else (Inr (failure_reply (Text (u ''Unknown tool: '' @ py_str (fmt e) name))), w))"

definition not_found_reply :: "(json \<Rightarrow> pstr) \<Rightarrow> json \<Rightarrow> json \<Rightarrow> response" where
  "not_found_reply fm conn_name available =
     failure_reply (JsonDump (JObj [
       (u ''error'', JStr (u ''Connection '' @ quoted (py_str fm conn_name) @
                          u '' not found or not configured for pwsh-manager MCP'')),
       (u ''available'', available)]))"

definition handle_call_tool_impl :: "env \<Rightarrow> json \<Rightarrow> dict \<Rightarrow> world \<Rightarrow> (py_error + response) \<times> world" where
  "handle_call_tool_impl e name arguments w =
     (if name = JStr (u ''pwsh_list_connections'') then
        attempt (py_items (load_connections w)) w (\<lambda>items.
        attempt (available_items items) w (\<lambda>available.
          if available = [] then
            (Inr (reply (JsonDump (JObj [
               (u ''error'', JStr (u ''No connections configured for pwsh-manager MCP'')),
               (u ''hint'', JStr (u ''Add connections to ~/.m365-connections.json with '' @
                                 quoted (u ''pwsh-manager'') @ u '' in mcps array''))]))), w)
          else
            attempt (conn_summaries available) w (\<lambda>results.
              (Inr (reply (JsonDump (JList results))), w))))
      else if name = JStr (u ''pwsh_sessions'') then
        (let (result, w1) = api_call e (u ''/sessions'') None w in
         attempt (py_get result (u ''sessions'') JNull) w1 (\<lambda>sessions.
           if \<not> truthy sessions then (Inr (reply (Text (u ''No active sessions''))), w1)
           else
             attempt (py_iter sessions) w1 (\<lambda>each.
             attempt (session_lines (fmt e) each) w1 (\<lambda>lines.
               (Inr (reply (Text (join [10] ([u ''Sessions:'', replicate 50 45] @ lines)))), w1)))))
      else
        let conn_name = dict_get arguments (u ''connectionName'') (JStr []);
            module = dict_get arguments (u ''module'') (JStr (u ''exo''))
        in
        if \<not> truthy conn_name then
          attempt (list_available_connections w) w (\<lambda>available.
            (Inr (failure_reply (JsonDump (JObj [
               (u ''error'', JStr (u ''connectionName is REQUIRED'')),
               (u ''available'', available),
               (u ''hint'', JStr (u ''Every command must specify which connection to use''))]))), w))
        else
          attempt (get_connection w conn_name) w (\<lambda>resolved.
            case resolved of
              None \<Rightarrow>
                attempt (list_available_connections w) w (\<lambda>available.
                  (Inr (not_found_reply (fmt e) conn_name available), w))
            | Some conn \<Rightarrow> handle_on_connection e name arguments conn_name module conn w))"

section \<open>Example surroundings\<close>

text \<open>
  An environment in which every request to the pool ends as \<open>r\<close> and every write of the
  registry as \<open>d\<close>; it is used where a statement is evaluated on a concrete call.  Its
  \<open>fmt\<close> is a stand-in: the concrete calls below only ever format strings.
\<close>

definition unused_fmt :: "json \<Rightarrow> pstr" where
  "unused_fmt v = []"

definition constant_http :: "http_outcome \<Rightarrow> pstr \<Rightarrow> pstr \<Rightarrow> json option \<Rightarrow> http_outcome" where
  "constant_http r endpoint verb body = r"

definition env_of :: "http_outcome \<Rightarrow> save_outcome \<Rightarrow> env" where
  "env_of r d = \<lparr>http = constant_http r, disk = d, fmt = unused_fmt, lower = ascii_lower\<rparr>"

text \<open>A registry with one connection for pwsh-manager, and the same with one more that
  names only another MCP.\<close>

definition prod_entry :: "pstr \<times> json" where
  "prod_entry = (u ''Prod'', JObj [(u ''appId'', JStr (u ''00000000-0000-0000-0000-000000000001'')),
                                   (u ''tenant'', JStr (u ''contoso.com'')),
                                   (u ''description'', JStr (u ''production'')),
                                   (u ''mcps'', JList [JStr (u ''pwsh-manager''), JStr (u ''mm'')])])"

definition graph_entry :: "pstr \<times> json" where
  "graph_entry = (u ''Graph'', JObj [(u ''appId'', JStr (u ''00000000-0000-0000-0000-000000000002'')),
                                     (u ''tenant'', JStr (u ''fabrikam.com'')),
                                     (u ''description'', JStr (u ''graph only'')),
                                     (u ''mcps'', JList [JStr (u ''microsoft-graph'')])])"

text \<open>Arguments of \<open>connection_add\<close> with the given name, appId and mcps.\<close>

definition add_args :: "string \<Rightarrow> string \<Rightarrow> json \<Rightarrow> dict" where
  "add_args name app_id mcps =
     [(u ''name'', JStr (u name)), (u ''tenant'', JStr (u ''clientx.onmicrosoft.com'')),
      (u ''appId'', JStr (u app_id)), (u ''description'', JStr (u ''Client X'')), (u ''mcps'', mcps)]"

text \<open>The record that \<open>connection_add\<close> makes of \<open>add_args\<close> with the mcps \<open>["mm"]\<close>.\<close>

definition blank_record :: json where
  "blank_record = JObj [(u ''appId'', JStr (u ''12345678-90ab-cdef-1234-567890ABCDEF'')),
                        (u ''tenant'', JStr (u ''clientx.onmicrosoft.com'')),
                        (u ''description'', JStr (u ''Client X'')),
                        (u ''mcps'', JList [JStr (u ''mm'')])]"

text \<open>A connection with an expected sign-in address, and arguments of \<open>run\<close> on a
  connection of the given name.\<close>

definition mail_entry :: "pstr \<times> json" where
  "mail_entry = (u ''Mail'', JObj [(u ''appId'', JStr (u ''00000000-0000-0000-0000-000000000003'')),
                                   (u ''tenant'', JStr (u ''b.com'')),
                                   (u ''description'', JStr (u ''mail'')),
                                   (u ''mcps'', JList [JStr (u ''mm'')]),
                                   (u ''expectedEmail'', JStr (u ''a@b.com''))])"

definition run_args :: "string \<Rightarrow> dict" where
  "run_args name = [(u ''connection'', JStr (u name)), (u ''module'', JStr (u ''exo'')),
                    (u ''command'', JStr (u ''Get-Mailbox''))]"

text \<open>A pool answer \<open>{"status": status, "output": output}\<close> with further entries.\<close>

definition answer :: "string \<Rightarrow> pstr \<Rightarrow> dict \<Rightarrow> json" where
  "answer status output others = JObj ([(u ''status'', JStr (u status)), (u ''output'', JStr output)] @ others)"

text \<open>The pool answer \<open>{"status": "auth_required", "device_code": "ABC-123"}\<close>.\<close>

definition auth_answer :: json where
  "auth_answer = JObj [(u ''status'', JStr (u ''auth_required'')), (u ''device_code'', JStr (u ''ABC-123''))]"

definition world_of :: "dict \<Rightarrow> world" where
  "world_of conns = \<lparr>regfile = Parsed (JObj [(u ''connections'', JObj conns)]), trace = []\<rparr>"

section \<open>Basic facts\<close>

lemma u_eq_iff [simp]: "u s = u t \<longleftrightarrow> s = t"
  unfolding u_def by (rule inj_map_eq_map) (rule injI, simp)

lemma u_Nil [simp]: "u [] = []"
  by (simp add: u_def)

lemma u_Nil_iff [simp]: "u s = [] \<longleftrightarrow> s = []"
  by (simp add: u_def)

lemma u_merge: "u s @ u t = u (s @ t)"
  by (simp add: u_def)

lemma attempt_simps [simp]:
  "attempt (Inl x) w f = (Inl x, w)"
  "attempt (Inr v) w f = f v"
  by (simp_all add: attempt_def)

lemma bnd_simps [simp]:
  "bnd (Inl x) f = Inl x"
  "bnd (Inr v) f = f v"
  by (simp_all add: bnd_def)

lemma env_of_simps [simp]:
  "http (env_of r d) ep v b = r"
  "disk (env_of r d) = d"
  "fmt (env_of r d) = unused_fmt"
  "lower (env_of r d) = ascii_lower"
  by (simp_all add: env_of_def constant_http_def)

lemma world_of_simps [simp]:
  "regfile (world_of conns) = Parsed (JObj [(u ''connections'', JObj conns)])"
  "trace (world_of conns) = []"
  by (simp_all add: world_of_def)

section \<open>The pool clients\<close>

text \<open>
  C9, as the code has it.  Neither client raises: each is a total function to a JSON value.
  \<open>call_pool\<close> (mm) answers a failed request with \<open>{"status": "error", "error": ...}\<close>,
  where the error is \<open>Request timed out\<close> for a timeout and the failure's description
  otherwise.  \<open>api_call\<close> (pwsh-manager) answers with \<open>{"success": false, "error": ...}\<close>,
  where the error is a fixed text for a connection error and the failure's description
  otherwise, a read timeout included.  A request that is answered yields the answer.
  This holds of every call of either client: for \<open>call_pool\<close> with any method and
  data, for \<open>api_call\<close> with data (a POST when the data is true) and without (a GET).
\<close>

theorem pool_clients_normalise_failures:
  "(http e endpoint (if meth = u ''GET'' then u ''GET'' else u ''POST'')
        (if meth = u ''GET'' then None else data) = Failed f msg \<longrightarrow>
      fst (call_pool e endpoint meth data w) =
        JObj [(u ''status'', JStr (u ''error'')),
              (u ''error'', JStr (if httpx_timeout f then u ''Request timed out'' else msg))])
   \<and> (http e endpoint (if meth = u ''GET'' then u ''GET'' else u ''POST'')
        (if meth = u ''GET'' then None else data) = Responded j \<longrightarrow>
      fst (call_pool e endpoint meth data w) = j)
   \<and> (http e endpoint
        (if (case payload of None \<Rightarrow> False | Some d \<Rightarrow> truthy d) then u ''POST'' else u ''GET'')
        (if (case payload of None \<Rightarrow> False | Some d \<Rightarrow> truthy d) then payload else None)
          = Failed f msg \<longrightarrow>
      fst (api_call e endpoint payload w) =
        JObj [(u ''success'', JBool False),
              (u ''error'', JStr (if requests_connection_error f
                                  then u ''Cannot connect to pwsh-manager. Is Docker running?''
                                  else msg))])
   \<and> (http e endpoint
        (if (case payload of None \<Rightarrow> False | Some d \<Rightarrow> truthy d) then u ''POST'' else u ''GET'')
        (if (case payload of None \<Rightarrow> False | Some d \<Rightarrow> truthy d) then payload else None)
          = Responded j \<longrightarrow>
      fst (api_call e endpoint payload w) = j)"
  by (simp add: call_pool_def api_call_def Let_def)

theorem pool_clients_normalise_failures_witness:
  "fst (call_pool (env_of (Failed ReadTimeout (u ''The read operation timed out'')) SaveOk)
          (u ''/run'') (u ''POST'') (Some (JObj [(u ''connection'', JStr (u ''Prod''))])) (world_of []))
     = JObj [(u ''status'', JStr (u ''error'')), (u ''error'', JStr (u ''Request timed out''))]
   \<and> fst (call_pool (env_of (Failed ConnectError (u ''Connection refused'')) SaveOk)
          (u ''/metrics'') (u ''GET'') None (world_of []))
     = JObj [(u ''status'', JStr (u ''error'')), (u ''error'', JStr (u ''Connection refused''))]
   \<and> fst (api_call (env_of (Failed ConnectError (u ''Connection refused'')) SaveOk)
          (u ''/status'') (Some (JObj [(u ''tenant'', JStr (u ''contoso.com''))])) (world_of []))
     = JObj [(u ''success'', JBool False),
             (u ''error'', JStr (u ''Cannot connect to pwsh-manager. Is Docker running?''))]
   \<and> fst (api_call (env_of (Failed OtherError (u ''Expecting value'')) SaveOk)
          (u ''/sessions'') None (world_of []))
     = JObj [(u ''success'', JBool False), (u ''error'', JStr (u ''Expecting value''))]
   \<and> fst (api_call (env_of (Responded (JObj [(u ''sessions'', JList [])])) SaveOk)
          (u ''/sessions'') None (world_of []))
     = JObj [(u ''sessions'', JList [])]"
  using pool_clients_normalise_failures
          [where e = "env_of (Failed ReadTimeout (u ''The read operation timed out'')) SaveOk"
             and endpoint = "u ''/run''" and meth = "u ''POST''"
             and data = "Some (JObj [(u ''connection'', JStr (u ''Prod''))])"
             and f = ReadTimeout and msg = "u ''The read operation timed out''"
             and w = "world_of []", THEN conjunct1]
        pool_clients_normalise_failures
          [where e = "env_of (Failed ConnectError (u ''Connection refused'')) SaveOk"
             and endpoint = "u ''/metrics''" and meth = "u ''GET''" and data = None
             and f = ConnectError and msg = "u ''Connection refused''"
             and w = "world_of []", THEN conjunct1]
        pool_clients_normalise_failures
          [where e = "env_of (Failed ConnectError (u ''Connection refused'')) SaveOk"
             and endpoint = "u ''/status''"
             and payload = "Some (JObj [(u ''tenant'', JStr (u ''contoso.com''))])"
             and f = ConnectError and msg = "u ''Connection refused''"
             and w = "world_of []", THEN conjunct2, THEN conjunct2, THEN conjunct1]
        pool_clients_normalise_failures
          [where e = "env_of (Failed OtherError (u ''Expecting value'')) SaveOk"
             and endpoint = "u ''/sessions''" and payload = None
             and f = OtherError and msg = "u ''Expecting value''"
             and w = "world_of []", THEN conjunct2, THEN conjunct2, THEN conjunct1]
        pool_clients_normalise_failures
          [where e = "env_of (Responded (JObj [(u ''sessions'', JList [])])) SaveOk"
             and endpoint = "u ''/sessions''" and payload = None
             and j = "JObj [(u ''sessions'', JList [])]"
             and w = "world_of []", THEN conjunct2, THEN conjunct2, THEN conjunct2]
  by simp

text \<open>
  C9 as stated fails for pwsh-manager's client: a read timeout there is not answered with
  \<open>{"status": "error", "error": "Request timed out"}\<close> but with the \<open>success\<close>
  shape around the exception's own text.
\<close>

theorem api_call_timeout_counterexample:
  "fst (api_call (env_of (Failed ReadTimeout (u ''Read timed out.'')) SaveOk) (u ''/status'')
          (Some (JObj [(u ''tenant'', JStr (u ''contoso.com'')), (u ''module'', JStr (u ''exo''))]))
          (world_of []))
     = JObj [(u ''success'', JBool False), (u ''error'', JStr (u ''Read timed out.''))]
   \<and> JObj [(u ''success'', JBool False), (u ''error'', JStr (u ''Read timed out.''))]
     \<noteq> JObj [(u ''status'', JStr (u ''error'')), (u ''error'', JStr (u ''Request timed out''))]"
  by (simp add: api_call_def Let_def)

section \<open>The disconnect guard of pwsh-manager\<close>

lemma api_call_trace:
  "trace (snd (api_call e ep d w)) =
     trace w @ [PoolCall ep (if (case d of None \<Rightarrow> False | Some x \<Rightarrow> truthy x) then u ''POST'' else u ''GET'')
                 (if (case d of None \<Rightarrow> False | Some x \<Rightarrow> truthy x) then d else None)]"
  by (simp add: api_call_def Let_def split: http_outcome.splits)

lemma attempt_keeps:
  assumes "\<And>v. m = Inr v \<Longrightarrow> ev \<notin> set (trace (snd (f v)))" and "ev \<notin> set (trace w)"
  shows "ev \<notin> set (trace (snd (attempt m w f)))"
  using assms by (cases m) simp_all

lemma if_keeps:
  assumes "c \<Longrightarrow> ev \<notin> set (trace (snd a))" and "\<not> c \<Longrightarrow> ev \<notin> set (trace (snd b))"
  shows "ev \<notin> set (trace (snd (if c then a else b)))"
  using assms by simp

lemma on_connection_other:
  assumes "name \<noteq> JStr (u ''pwsh_disconnect'')"
      and "PoolCall (u ''/disconnect'') v b \<notin> set (trace w)"
  shows "PoolCall (u ''/disconnect'') v b \<notin>
           set (trace (snd (handle_on_connection e name arguments cn md conn w)))"
  unfolding handle_on_connection_def Let_def split_def
  using assms
  by (intro attempt_keeps) (simp_all add: api_call_trace attempt_keeps)

lemma on_connection_unconfirmed:
  assumes "dict_get arguments (u ''confirmation'') (JStr []) \<noteq> JStr (u ''DISCONNECT'')"
  shows "snd (handle_on_connection e (JStr (u ''pwsh_disconnect'')) arguments cn md conn w) = w"
  using assms
  by (cases "py_get conn (u ''tenant'') (JStr [])") (simp_all add: handle_on_connection_def Let_def)

lemma handle_unconfirmed:
  assumes "dict_get arguments (u ''confirmation'') (JStr []) \<noteq> JStr (u ''DISCONNECT'')"
  shows "snd (handle_call_tool_impl e (JStr (u ''pwsh_disconnect'')) arguments w) = w"
proof -
  let ?cn = "dict_get arguments (u ''connectionName'') (JStr [])"
  show ?thesis
  proof (cases "truthy ?cn")
    case False
    then show ?thesis
      by (cases "list_available_connections w") (simp_all add: handle_call_tool_impl_def Let_def)
  next
    case True
    show ?thesis
    proof (cases "get_connection w ?cn")
      case (Inl x)
      with True show ?thesis by (simp add: handle_call_tool_impl_def Let_def)
    next
      case (Inr resolved)
      show ?thesis
      proof (cases resolved)
        case None
        with True Inr show ?thesis
          by (cases "list_available_connections w") (simp_all add: handle_call_tool_impl_def Let_def)
      next
        case (Some conn)
        with True Inr assms show ?thesis
          by (simp add: handle_call_tool_impl_def Let_def on_connection_unconfirmed)
      qed
    qed
  qed
qed

lemma get_connection_Some_dict:
  "get_connection w n = Inr (Some conn) \<Longrightarrow> \<exists>d. conn = JObj d"
  by (cases conn) (auto simp: get_connection_def allowed_def bnd_def split: sum.splits if_splits)

lemma handle_unconfirmed_result:
  assumes "dict_get arguments (u ''confirmation'') (JStr []) \<noteq> JStr (u ''DISCONNECT'')"
      and "truthy (dict_get arguments (u ''connectionName'') (JStr []))"
      and "get_connection w (dict_get arguments (u ''connectionName'') (JStr [])) = Inr (Some conn)"
  shows "fst (handle_call_tool_impl e (JStr (u ''pwsh_disconnect'')) arguments w) = Inr confirmation_required"
proof -
  from assms(3) obtain d where "conn = JObj d"
    by (auto dest: get_connection_Some_dict)
  with assms show ?thesis
    by (simp add: handle_call_tool_impl_def handle_on_connection_def Let_def)
qed

lemma handle_disconnect_call:
  assumes "PoolCall (u ''/disconnect'') v b \<in> set (trace (snd (handle_call_tool_impl e name arguments w)))"
      and "PoolCall (u ''/disconnect'') v b \<notin> set (trace w)"
  shows "name = JStr (u ''pwsh_disconnect'') \<and>
         dict_get arguments (u ''confirmation'') (JStr []) = JStr (u ''DISCONNECT'')"
proof (rule ccontr)
  assume neg: "\<not> ?thesis"
  have "PoolCall (u ''/disconnect'') v b \<notin> set (trace (snd (handle_call_tool_impl e name arguments w)))"
  proof (cases "name = JStr (u ''pwsh_disconnect'')")
    case True
    with neg have "dict_get arguments (u ''confirmation'') (JStr []) \<noteq> JStr (u ''DISCONNECT'')"
      by simp
    then show ?thesis
      using True assms(2) by (simp add: handle_unconfirmed)
  next
    case False
    show ?thesis
      unfolding handle_call_tool_impl_def Let_def split_def
      using False assms(2)
      by (intro attempt_keeps if_keeps)
         (simp_all add: api_call_trace attempt_keeps on_connection_other split: option.splits)
  qed
  with assms(1) show False by simp
qed

lemma handle_disconnect_nameless:
  assumes "\<not> truthy (dict_get arguments (u ''connectionName'') (JStr []))"
  shows "handle_call_tool_impl e (JStr (u ''pwsh_disconnect'')) arguments w =
           attempt (list_available_connections w) w (\<lambda>available.
             (Inr (failure_reply (JsonDump (JObj [
                (u ''error'', JStr (u ''connectionName is REQUIRED'')),
                (u ''available'', available),
                (u ''hint'', JStr (u ''Every command must specify which connection to use''))]))), w))"
  using assms by (simp add: handle_call_tool_impl_def Let_def)

lemma handle_disconnect_unresolved:
  assumes "truthy (dict_get arguments (u ''connectionName'') (JStr []))"
      and "get_connection w (dict_get arguments (u ''connectionName'') (JStr [])) = Inr None"
  shows "handle_call_tool_impl e (JStr (u ''pwsh_disconnect'')) arguments w =
           attempt (list_available_connections w) w (\<lambda>available.
             (Inr (not_found_reply (fmt e) (dict_get arguments (u ''connectionName'') (JStr [])) available), w))"
  using assms by (simp add: handle_call_tool_impl_def Let_def)

lemma handle_disconnect_raises:
  assumes "truthy (dict_get arguments (u ''connectionName'') (JStr []))"
      and "get_connection w (dict_get arguments (u ''connectionName'') (JStr [])) = Inl x"
  shows "handle_call_tool_impl e (JStr (u ''pwsh_disconnect'')) arguments w = (Inl x, w)"
  using assms by (simp add: handle_call_tool_impl_def Let_def)

text \<open>
  C6, as the code has it.  A \<open>pwsh_disconnect\<close> call whose confirmation is not exactly
  \<open>DISCONNECT\<close> issues no request to the pool and leaves the world as it was.  Its
  answer is decided in the order of the code: without a \<open>connectionName\<close> it is the
  \<open>connectionName is REQUIRED\<close> error with the listing; with a name that does not
  resolve for pwsh-manager it is the not-found error with the listing; with a name that
  resolves it is the confirmation-required error.  The first two answers do not depend on
  the confirmation, and they need the listing: where resolving the name or listing the
  connections raises (a record whose \<open>mcps\<close> cannot be tested), the call raises the
  same exception.  Whatever the tool and its arguments, a request to \<open>/disconnect\<close> is
  issued only by \<open>pwsh_disconnect\<close> with the confirmation \<open>DISCONNECT\<close>.
\<close>

theorem disconnect_needs_confirmation:
  "(dict_get arguments (u ''confirmation'') (JStr []) \<noteq> JStr (u ''DISCONNECT'') \<longrightarrow>
      snd (handle_call_tool_impl e (JStr (u ''pwsh_disconnect'')) arguments w) = w)
   \<and> (dict_get arguments (u ''confirmation'') (JStr []) \<noteq> JStr (u ''DISCONNECT'') \<and>
      truthy (dict_get arguments (u ''connectionName'') (JStr [])) \<and>
      get_connection w (dict_get arguments (u ''connectionName'') (JStr [])) = Inr (Some conn) \<longrightarrow>
      fst (handle_call_tool_impl e (JStr (u ''pwsh_disconnect'')) arguments w) = Inr confirmation_required)
   \<and> (PoolCall (u ''/disconnect'') v b \<in> set (trace (snd (handle_call_tool_impl e name arguments w))) \<and>
      PoolCall (u ''/disconnect'') v b \<notin> set (trace w) \<longrightarrow>
      name = JStr (u ''pwsh_disconnect'') \<and>
      dict_get arguments (u ''confirmation'') (JStr []) = JStr (u ''DISCONNECT''))
   \<and> (\<not> truthy (dict_get arguments (u ''connectionName'') (JStr [])) \<and>
      list_available_connections w = Inr available \<longrightarrow>
      handle_call_tool_impl e (JStr (u ''pwsh_disconnect'')) arguments w =
        (Inr (failure_reply (JsonDump (JObj [
           (u ''error'', JStr (u ''connectionName is REQUIRED'')),
           (u ''available'', available),
           (u ''hint'', JStr (u ''Every command must specify which connection to use''))]))), w))
   \<and> (truthy (dict_get arguments (u ''connectionName'') (JStr [])) \<and>
      get_connection w (dict_get arguments (u ''connectionName'') (JStr [])) = Inr None \<and>
      list_available_connections w = Inr available \<longrightarrow>
      handle_call_tool_impl e (JStr (u ''pwsh_disconnect'')) arguments w =
        (Inr (not_found_reply (fmt e) (dict_get arguments (u ''connectionName'') (JStr [])) available), w))
   \<and> ((\<not> truthy (dict_get arguments (u ''connectionName'') (JStr [])) \<or>
       get_connection w (dict_get arguments (u ''connectionName'') (JStr [])) = Inr None) \<and>
      list_available_connections w = Inl x \<longrightarrow>
      handle_call_tool_impl e (JStr (u ''pwsh_disconnect'')) arguments w = (Inl x, w))
   \<and> (truthy (dict_get arguments (u ''connectionName'') (JStr [])) \<and>
      get_connection w (dict_get arguments (u ''connectionName'') (JStr [])) = Inl x \<longrightarrow>
      handle_call_tool_impl e (JStr (u ''pwsh_disconnect'')) arguments w = (Inl x, w))"
proof -
  let ?cn = "dict_get arguments (u ''connectionName'') (JStr [])"
  let ?call = "handle_call_tool_impl e (JStr (u ''pwsh_disconnect'')) arguments w"
  have 1: "dict_get arguments (u ''confirmation'') (JStr []) \<noteq> JStr (u ''DISCONNECT'') \<longrightarrow> snd ?call = w"
    using handle_unconfirmed by blast
  have 2: "dict_get arguments (u ''confirmation'') (JStr []) \<noteq> JStr (u ''DISCONNECT'') \<and>
      truthy ?cn \<and> get_connection w ?cn = Inr (Some conn) \<longrightarrow> fst ?call = Inr confirmation_required"
    using handle_unconfirmed_result by blast
  have 3: "PoolCall (u ''/disconnect'') v b \<in> set (trace (snd (handle_call_tool_impl e name arguments w))) \<and>
      PoolCall (u ''/disconnect'') v b \<notin> set (trace w) \<longrightarrow>
      name = JStr (u ''pwsh_disconnect'') \<and>
      dict_get arguments (u ''confirmation'') (JStr []) = JStr (u ''DISCONNECT'')"
    using handle_disconnect_call by blast
  have 4: "\<not> truthy ?cn \<and> list_available_connections w = Inr available \<longrightarrow>
      ?call = (Inr (failure_reply (JsonDump (JObj [
           (u ''error'', JStr (u ''connectionName is REQUIRED'')),
           (u ''available'', available),
           (u ''hint'', JStr (u ''Every command must specify which connection to use''))]))), w)"
    by (simp add: handle_disconnect_nameless)
  have 5: "truthy ?cn \<and> get_connection w ?cn = Inr None \<and> list_available_connections w = Inr available \<longrightarrow>
      ?call = (Inr (not_found_reply (fmt e) ?cn available), w)"
    by (simp add: handle_disconnect_unresolved)
  have 6: "(\<not> truthy ?cn \<or> get_connection w ?cn = Inr None) \<and> list_available_connections w = Inl x \<longrightarrow>
      ?call = (Inl x, w)"
    by (cases "truthy ?cn") (simp_all add: handle_disconnect_nameless handle_disconnect_unresolved)
  have 7: "truthy ?cn \<and> get_connection w ?cn = Inl x \<longrightarrow> ?call = (Inl x, w)"
    by (simp add: handle_disconnect_raises)
  from 1 2 3 4 5 6 7 show ?thesis by (intro conjI)
qed

lemmas pwsh_eval =
  handle_call_tool_impl_def handle_on_connection_def get_connection_def load_connections_def
  list_available_connections_def allowed_def MCP_NAME_def build_request_def api_call_def
  dict_get_def Let_def prod_entry_def graph_entry_def not_found_reply_def confirmation_required_def
  failure_reply_def reply_def quoted_def

theorem disconnect_needs_confirmation_witness:
  "snd (handle_call_tool_impl (env_of (Responded (JObj [(u ''success'', JBool True)])) SaveOk)
          (JStr (u ''pwsh_disconnect''))
          [(u ''connectionName'', JStr (u ''Prod'')), (u ''confirmation'', JStr (u ''yes''))]
          (world_of [prod_entry])) = world_of [prod_entry]
   \<and> fst (handle_call_tool_impl (env_of (Responded (JObj [(u ''success'', JBool True)])) SaveOk)
          (JStr (u ''pwsh_disconnect''))
          [(u ''connectionName'', JStr (u ''Prod'')), (u ''confirmation'', JStr (u ''yes''))]
          (world_of [prod_entry])) = Inr confirmation_required
   \<and> PoolCall (u ''/disconnect'') (u ''POST'')
         (Some (JObj [(u ''tenant'', JStr (u ''contoso.com'')), (u ''module'', JStr (u ''exo''))]))
       \<in> set (trace (snd (handle_call_tool_impl
                 (env_of (Responded (JObj [(u ''success'', JBool True)])) SaveOk)
                 (JStr (u ''pwsh_disconnect''))
                 [(u ''connectionName'', JStr (u ''Prod'')), (u ''confirmation'', JStr (u ''DISCONNECT''))]
                 (world_of [prod_entry]))))
   \<and> handle_call_tool_impl (env_of (Responded (JObj [(u ''success'', JBool True)])) SaveOk)
          (JStr (u ''pwsh_disconnect'')) [(u ''confirmation'', JStr (u ''yes''))]
          (world_of [prod_entry, graph_entry])
       = (Inr (failure_reply (JsonDump (JObj [
             (u ''error'', JStr (u ''connectionName is REQUIRED'')),
             (u ''available'', JList [JStr (u ''Prod'')]),
             (u ''hint'', JStr (u ''Every command must specify which connection to use''))]))),
          world_of [prod_entry, graph_entry])
   \<and> handle_call_tool_impl (env_of (Responded (JObj [(u ''success'', JBool True)])) SaveOk)
          (JStr (u ''pwsh_disconnect''))
          [(u ''connectionName'', JStr (u ''Graph'')), (u ''confirmation'', JStr (u ''yes''))]
          (world_of [prod_entry, graph_entry])
       = (Inr (not_found_reply unused_fmt (JStr (u ''Graph'')) (JList [JStr (u ''Prod'')])),
          world_of [prod_entry, graph_entry])
   \<and> handle_call_tool_impl (env_of (Responded (JObj [(u ''success'', JBool True)])) SaveOk)
          (JStr (u ''pwsh_disconnect''))
          [(u ''connectionName'', JStr (u ''Nope'')), (u ''confirmation'', JStr (u ''yes''))]
          (world_of [(u ''Bad'', JInt 1)])
       = (Inl AttributeError, world_of [(u ''Bad'', JInt 1)])
   \<and> handle_call_tool_impl (env_of (Responded (JObj [(u ''success'', JBool True)])) SaveOk)
          (JStr (u ''pwsh_disconnect''))
          [(u ''connectionName'', JStr (u ''Bad'')), (u ''confirmation'', JStr (u ''yes''))]
          (world_of [(u ''Bad'', JInt 1)])
       = (Inl AttributeError, world_of [(u ''Bad'', JInt 1)])"
proof -
  let ?e = "env_of (Responded (JObj [(u ''success'', JBool True)])) SaveOk"
  let ?args = "[(u ''connectionName'', JStr (u ''Prod'')), (u ''confirmation'', JStr (u ''yes''))]"
  let ?nameless = "[(u ''confirmation'', JStr (u ''yes''))]"
  let ?graph = "[(u ''connectionName'', JStr (u ''Graph'')), (u ''confirmation'', JStr (u ''yes''))]"
  let ?nope = "[(u ''connectionName'', JStr (u ''Nope'')), (u ''confirmation'', JStr (u ''yes''))]"
  let ?bad = "[(u ''connectionName'', JStr (u ''Bad'')), (u ''confirmation'', JStr (u ''yes''))]"
  let ?w2 = "world_of [prod_entry, graph_entry]"
  let ?wb = "world_of [(u ''Bad'', JInt 1)]"
  have unconfirmed: "dict_get ?args (u ''confirmation'') (JStr []) \<noteq> JStr (u ''DISCONNECT'')"
    by (simp add: dict_get_def)
  have named: "truthy (dict_get ?args (u ''connectionName'') (JStr []))"
    by (simp add: dict_get_def)
  have resolved: "get_connection (world_of [prod_entry]) (dict_get ?args (u ''connectionName'') (JStr []))
                    = Inr (Some (snd prod_entry))"
    by (simp add: pwsh_eval)
  have called: "PoolCall (u ''/disconnect'') (u ''POST'')
         (Some (JObj [(u ''tenant'', JStr (u ''contoso.com'')), (u ''module'', JStr (u ''exo''))]))
       \<in> set (trace (snd (handle_call_tool_impl ?e (JStr (u ''pwsh_disconnect''))
                 [(u ''connectionName'', JStr (u ''Prod'')), (u ''confirmation'', JStr (u ''DISCONNECT''))]
                 (world_of [prod_entry]))))"
    by (simp add: pwsh_eval)
  have listing: "list_available_connections ?w2 = Inr (JList [JStr (u ''Prod'')])"
                "list_available_connections ?wb = Inl AttributeError"
    by (simp_all add: pwsh_eval)
  have names: "\<not> truthy (dict_get ?nameless (u ''connectionName'') (JStr []))"
              "dict_get ?graph (u ''connectionName'') (JStr []) = JStr (u ''Graph'')"
              "dict_get ?nope (u ''connectionName'') (JStr []) = JStr (u ''Nope'')"
              "dict_get ?bad (u ''connectionName'') (JStr []) = JStr (u ''Bad'')"
    by (simp_all add: dict_get_def)
  have lookups: "get_connection ?w2 (JStr (u ''Graph'')) = Inr None"
                "get_connection ?wb (JStr (u ''Nope'')) = Inr None"
                "get_connection ?wb (JStr (u ''Bad'')) = Inl AttributeError"
    by (simp_all add: pwsh_eval)
  note first = disconnect_needs_confirmation
            [where e = ?e and arguments = ?args and w = "world_of [prod_entry]"
               and conn = "snd prod_entry"]
  have 1: "snd (handle_call_tool_impl ?e (JStr (u ''pwsh_disconnect'')) ?args (world_of [prod_entry]))
             = world_of [prod_entry]"
    using first unconfirmed by blast
  have 2: "fst (handle_call_tool_impl ?e (JStr (u ''pwsh_disconnect'')) ?args (world_of [prod_entry]))
             = Inr confirmation_required"
    using first unconfirmed named resolved by blast
  have 4: "handle_call_tool_impl ?e (JStr (u ''pwsh_disconnect'')) ?nameless ?w2
       = (Inr (failure_reply (JsonDump (JObj [
             (u ''error'', JStr (u ''connectionName is REQUIRED'')),
             (u ''available'', JList [JStr (u ''Prod'')]),
             (u ''hint'', JStr (u ''Every command must specify which connection to use''))]))), ?w2)"
    using disconnect_needs_confirmation
            [where e = ?e and arguments = ?nameless and w = ?w2 and available = "JList [JStr (u ''Prod'')]"]
          names(1) listing(1)
    by blast
  have 5: "handle_call_tool_impl ?e (JStr (u ''pwsh_disconnect'')) ?graph ?w2
       = (Inr (not_found_reply unused_fmt (JStr (u ''Graph'')) (JList [JStr (u ''Prod'')])), ?w2)"
    using disconnect_needs_confirmation
            [where e = ?e and arguments = ?graph and w = ?w2 and available = "JList [JStr (u ''Prod'')]",
             unfolded names(2)]
          lookups(1) listing(1)
    by (simp add: env_of_def)
  have 6: "handle_call_tool_impl ?e (JStr (u ''pwsh_disconnect'')) ?nope ?wb = (Inl AttributeError, ?wb)"
    using disconnect_needs_confirmation
            [where e = ?e and arguments = ?nope and w = ?wb and x = AttributeError, unfolded names(3)]
          lookups(2) listing(2)
    by simp
  have 7: "handle_call_tool_impl ?e (JStr (u ''pwsh_disconnect'')) ?bad ?wb = (Inl AttributeError, ?wb)"
    using disconnect_needs_confirmation
            [where e = ?e and arguments = ?bad and w = ?wb and x = AttributeError, unfolded names(4)]
          lookups(3)
    by simp
  from 1 2 called 4 5 6 7 show ?thesis by (intro conjI)
qed

text \<open>
  C6 as stated fails where the connection does not resolve: a \<open>pwsh_disconnect\<close> call
  without the confirmation, for a name the registry does not have, gets the not-found
  error, not the confirmation-required error (and still issues no request).
\<close>

theorem disconnect_unknown_connection_counterexample:
  "handle_call_tool_impl (env_of (Responded (JObj [(u ''success'', JBool True)])) SaveOk)
       (JStr (u ''pwsh_disconnect''))
       [(u ''connectionName'', JStr (u ''Nope'')), (u ''confirmation'', JStr (u ''yes''))]
       (world_of [prod_entry])
     = (Inr (not_found_reply unused_fmt (JStr (u ''Nope'')) (JList [JStr (u ''Prod'')])),
        world_of [prod_entry])
   \<and> not_found_reply unused_fmt (JStr (u ''Nope'')) (JList [JStr (u ''Prod'')]) \<noteq> confirmation_required"
  by (simp add: pwsh_eval)

section \<open>The connection filter of pwsh-manager\<close>

text \<open>After the connection is resolved the registry file is not read again.\<close>

lemma api_call_regfile:
  "api_call e ep d (w\<lparr>regfile := x\<rparr>) = (fst (api_call e ep d w), (snd (api_call e ep d w))\<lparr>regfile := x\<rparr>)"
  by (simp add: api_call_def Let_def split: http_outcome.splits)

lemma attempt_regfile:
  assumes "\<And>v. m = Inr v \<Longrightarrow> f v = (fst (g v), (snd (g v))\<lparr>regfile := x\<rparr>)"
  shows "attempt m (w\<lparr>regfile := x\<rparr>) f = (fst (attempt m w g), (snd (attempt m w g))\<lparr>regfile := x\<rparr>)"
  using assms by (cases m) simp_all

lemma attempt_const_regfile:
  "attempt m (w\<lparr>regfile := x\<rparr>) (\<lambda>v. (r v, w\<lparr>regfile := x\<rparr>)) =
     (fst (attempt m w (\<lambda>v. (r v, w))), (snd (attempt m w (\<lambda>v. (r v, w))))\<lparr>regfile := x\<rparr>)"
  by (cases m) simp_all

lemma if_regfile:
  assumes "c \<Longrightarrow> a' = (fst a, (snd a)\<lparr>regfile := x\<rparr>)"
      and "\<not> c \<Longrightarrow> b' = (fst b, (snd b)\<lparr>regfile := x\<rparr>)"
  shows "(if c then a' else b') = (fst (if c then a else b), (snd (if c then a else b))\<lparr>regfile := x\<rparr>)"
  using assms by simp

lemma on_connection_regfile:
  "handle_on_connection e name arguments cn md conn (w\<lparr>regfile := x\<rparr>) =
     (fst (handle_on_connection e name arguments cn md conn w),
      (snd (handle_on_connection e name arguments cn md conn w))\<lparr>regfile := x\<rparr>)"
  unfolding handle_on_connection_def Let_def split_def api_call_regfile fst_conv snd_conv
  by (intro attempt_regfile if_regfile) simp_all

text \<open>An entry that does not name pwsh-manager changes nothing in what the filter yields.\<close>

lemma available_items_insert:
  assumes "allowed c = Inr False"
  shows "available_items (d1 @ (k, c) # d2) = available_items (d1 @ d2)"
proof (induction d1)
  case Nil
  show ?case using assms by (cases "available_items d2") simp_all
next
  case (Cons p d1)
  then show ?case by (cases p) simp
qed

lemma available_items_keys:
  "available_items d = Inr kept \<Longrightarrow> set (map fst kept) \<subseteq> set (map fst d)"
proof (induction d arbitrary: kept)
  case Nil
  then show ?case by simp
next
  case (Cons p d)
  obtain n c where p: "p = (n, c)" by (cases p)
  from Cons.prems p obtain ok more where
    "allowed c = Inr ok" "available_items d = Inr more" "kept = (if ok then (n, c) # more else more)"
    by (auto simp: bnd_def split: sum.splits)
  with Cons.IH[of more] p show ?case by auto
qed

lemma dict_get_insert_other:
  "k' \<noteq> k \<Longrightarrow> dict_get (d1 @ (k, c) # d2) k' dflt = dict_get (d1 @ d2) k' dflt"
  by (simp add: dict_get_def map_add_def split: option.splits)

lemma get_connection_insert:
  assumes w0: "load_connections w0 = JObj (d1 @ d2)"
      and w1: "load_connections w1 = JObj (d1 @ (k, c) # d2)"
      and fresh: "k \<notin> set (map fst (d1 @ d2))"
      and c: "allowed c = Inr False"
  shows "get_connection w1 n = get_connection w0 n"
proof (cases "n = JStr k")
  case True
  from fresh have "dict_get (d1 @ d2) k JNull = JNull"
    by (simp add: dict_get_def map_add_def map_of_eq_None_iff[THEN iffD2])
  moreover from fresh have "dict_get (d1 @ (k, c) # d2) k JNull = c"
    by (simp add: dict_get_def map_add_def map_of_eq_None_iff[THEN iffD2])
  ultimately show ?thesis
    using True w0 w1 c by (simp add: get_connection_def)
next
  case False
  then show ?thesis
    using w0 w1 by (cases n) (simp_all add: get_connection_def dict_get_insert_other)
qed

lemma get_connection_absent:
  assumes "load_connections w = JObj d" and "k \<notin> set (map fst d)"
  shows "get_connection w (JStr k) = Inr None"
proof -
  from assms(2) have "dict_get d k JNull = JNull"
    by (simp add: dict_get_def map_of_eq_None_iff[THEN iffD2])
  with assms(1) show ?thesis by (simp add: get_connection_def)
qed

lemma list_available_insert:
  assumes w0: "load_connections w0 = JObj (d1 @ d2)"
      and w1: "load_connections w1 = JObj (d1 @ (k, c) # d2)"
      and c: "allowed c = Inr False"
  shows "list_available_connections w1 = list_available_connections w0"
  using assms by (simp add: list_available_connections_def available_items_insert)

lemma list_available_names:
  assumes "load_connections w = JObj d" and "list_available_connections w = Inr (JList names)"
  shows "set names \<subseteq> JStr ` set (map fst d)"
proof -
  from assms obtain kept where kept: "available_items d = Inr kept"
      and names: "names = map (\<lambda>p. JStr (fst p)) kept"
    by (cases "available_items d") (auto simp: list_available_connections_def)
  from available_items_keys[OF kept] names show ?thesis by force
qed

lemma handle_insert:
  assumes w0: "load_connections w0 = JObj (d1 @ d2)"
      and w1: "load_connections (w0\<lparr>regfile := x\<rparr>) = JObj (d1 @ (k, c) # d2)"
      and fresh: "k \<notin> set (map fst (d1 @ d2))"
      and c: "allowed c = Inr False"
  shows "handle_call_tool_impl e name arguments (w0\<lparr>regfile := x\<rparr>) =
           (fst (handle_call_tool_impl e name arguments w0),
            (snd (handle_call_tool_impl e name arguments w0))\<lparr>regfile := x\<rparr>)"
proof -
  have g: "get_connection (w0\<lparr>regfile := x\<rparr>) n = get_connection w0 n" for n
    using w0 w1 fresh c by (rule get_connection_insert)
  have l: "list_available_connections (w0\<lparr>regfile := x\<rparr>) = list_available_connections w0"
    using w0 w1 c by (rule list_available_insert)
  have a: "available_items (d1 @ (k, c) # d2) = available_items (d1 @ d2)"
    using c by (rule available_items_insert)
  show ?thesis
    unfolding handle_call_tool_impl_def Let_def split_def api_call_regfile fst_conv snd_conv
      g l w0 w1 py_items.simps attempt_simps a
    by (intro attempt_regfile if_regfile)
       (simp_all add: on_connection_regfile attempt_const_regfile split: option.splits)
qed

lemma handle_not_found:
  assumes "name \<noteq> JStr (u ''pwsh_list_connections'')" and "name \<noteq> JStr (u ''pwsh_sessions'')"
      and "dict_get arguments (u ''connectionName'') (JStr []) = JStr k" and "k \<noteq> []"
      and "get_connection w (JStr k) = Inr None"
      and "list_available_connections w = Inr available"
  shows "handle_call_tool_impl e name arguments w = (Inr (not_found_reply (fmt e) (JStr k) available), w)"
  using assms by (simp add: handle_call_tool_impl_def Let_def)

text \<open>
  C5.  Take a registry and the same registry with one more connection \<open>k\<close> whose
  \<open>mcps\<close> does not hold \<open>pwsh-manager\<close>.  Resolving \<open>k\<close> yields nothing in both;
  every tool call, whatever the tool and its arguments, has the same result and issues the
  same requests in both, so a caller cannot tell the unauthorised connection from an absent
  one; using \<open>k\<close> gives the not-found reply, which holds only the name asked for and the
  listing; and the listing is the same in both and does not hold \<open>k\<close>.
\<close>

theorem unauthorised_connection_is_absent:
  assumes "load_connections w0 = JObj (d1 @ d2)"
      and "load_connections w1 = JObj (d1 @ (k, c) # d2)"
      and "k \<notin> set (map fst (d1 @ d2))"
      and "allowed c = Inr False"
      and "trace w1 = trace w0"
  shows "get_connection w1 (JStr k) = Inr None \<and> get_connection w0 (JStr k) = Inr None
       \<and> fst (handle_call_tool_impl e name arguments w1) = fst (handle_call_tool_impl e name arguments w0)
       \<and> trace (snd (handle_call_tool_impl e name arguments w1)) =
           trace (snd (handle_call_tool_impl e name arguments w0))
       \<and> (name \<noteq> JStr (u ''pwsh_list_connections'') \<and> name \<noteq> JStr (u ''pwsh_sessions'') \<and>
          dict_get arguments (u ''connectionName'') (JStr []) = JStr k \<and> k \<noteq> [] \<and>
          list_available_connections w1 = Inr available \<longrightarrow>
          handle_call_tool_impl e name arguments w1 = (Inr (not_found_reply (fmt e) (JStr k) available), w1))
       \<and> list_available_connections w1 = list_available_connections w0
       \<and> (\<forall>names. list_available_connections w1 = Inr (JList names) \<longrightarrow> JStr k \<notin> set names)"
proof -
  have absent: "get_connection w0 (JStr k) = Inr None"
    using assms(1,3) by (rule get_connection_absent)
  have same: "get_connection w1 (JStr k) = get_connection w0 (JStr k)"
    using assms(1-4) by (rule get_connection_insert)
  have listing: "list_available_connections w1 = list_available_connections w0"
    using assms(1,2,4) by (rule list_available_insert)
  have w1: "w1 = w0\<lparr>regfile := regfile w1\<rparr>"
    using assms(5) by simp
  have "load_connections (w0\<lparr>regfile := regfile w1\<rparr>) = JObj (d1 @ (k, c) # d2)"
    using assms(2) w1 by simp
  from handle_insert[OF assms(1) this assms(3,4)]
  have calls: "handle_call_tool_impl e name arguments w1 =
           (fst (handle_call_tool_impl e name arguments w0),
            (snd (handle_call_tool_impl e name arguments w0))\<lparr>regfile := regfile w1\<rparr>)"
    using w1 by simp
  have hidden: "JStr k \<notin> set names" if "list_available_connections w1 = Inr (JList names)" for names
  proof -
    from that listing have "list_available_connections w0 = Inr (JList names)" by simp
    from list_available_names[OF assms(1) this] assms(3) show ?thesis by auto
  qed
  from absent same calls listing hidden show ?thesis
    by (auto simp: handle_not_found)
qed

theorem unauthorised_connection_is_absent_witness:
  "get_connection (world_of [prod_entry, graph_entry]) (JStr (u ''Graph'')) = Inr None
   \<and> get_connection (world_of [prod_entry]) (JStr (u ''Graph'')) = Inr None
   \<and> fst (handle_call_tool_impl (env_of (Responded (JObj [(u ''connected'', JBool True)])) SaveOk)
            (JStr (u ''pwsh_status'')) [(u ''connectionName'', JStr (u ''Graph''))]
            (world_of [prod_entry, graph_entry]))
     = fst (handle_call_tool_impl (env_of (Responded (JObj [(u ''connected'', JBool True)])) SaveOk)
            (JStr (u ''pwsh_status'')) [(u ''connectionName'', JStr (u ''Graph''))]
            (world_of [prod_entry]))
   \<and> handle_call_tool_impl (env_of (Responded (JObj [(u ''connected'', JBool True)])) SaveOk)
            (JStr (u ''pwsh_status'')) [(u ''connectionName'', JStr (u ''Graph''))]
            (world_of [prod_entry, graph_entry])
     = (Inr (not_found_reply unused_fmt (JStr (u ''Graph'')) (JList [JStr (u ''Prod'')])),
        world_of [prod_entry, graph_entry])
   \<and> JStr (u ''Graph'') \<notin> set [JStr (u ''Prod'')]"
proof -
  let ?e = "env_of (Responded (JObj [(u ''connected'', JBool True)])) SaveOk"
  let ?args = "[(u ''connectionName'', JStr (u ''Graph''))]"
  have h0: "load_connections (world_of [prod_entry]) = JObj ([prod_entry] @ [])"
    by (simp add: load_connections_def dict_get_def)
  have h1: "load_connections (world_of [prod_entry, graph_entry])
              = JObj ([prod_entry] @ (u ''Graph'', snd graph_entry) # [])"
    by (simp add: load_connections_def dict_get_def graph_entry_def)
  have h2: "u ''Graph'' \<notin> set (map fst ([prod_entry] @ []))"
    by (simp add: prod_entry_def)
  have h3: "allowed (snd graph_entry) = Inr False"
    by (simp add: allowed_def graph_entry_def dict_get_def MCP_NAME_def)
  have h4: "trace (world_of [prod_entry, graph_entry]) = trace (world_of [prod_entry])"
    by simp
  have named: "dict_get ?args (u ''connectionName'') (JStr []) = JStr (u ''Graph'')"
    by (simp add: dict_get_def)
  have listed: "list_available_connections (world_of [prod_entry, graph_entry]) = Inr (JList [JStr (u ''Prod'')])"
    by (simp add: pwsh_eval)
  have ne: "JStr (u ''pwsh_status'') \<noteq> JStr (u ''pwsh_list_connections'')"
          "JStr (u ''pwsh_status'') \<noteq> JStr (u ''pwsh_sessions'')" "u ''Graph'' \<noteq> []"
    by simp_all
  note main = unauthorised_connection_is_absent
         [OF h0 h1 h2 h3 h4, where e = ?e and name = "JStr (u ''pwsh_status'')" and arguments = ?args
            and available = "JList [JStr (u ''Prod'')]"]
  have a: "get_connection (world_of [prod_entry, graph_entry]) (JStr (u ''Graph'')) = Inr None"
    using main by blast
  have b: "get_connection (world_of [prod_entry]) (JStr (u ''Graph'')) = Inr None"
    using main by blast
  have c: "fst (handle_call_tool_impl ?e (JStr (u ''pwsh_status'')) ?args (world_of [prod_entry, graph_entry]))
         = fst (handle_call_tool_impl ?e (JStr (u ''pwsh_status'')) ?args (world_of [prod_entry]))"
    using main by blast
  have d: "handle_call_tool_impl ?e (JStr (u ''pwsh_status'')) ?args (world_of [prod_entry, graph_entry])
         = (Inr (not_found_reply (fmt ?e) (JStr (u ''Graph'')) (JList [JStr (u ''Prod'')])),
            world_of [prod_entry, graph_entry])"
    using main named listed ne by blast
  have f: "JStr (u ''Graph'') \<notin> set [JStr (u ''Prod'')]"
    using main listed by blast
  from a b c d f show ?thesis by simp
qed

text \<open>
  C5 as stated, for every adapter id, fails for the other adapter of the repository: mm
  does not test \<open>mcps\<close>.  A \<open>run\<close> on a connection whose \<open>mcps\<close> does not hold
  \<open>mm\<close> is sent to the pool, and where the pool asks for authentication the prompt
  gives the tenant of that connection, while for a name the registry does not have the
  prompt has no hint: the caller can tell the two apart.
\<close>

theorem mm_uses_other_adapters_connection_counterexample:
  "snd graph_entry = JObj [(u ''appId'', JStr (u ''00000000-0000-0000-0000-000000000002'')),
                           (u ''tenant'', JStr (u ''fabrikam.com'')),
                           (u ''description'', JStr (u ''graph only'')),
                           (u ''mcps'', JList [JStr (u ''microsoft-graph'')])]
   \<and> JStr (u ''mm'') \<notin> set [JStr (u ''microsoft-graph'')]
   \<and> call_tool_impl (env_of (Responded auth_answer) SaveOk) (u ''run'') (run_args ''Graph'')
       (world_of [prod_entry, graph_entry])
     = (Inr (Text (u ''**DEVICE CODE: ABC-123**'' @ [10] @
                   u ''Go to: https://microsoft.com/devicelogin'' @ [10] @
                   [10] @ u ''>>> Sign in with your @fabrikam.com account <<<'' @ [10, 10] @
                   u ''Connection: Graph'' @ [10] @ u ''Module: exo'' @ [10, 10] @
                   u ''After authenticating, retry the command.'')),
        (world_of [prod_entry, graph_entry])
          \<lparr>trace := [PoolCall (u ''/run'') (u ''POST'')
                       (Some (JObj [(u ''connection'', JStr (u ''Graph'')), (u ''module'', JStr (u ''exo'')),
                                    (u ''command'', JStr (u ''Get-Mailbox'')),
                                    (u ''caller_id'', JStr (u ''mm-mcp''))]))]\<rparr>)
   \<and> call_tool_impl (env_of (Responded auth_answer) SaveOk) (u ''run'') (run_args ''Graph'')
       (world_of [prod_entry])
     = (Inr (Text (u ''**DEVICE CODE: ABC-123**'' @ [10] @
                   u ''Go to: https://microsoft.com/devicelogin'' @ [10] @ [10, 10] @
                   u ''Connection: Graph'' @ [10] @ u ''Module: exo'' @ [10, 10] @
                   u ''After authenticating, retry the command.'')),
        (world_of [prod_entry])
          \<lparr>trace := [PoolCall (u ''/run'') (u ''POST'')
                       (Some (JObj [(u ''connection'', JStr (u ''Graph'')), (u ''module'', JStr (u ''exo'')),
                                    (u ''command'', JStr (u ''Get-Mailbox'')),
                                    (u ''caller_id'', JStr (u ''mm-mcp''))]))]\<rparr>)
   \<and> fst (call_tool_impl (env_of (Responded auth_answer) SaveOk) (u ''run'') (run_args ''Graph'')
            (world_of [prod_entry, graph_entry]))
     \<noteq> fst (call_tool_impl (env_of (Responded auth_answer) SaveOk) (u ''run'') (run_args ''Graph'')
            (world_of [prod_entry]))"
proof -
  have 1: "call_tool_impl (env_of (Responded auth_answer) SaveOk) (u ''run'') (run_args ''Graph'')
       (world_of [prod_entry, graph_entry])
     = (Inr (Text (u ''**DEVICE CODE: ABC-123**'' @ [10] @
                   u ''Go to: https://microsoft.com/devicelogin'' @ [10] @
                   [10] @ u ''>>> Sign in with your @fabrikam.com account <<<'' @ [10, 10] @
                   u ''Connection: Graph'' @ [10] @ u ''Module: exo'' @ [10, 10] @
                   u ''After authenticating, retry the command.'')),
        (world_of [prod_entry, graph_entry])
          \<lparr>trace := [PoolCall (u ''/run'') (u ''POST'')
                       (Some (JObj [(u ''connection'', JStr (u ''Graph'')), (u ''module'', JStr (u ''exo'')),
                                    (u ''command'', JStr (u ''Get-Mailbox'')),
                                    (u ''caller_id'', JStr (u ''mm-mcp''))]))]\<rparr>)"
    by (simp add: call_tool_impl_def call_pool_def run_auth_required_def Let_def run_args_def auth_answer_def
                  load_registry_def dict_get_def prod_entry_def graph_entry_def u_merge)
  have 2: "call_tool_impl (env_of (Responded auth_answer) SaveOk) (u ''run'') (run_args ''Graph'')
       (world_of [prod_entry])
     = (Inr (Text (u ''**DEVICE CODE: ABC-123**'' @ [10] @
                   u ''Go to: https://microsoft.com/devicelogin'' @ [10] @ [10, 10] @
                   u ''Connection: Graph'' @ [10] @ u ''Module: exo'' @ [10, 10] @
                   u ''After authenticating, retry the command.'')),
        (world_of [prod_entry])
          \<lparr>trace := [PoolCall (u ''/run'') (u ''POST'')
                       (Some (JObj [(u ''connection'', JStr (u ''Graph'')), (u ''module'', JStr (u ''exo'')),
                                    (u ''command'', JStr (u ''Get-Mailbox'')),
                                    (u ''caller_id'', JStr (u ''mm-mcp''))]))]\<rparr>)"
    by (simp add: call_tool_impl_def call_pool_def run_auth_required_def Let_def run_args_def auth_answer_def
                  load_registry_def dict_get_def prod_entry_def u_merge)
  have 3: "fst (call_tool_impl (env_of (Responded auth_answer) SaveOk) (u ''run'') (run_args ''Graph'')
            (world_of [prod_entry, graph_entry]))
     \<noteq> fst (call_tool_impl (env_of (Responded auth_answer) SaveOk) (u ''run'') (run_args ''Graph'')
            (world_of [prod_entry]))"
    unfolding 1 2 by (simp add: u_def)
  have 0: "snd graph_entry = JObj [(u ''appId'', JStr (u ''00000000-0000-0000-0000-000000000002'')),
                           (u ''tenant'', JStr (u ''fabrikam.com'')),
                           (u ''description'', JStr (u ''graph only'')),
                           (u ''mcps'', JList [JStr (u ''microsoft-graph'')])]"
          "JStr (u ''mm'') \<notin> set [JStr (u ''microsoft-graph'')]"
    by (simp_all add: graph_entry_def)
  from 0 1 2 3 show ?thesis by (intro conjI)
qed

section \<open>The registry tools of mm\<close>

text \<open>
  Notions of the statements below.  A field is supplied when the arguments hold a value
  for it that Python takes as true (\<open>if args.get(field)\<close>); the value stored for a
  supplied field is the argument itself for \<open>mcps\<close> and the stripped string otherwise.
\<close>

definition supplied :: "dict \<Rightarrow> pstr \<Rightarrow> bool" where
  "supplied args f = truthy (dict_get args f JNull)"


definition required :: "pstr list" where
  "required = [u ''name'', u ''tenant'', u ''appId'', u ''description'', u ''mcps'']"


lemma err_shapes_distinct:
  "err (u ''Missing: '' @ x) \<noteq> err (u ''Invalid appId format: '' @ y)"
  "err (u ''Missing: '' @ x) \<noteq> err (quoted z @ u '' already exists. Use connection_update.'')"
  "err (u ''Invalid appId format: '' @ y) \<noteq> err (quoted z @ u '' already exists. Use connection_update.'')"
  by (simp_all add: err_def quoted_def u_def)

lemma connection_add_missing:
  assumes "dict_get args (u ''name'') (JStr []) = JStr n"
      and "dict_get args (u ''tenant'') (JStr []) = JStr t"
      and "dict_get args (u ''appId'') (JStr []) = JStr a"
      and "dict_get args (u ''description'') (JStr []) = JStr d"
      and "filter (\<lambda>f. \<not> truthy (dict_get args f JNull))
             [u ''name'', u ''tenant'', u ''appId'', u ''description'', u ''mcps''] = missing"
      and "missing \<noteq> []"
  shows "connection_add e args w = (Inr (err (u ''Missing: '' @ join (u '', '') missing)), w)"
  using assms(1-4,6) unfolding connection_add_def assms(5)[symmetric] Let_def
  by simp

lemma connection_add_invalid:
  assumes "dict_get args (u ''name'') (JStr []) = JStr n"
      and "dict_get args (u ''tenant'') (JStr []) = JStr t"
      and "dict_get args (u ''appId'') (JStr []) = JStr a"
      and "dict_get args (u ''description'') (JStr []) = JStr d"
      and "filter (\<lambda>f. \<not> truthy (dict_get args f JNull))
             [u ''name'', u ''tenant'', u ''appId'', u ''description'', u ''mcps''] = []"
      and "\<not> is_valid_guid (strip a)"
  shows "connection_add e args w = (Inr (err (u ''Invalid appId format: '' @ strip a)), w)"
  using assms(1-4,6) unfolding connection_add_def assms(5) Let_def
  by simp

lemma connection_add_exists:
  assumes "dict_get args (u ''name'') (JStr []) = JStr n"
      and "dict_get args (u ''tenant'') (JStr []) = JStr t"
      and "dict_get args (u ''appId'') (JStr []) = JStr a"
      and "dict_get args (u ''description'') (JStr []) = JStr d"
      and "filter (\<lambda>f. \<not> truthy (dict_get args f JNull))
             [u ''name'', u ''tenant'', u ''appId'', u ''description'', u ''mcps''] = []"
      and "is_valid_guid (strip a)"
      and "load_registry w = Inr (JObj reg)"
      and "dict_get reg (u ''connections'') (JObj []) = JObj conns"
      and "strip n \<in> set (map fst conns)"
  shows "connection_add e args w =
           (Inr (err (quoted (strip n) @ u '' already exists. Use connection_update.'')), w)"
  using assms(1-4,6-9) unfolding connection_add_def assms(5) Let_def
  by simp

lemma connection_add_success:
  assumes "dict_get args (u ''name'') (JStr []) = JStr n"
      and "dict_get args (u ''tenant'') (JStr []) = JStr t"
      and "dict_get args (u ''appId'') (JStr []) = JStr a"
      and "dict_get args (u ''description'') (JStr []) = JStr d"
      and "filter (\<lambda>f. \<not> truthy (dict_get args f JNull))
             [u ''name'', u ''tenant'', u ''appId'', u ''description'', u ''mcps''] = []"
      and "is_valid_guid (strip a)"
      and "load_registry w = Inr (JObj reg)"
      and "dict_get reg (u ''connections'') (JObj []) = JObj conns"
      and "strip n \<notin> set (map fst conns)"
      and "disk e = SaveOk"
      and "registry' = JObj (AList.update (u ''connections'')
             (JObj (AList.update (strip n)
                (JObj [(u ''appId'', JStr (strip a)), (u ''tenant'', JStr (strip t)),
                       (u ''description'', JStr (strip d)), (u ''mcps'', dict_get args (u ''mcps'') (JList []))])
                conns)) reg)"
  shows "connection_add e args w =
           (Inr (JsonDump (JObj [(u ''success'', JBool True),
                                 (u ''message'', JStr (u ''Connection '' @ quoted (strip n) @ u '' added''))])),
            w\<lparr>regfile := Parsed registry', trace := trace w @ [Save registry']\<rparr>)"
  using assms(1-4,6-11) unfolding connection_add_def assms(5) Let_def
  by (simp add: save_registry_def)

text \<open>
  C4.  With string arguments, \<open>connection_add\<close> answers with the \<open>Missing: ...\<close> error,
  naming every required field that is absent or empty, when there is such a field; else
  with the \<open>Invalid appId format: ...\<close> error when the stripped appId is not a GUID; else
  with the \<open>... already exists\<close> error when the stripped name is a key of the registry's
  connections.  In each case the world is returned as it was: the file is the same and no
  \<open>save_registry\<close> is recorded.  The three error objects differ from one another.
\<close>

theorem connection_add_failures:
  assumes "dict_get args (u ''name'') (JStr []) = JStr n"
      and "dict_get args (u ''tenant'') (JStr []) = JStr t"
      and "dict_get args (u ''appId'') (JStr []) = JStr a"
      and "dict_get args (u ''description'') (JStr []) = JStr d"
  shows "(f \<in> set required \<and> \<not> supplied args f \<longrightarrow>
            f \<in> set (filter (\<lambda>f. \<not> supplied args f) required) \<and>
            connection_add e args w =
              (Inr (err (u ''Missing: '' @ join (u '', '') (filter (\<lambda>f. \<not> supplied args f) required))), w))
       \<and> ((\<forall>f\<in>set required. supplied args f) \<and> \<not> is_valid_guid (strip a) \<longrightarrow>
            connection_add e args w = (Inr (err (u ''Invalid appId format: '' @ strip a)), w))
       \<and> ((\<forall>f\<in>set required. supplied args f) \<and> is_valid_guid (strip a) \<and>
          load_registry w = Inr (JObj reg) \<and> dict_get reg (u ''connections'') (JObj []) = JObj conns \<and>
          strip n \<in> set (map fst conns) \<longrightarrow>
            connection_add e args w =
              (Inr (err (quoted (strip n) @ u '' already exists. Use connection_update.'')), w))
       \<and> err (u ''Missing: '' @ x) \<noteq> err (u ''Invalid appId format: '' @ y)
       \<and> err (u ''Missing: '' @ x) \<noteq> err (quoted z @ u '' already exists. Use connection_update.'')
       \<and> err (u ''Invalid appId format: '' @ y) \<noteq> err (quoted z @ u '' already exists. Use connection_update.'')"
proof -
  have m: "filter (\<lambda>f. \<not> truthy (dict_get args f JNull))
             [u ''name'', u ''tenant'', u ''appId'', u ''description'', u ''mcps'']
           = filter (\<lambda>f. \<not> supplied args f) required"
    by (simp add: supplied_def required_def)
  have none: "filter (\<lambda>f. \<not> supplied args f) required = []" if "\<forall>f\<in>set required. supplied args f"
    using that by (simp add: filter_empty_conv)
  have some: "f \<in> set (filter (\<lambda>f. \<not> supplied args f) required)" if "f \<in> set required" "\<not> supplied args f"
    using that by simp
  have 1: "connection_add e args w =
              (Inr (err (u ''Missing: '' @ join (u '', '') (filter (\<lambda>f. \<not> supplied args f) required))), w)"
    if "f \<in> set required" "\<not> supplied args f"
  proof -
    from some[OF that] have "filter (\<lambda>f. \<not> supplied args f) required \<noteq> []"
      by (metis empty_iff list.set(1))
    from connection_add_missing[OF assms m this] show ?thesis .
  qed
  have 2: "connection_add e args w = (Inr (err (u ''Invalid appId format: '' @ strip a)), w)"
    if "\<forall>f\<in>set required. supplied args f" "\<not> is_valid_guid (strip a)"
    using connection_add_invalid[OF assms m[unfolded none[OF that(1)]] that(2)] .
  have 3: "connection_add e args w =
              (Inr (err (quoted (strip n) @ u '' already exists. Use connection_update.'')), w)"
    if "\<forall>f\<in>set required. supplied args f" "is_valid_guid (strip a)"
       "load_registry w = Inr (JObj reg)" "dict_get reg (u ''connections'') (JObj []) = JObj conns"
       "strip n \<in> set (map fst conns)"
    using connection_add_exists[OF assms m[unfolded none[OF that(1)]] that(2-5)] .
  from some 1 2 3 err_shapes_distinct show ?thesis by blast
qed

lemma add_args_get:
  "dict_get (add_args name app_id mcps) (u ''name'') (JStr []) = JStr (u name)"
  "dict_get (add_args name app_id mcps) (u ''tenant'') (JStr []) = JStr (u ''clientx.onmicrosoft.com'')"
  "dict_get (add_args name app_id mcps) (u ''appId'') (JStr []) = JStr (u app_id)"
  "dict_get (add_args name app_id mcps) (u ''description'') (JStr []) = JStr (u ''Client X'')"
  by (simp_all add: add_args_def dict_get_def)

lemma add_args_supplied:
  "supplied (add_args name app_id mcps) f \<longleftrightarrow>
     (f = u ''name'' \<and> name \<noteq> [] \<or> f = u ''tenant'' \<or> f = u ''appId'' \<and> app_id \<noteq> [] \<or>
      f = u ''description'' \<or> f = u ''mcps'' \<and> truthy mcps)"
  by (auto simp: supplied_def add_args_def dict_get_def)

lemma strip_examples:
  "strip (u '' Prod '') = u ''Prod''"
  "strip (u ''Prod'') = u ''Prod''"
  "strip (u ''not-a-guid'') = u ''not-a-guid''"
  "strip (u ''12345678-90ab-cdef-1234-567890ABCDEF'') = u ''12345678-90ab-cdef-1234-567890ABCDEF''"
  by (simp_all add: strip_def u_def isspace_def)

lemma guid_examples:
  "is_valid_guid (u ''12345678-90ab-cdef-1234-567890ABCDEF'')"
  "\<not> is_valid_guid (u ''not-a-guid'')"
  by (simp_all add: is_valid_guid_def u_def is_hex_def eval_nat_numeral)

theorem connection_add_failures_witness:
  "connection_add (env_of (Responded JNull) SaveOk)
       (add_args ''ClientX'' ''12345678-90ab-cdef-1234-567890ABCDEF'' (JList [])) (world_of [prod_entry])
     = (Inr (err (u ''Missing: mcps'')), world_of [prod_entry])
   \<and> connection_add (env_of (Responded JNull) SaveOk)
       (add_args ''ClientX'' ''not-a-guid'' (JList [JStr (u ''mm'')])) (world_of [prod_entry])
     = (Inr (err (u ''Invalid appId format: not-a-guid'')), world_of [prod_entry])
   \<and> connection_add (env_of (Responded JNull) SaveOk)
       (add_args '' Prod '' ''12345678-90ab-cdef-1234-567890ABCDEF'' (JList [JStr (u ''mm'')]))
       (world_of [prod_entry])
     = (Inr (err (quoted (u ''Prod'') @ u '' already exists. Use connection_update.'')), world_of [prod_entry])"
proof -
  let ?e = "env_of (Responded JNull) SaveOk"
  let ?g = "''12345678-90ab-cdef-1234-567890ABCDEF''"
  let ?mm = "JList [JStr (u ''mm'')]"
  have lacking: "u ''mcps'' \<in> set required \<and> \<not> supplied (add_args ''ClientX'' ?g (JList [])) (u ''mcps'')"
    by (simp add: required_def add_args_supplied)
  have listed: "filter (\<lambda>f. \<not> supplied (add_args ''ClientX'' ?g (JList [])) f) required = [u ''mcps'']"
    by (simp add: required_def add_args_supplied)
  have full: "\<forall>f\<in>set required. supplied (add_args ''ClientX'' ''not-a-guid'' ?mm) f"
             "\<forall>f\<in>set required. supplied (add_args '' Prod '' ?g ?mm) f"
    by (simp_all add: required_def add_args_supplied)
  have reg: "load_registry (world_of [prod_entry]) = Inr (JObj [(u ''connections'', JObj [prod_entry])])"
            "dict_get [(u ''connections'', JObj [prod_entry])] (u ''connections'') (JObj []) = JObj [prod_entry]"
            "u ''Prod'' \<in> set (map fst [prod_entry])"
    by (simp_all add: load_registry_def dict_get_def prod_entry_def)
  have 1: "connection_add ?e (add_args ''ClientX'' ?g (JList [])) (world_of [prod_entry])
             = (Inr (err (u ''Missing: mcps'')), world_of [prod_entry])"
    using connection_add_failures
            [OF add_args_get[where name = "''ClientX''" and app_id = ?g and mcps = "JList []"],
             where f = "u ''mcps''" and e = ?e and w = "world_of [prod_entry]",
             THEN conjunct1]
          lacking
    by (simp add: listed u_merge)
  have 2: "connection_add ?e (add_args ''ClientX'' ''not-a-guid'' ?mm) (world_of [prod_entry])
             = (Inr (err (u ''Invalid appId format: not-a-guid'')), world_of [prod_entry])"
    using connection_add_failures
            [OF add_args_get[where name = "''ClientX''" and app_id = "''not-a-guid''" and mcps = ?mm],
             where e = ?e and w = "world_of [prod_entry]",
             THEN conjunct2, THEN conjunct1]
          full(1) guid_examples(2)
    by (simp add: strip_examples u_merge)
  have 3: "connection_add ?e (add_args '' Prod '' ?g ?mm) (world_of [prod_entry])
             = (Inr (err (quoted (u ''Prod'') @ u '' already exists. Use connection_update.'')),
                world_of [prod_entry])"
    using connection_add_failures
            [OF add_args_get[where name = "'' Prod ''" and app_id = ?g and mcps = ?mm],
             where e = ?e and w = "world_of [prod_entry]"
               and reg = "[(u ''connections'', JObj [prod_entry])]" and conns = "[prod_entry]",
             THEN conjunct2, THEN conjunct2, THEN conjunct1]
          full(2) guid_examples(1) reg
    by (simp add: strip_examples)
  from 1 2 3 show ?thesis by simp
qed

lemma connections_present:
  assumes "dict_get reg (u ''connections'') (JObj []) = JObj conns" and "conns \<noteq> []"
  shows "map_of reg (u ''connections'') = Some (JObj conns)"
  using assms by (auto simp: dict_get_def split: option.splits)

lemma connection_remove_absent:
  assumes "dict_get args (u ''name'') (JStr []) = JStr n" and "strip n \<noteq> []"
      and "load_registry w = Inr (JObj reg)"
      and "dict_get reg (u ''connections'') (JObj []) = JObj conns"
      and "strip n \<notin> set (map fst conns)"
  shows "connection_remove e args w =
           (Inr (JsonDump (JObj [(u ''error'', JStr (quoted (strip n) @ u '' not found'')),
                                 (u ''available'', JList (map (\<lambda>p. JStr (fst p)) conns))])), w)"
  using assms by (simp add: connection_remove_def)

lemma connection_remove_present:
  assumes "dict_get args (u ''name'') (JStr []) = JStr n" and "strip n \<noteq> []"
      and "load_registry w = Inr (JObj reg)"
      and "dict_get reg (u ''connections'') (JObj []) = JObj conns"
      and "map_of conns (strip n) = Some removed"
      and "disk e = SaveOk"
  shows "connection_remove e args w =
           (Inr (JsonDump (JObj [(u ''success'', JBool True),
                                 (u ''message'', JStr (quoted (strip n) @ u '' removed'')),
                                 (u ''removed'', removed)])),
            w\<lparr>regfile := Parsed (JObj (AList.update (u ''connections'') (JObj (AList.delete (strip n) conns)) reg)),
              trace := trace w @ [Save (JObj (AList.update (u ''connections'') (JObj (AList.delete (strip n) conns)) reg))]\<rparr>)"
proof -
  from assms(5) have "conns \<noteq> []" by auto
  with assms(4) have c: "map_of reg (u ''connections'') = Some (JObj conns)"
    by (rule connections_present)
  from assms(5) have "strip n \<in> set (map fst conns)"
    by (auto dest: map_of_SomeD intro: rev_image_eqI)
  with assms c show ?thesis
    by (simp add: connection_remove_def save_registry_def)
qed

lemma connection_remove_blank:
  assumes "dict_get args (u ''name'') (JStr []) = JStr n" and "strip n = []"
  shows "connection_remove e args w = (Inr (err (u ''name is required'')), w)"
  using assms by (simp add: connection_remove_def)

lemma connection_remove_unsaved:
  assumes "dict_get args (u ''name'') (JStr []) = JStr n" and "strip n \<noteq> []"
      and "load_registry w = Inr (JObj reg)"
      and "dict_get reg (u ''connections'') (JObj []) = JObj conns"
      and "map_of conns (strip n) = Some removed"
      and "disk e \<noteq> SaveOk"
  shows "connection_remove e args w =
           (Inr (err (u ''Failed to save'')),
            w\<lparr>regfile := (if disk e = DumpFails then Malformed else regfile w),
              trace := trace w @ [Save (JObj (AList.update (u ''connections'') (JObj (AList.delete (strip n) conns)) reg))]\<rparr>)"
proof -
  from assms(5) have "conns \<noteq> []" by auto
  with assms(4) have c: "map_of reg (u ''connections'') = Some (JObj conns)"
    by (rule connections_present)
  from assms(5) have "strip n \<in> set (map fst conns)"
    by (auto dest: map_of_SomeD intro: rev_image_eqI)
  with assms c show ?thesis
    by (cases "disk e") (simp_all add: connection_remove_def save_registry_def)
qed

text \<open>
  C7, as the code has it.  \<open>connection_remove\<close> strips the name it is given and works
  with the stripped name, for a registry whose connections are an object.  A name that is
  empty once stripped is answered with \<open>name is required\<close> and the world is returned as
  it was, whatever the registry holds.  Otherwise, when the stripped name is not among the
  connections, the answer is the \<open>... not found\<close> error, which lists the names of all
  connections, and the world is returned as it was; when it is among them and the write
  succeeds, the answer holds the removed record, the registry written is the old one with
  that connection deleted from its connections, the name is no longer among them, and
  every other connection is as it was; when the write fails the answer is
  \<open>Failed to save\<close>, and the file is as it was or, where the write broke off, no
  longer a registry.
\<close>

theorem connection_remove_outcomes:
  assumes "dict_get args (u ''name'') (JStr []) = JStr n"
      and "load_registry w = Inr (JObj reg)"
      and "dict_get reg (u ''connections'') (JObj []) = JObj conns"
  shows "(strip n = [] \<longrightarrow>
            connection_remove e args w = (Inr (err (u ''name is required'')), w))
       \<and> (strip n \<noteq> [] \<and> strip n \<notin> set (map fst conns) \<longrightarrow>
            connection_remove e args w =
              (Inr (JsonDump (JObj [(u ''error'', JStr (quoted (strip n) @ u '' not found'')),
                                    (u ''available'', JList (map (\<lambda>p. JStr (fst p)) conns))])), w))
       \<and> (strip n \<noteq> [] \<and> map_of conns (strip n) = Some removed \<and> disk e = SaveOk \<longrightarrow>
            connection_remove e args w =
              (Inr (JsonDump (JObj [(u ''success'', JBool True),
                                    (u ''message'', JStr (quoted (strip n) @ u '' removed'')),
                                    (u ''removed'', removed)])),
               w\<lparr>regfile := Parsed (JObj (AList.update (u ''connections'')
                                (JObj (AList.delete (strip n) conns)) reg)),
                 trace := trace w @ [Save (JObj (AList.update (u ''connections'')
                                (JObj (AList.delete (strip n) conns)) reg))]\<rparr>)
            \<and> strip n \<notin> set (map fst (AList.delete (strip n) conns))
            \<and> (\<forall>k. k \<noteq> strip n \<longrightarrow> map_of (AList.delete (strip n) conns) k = map_of conns k))
       \<and> (strip n \<noteq> [] \<and> map_of conns (strip n) = Some removed \<and> disk e \<noteq> SaveOk \<longrightarrow>
            connection_remove e args w =
              (Inr (err (u ''Failed to save'')),
               w\<lparr>regfile := (if disk e = DumpFails then Malformed else regfile w),
                 trace := trace w @ [Save (JObj (AList.update (u ''connections'')
                                (JObj (AList.delete (strip n) conns)) reg))]\<rparr>))"
proof -
  have 1: "strip n = [] \<longrightarrow> connection_remove e args w = (Inr (err (u ''name is required'')), w)"
    using connection_remove_blank[OF assms(1)] by blast
  have 2: "strip n \<noteq> [] \<and> strip n \<notin> set (map fst conns) \<longrightarrow>
            connection_remove e args w =
              (Inr (JsonDump (JObj [(u ''error'', JStr (quoted (strip n) @ u '' not found'')),
                                    (u ''available'', JList (map (\<lambda>p. JStr (fst p)) conns))])), w)"
    using connection_remove_absent[OF assms(1) _ assms(2,3)] by blast
  have 3: "strip n \<noteq> [] \<and> map_of conns (strip n) = Some removed \<and> disk e = SaveOk \<longrightarrow>
            connection_remove e args w =
              (Inr (JsonDump (JObj [(u ''success'', JBool True),
                                    (u ''message'', JStr (quoted (strip n) @ u '' removed'')),
                                    (u ''removed'', removed)])),
               w\<lparr>regfile := Parsed (JObj (AList.update (u ''connections'')
                                (JObj (AList.delete (strip n) conns)) reg)),
                 trace := trace w @ [Save (JObj (AList.update (u ''connections'')
                                (JObj (AList.delete (strip n) conns)) reg))]\<rparr>)
            \<and> strip n \<notin> set (map fst (AList.delete (strip n) conns))
            \<and> (\<forall>k. k \<noteq> strip n \<longrightarrow> map_of (AList.delete (strip n) conns) k = map_of conns k)"
    using connection_remove_present[OF assms(1) _ assms(2,3)]
    by (auto simp: delete_notin_dom)
  have 4: "strip n \<noteq> [] \<and> map_of conns (strip n) = Some removed \<and> disk e \<noteq> SaveOk \<longrightarrow>
            connection_remove e args w =
              (Inr (err (u ''Failed to save'')),
               w\<lparr>regfile := (if disk e = DumpFails then Malformed else regfile w),
                 trace := trace w @ [Save (JObj (AList.update (u ''connections'')
                                (JObj (AList.delete (strip n) conns)) reg))]\<rparr>)"
    using connection_remove_unsaved[OF assms(1) _ assms(2,3)] by blast
  from 1 2 3 4 show ?thesis by (intro conjI)
qed

theorem connection_remove_outcomes_witness:
  "connection_remove (env_of (Responded JNull) SaveOk) [(u ''name'', JStr (u ''Nope''))]
       (world_of [prod_entry, graph_entry])
     = (Inr (JsonDump (JObj [(u ''error'', JStr (quoted (u ''Nope'') @ u '' not found'')),
                             (u ''available'', JList [JStr (u ''Prod''), JStr (u ''Graph'')])])),
        world_of [prod_entry, graph_entry])
   \<and> connection_remove (env_of (Responded JNull) SaveOk) [(u ''name'', JStr (u ''Graph''))]
       (world_of [prod_entry, graph_entry])
     = (Inr (JsonDump (JObj [(u ''success'', JBool True),
                             (u ''message'', JStr (quoted (u ''Graph'') @ u '' removed'')),
                             (u ''removed'', snd graph_entry)])),
        \<lparr>regfile = Parsed (JObj [(u ''connections'', JObj [prod_entry])]),
         trace = [Save (JObj [(u ''connections'', JObj [prod_entry])])]\<rparr>)
   \<and> connection_remove (env_of (Responded JNull) SaveOk) [(u ''name'', JStr (u ''  ''))]
       (world_of [prod_entry, graph_entry])
     = (Inr (err (u ''name is required'')), world_of [prod_entry, graph_entry])
   \<and> connection_remove (env_of (Responded JNull) OpenFails) [(u ''name'', JStr (u ''Graph''))]
       (world_of [prod_entry, graph_entry])
     = (Inr (err (u ''Failed to save'')),
        \<lparr>regfile = Parsed (JObj [(u ''connections'', JObj [prod_entry, graph_entry])]),
         trace = [Save (JObj [(u ''connections'', JObj [prod_entry])])]\<rparr>)"
proof -
  let ?e = "env_of (Responded JNull) SaveOk"
  let ?f = "env_of (Responded JNull) OpenFails"
  let ?w = "world_of [prod_entry, graph_entry]"
  have s: "strip (u ''Nope'') = u ''Nope''" "strip (u ''Graph'') = u ''Graph''" "strip (u ''  '') = []"
    by (simp_all add: strip_def u_def isspace_def)
  have reg: "load_registry ?w = Inr (JObj [(u ''connections'', JObj [prod_entry, graph_entry])])"
            "dict_get [(u ''connections'', JObj [prod_entry, graph_entry])] (u ''connections'') (JObj [])
               = JObj [prod_entry, graph_entry]"
    by (simp_all add: load_registry_def dict_get_def)
  have n1: "dict_get [(u ''name'', JStr (u ''Nope''))] (u ''name'') (JStr []) = JStr (u ''Nope'')"
    by (simp add: dict_get_def)
  have n2: "dict_get [(u ''name'', JStr (u ''Graph''))] (u ''name'') (JStr []) = JStr (u ''Graph'')"
    by (simp add: dict_get_def)
  have n3: "dict_get [(u ''name'', JStr (u ''  ''))] (u ''name'') (JStr []) = JStr (u ''  '')"
    by (simp add: dict_get_def)
  have filled: "strip (u ''Nope'') \<noteq> []" "strip (u ''Graph'') \<noteq> []"
    by (simp_all add: s)
  have absent: "strip (u ''Nope'') \<notin> set (map fst [prod_entry, graph_entry])"
    by (simp add: s prod_entry_def graph_entry_def)
  have present: "map_of [prod_entry, graph_entry] (strip (u ''Graph'')) = Some (snd graph_entry)"
    by (simp add: s prod_entry_def graph_entry_def)
  have disks: "disk ?e = SaveOk" "disk ?f \<noteq> SaveOk" "disk ?f \<noteq> DumpFails"
    by (simp_all add: env_of_def)
  from connection_remove_outcomes[OF n1 reg, where e = ?e, THEN conjunct2, THEN conjunct1] filled(1) absent
  have 1: "connection_remove ?e [(u ''name'', JStr (u ''Nope''))] ?w
     = (Inr (JsonDump (JObj [(u ''error'', JStr (quoted (u ''Nope'') @ u '' not found'')),
                             (u ''available'', JList [JStr (u ''Prod''), JStr (u ''Graph'')])])), ?w)"
    by (simp add: s prod_entry_def graph_entry_def)
  from connection_remove_outcomes[OF n2 reg, where e = ?e and removed = "snd graph_entry",
                                  THEN conjunct2, THEN conjunct2, THEN conjunct1]
       filled(2) present disks(1)
  have 2: "connection_remove ?e [(u ''name'', JStr (u ''Graph''))] ?w
     = (Inr (JsonDump (JObj [(u ''success'', JBool True),
                             (u ''message'', JStr (quoted (u ''Graph'') @ u '' removed'')),
                             (u ''removed'', snd graph_entry)])),
        \<lparr>regfile = Parsed (JObj [(u ''connections'', JObj [prod_entry])]),
         trace = [Save (JObj [(u ''connections'', JObj [prod_entry])])]\<rparr>)"
    by (simp add: s prod_entry_def graph_entry_def world_of_def)
  from connection_remove_outcomes[OF n3 reg, where e = ?e, THEN conjunct1] s(3)
  have 3: "connection_remove ?e [(u ''name'', JStr (u ''  ''))] ?w = (Inr (err (u ''name is required'')), ?w)"
    by simp
  from connection_remove_outcomes[OF n2 reg, where e = ?f and removed = "snd graph_entry",
                                  THEN conjunct2, THEN conjunct2, THEN conjunct2]
       filled(2) present disks(2,3)
  have 4: "connection_remove ?f [(u ''name'', JStr (u ''Graph''))] ?w
     = (Inr (err (u ''Failed to save'')),
        \<lparr>regfile = Parsed (JObj [(u ''connections'', JObj [prod_entry, graph_entry])]),
         trace = [Save (JObj [(u ''connections'', JObj [prod_entry])])]\<rparr>)"
    by (simp add: s prod_entry_def graph_entry_def world_of_def)
  from 1 2 3 4 show ?thesis by (intro conjI)
qed

text \<open>
  C7 as stated fails for a present name that is empty once stripped.  \<open>connection_add\<close>
  with the name \<open>" "\<close> stores a connection under the empty name (the name is tested
  before it is stripped); on that registry \<open>connection_remove\<close> of the empty name, or of
  \<open>" "\<close>, neither removes the connection nor returns it: the answer is
  \<open>name is required\<close> and nothing is written.
\<close>

theorem connection_remove_blank_name_counterexample:
  "connection_add (env_of (Responded JNull) SaveOk)
       (add_args '' '' ''12345678-90ab-cdef-1234-567890ABCDEF'' (JList [JStr (u ''mm'')])) (world_of [])
     = (Inr (JsonDump (JObj [(u ''success'', JBool True),
                             (u ''message'', JStr (u ''Connection '' @ quoted [] @ u '' added''))])),
        \<lparr>regfile = Parsed (JObj [(u ''connections'', JObj [([], blank_record)])]),
         trace = [Save (JObj [(u ''connections'', JObj [([], blank_record)])])]\<rparr>)
   \<and> connection_remove (env_of (Responded JNull) SaveOk) [(u ''name'', JStr [])]
       \<lparr>regfile = Parsed (JObj [(u ''connections'', JObj [([], blank_record)])]),
        trace = [Save (JObj [(u ''connections'', JObj [([], blank_record)])])]\<rparr>
     = (Inr (err (u ''name is required'')),
        \<lparr>regfile = Parsed (JObj [(u ''connections'', JObj [([], blank_record)])]),
         trace = [Save (JObj [(u ''connections'', JObj [([], blank_record)])])]\<rparr>)
   \<and> connection_remove (env_of (Responded JNull) SaveOk) [(u ''name'', JStr (u '' ''))]
       \<lparr>regfile = Parsed (JObj [(u ''connections'', JObj [([], blank_record)])]),
        trace = [Save (JObj [(u ''connections'', JObj [([], blank_record)])])]\<rparr>
     = (Inr (err (u ''name is required'')),
        \<lparr>regfile = Parsed (JObj [(u ''connections'', JObj [([], blank_record)])]),
         trace = [Save (JObj [(u ''connections'', JObj [([], blank_record)])])]\<rparr>)"
proof -
  let ?e = "env_of (Responded JNull) SaveOk"
  let ?args = "add_args '' '' ''12345678-90ab-cdef-1234-567890ABCDEF'' (JList [JStr (u ''mm'')])"
  have s: "strip (u '' '') = []" "strip [] = []"
          "strip (u ''clientx.onmicrosoft.com'') = u ''clientx.onmicrosoft.com''"
          "strip (u ''Client X'') = u ''Client X''"
    by (simp_all add: strip_def u_def isspace_def)
  have none: "filter (\<lambda>f. \<not> truthy (dict_get ?args f JNull))
                [u ''name'', u ''tenant'', u ''appId'', u ''description'', u ''mcps''] = []"
    by (simp add: add_args_def dict_get_def)
  have reg: "load_registry (world_of []) = Inr (JObj [(u ''connections'', JObj [])])"
            "dict_get [(u ''connections'', JObj [])] (u ''connections'') (JObj []) = JObj []"
    by (simp_all add: load_registry_def dict_get_def)
  have guid: "is_valid_guid (strip (u ''12345678-90ab-cdef-1234-567890ABCDEF''))"
    by (simp add: strip_examples guid_examples)
  have mcps: "dict_get ?args (u ''mcps'') (JList []) = JList [JStr (u ''mm'')]"
    by (simp add: add_args_def dict_get_def)
  have 1: "connection_add ?e ?args (world_of [])
     = (Inr (JsonDump (JObj [(u ''success'', JBool True),
                             (u ''message'', JStr (u ''Connection '' @ quoted [] @ u '' added''))])),
        \<lparr>regfile = Parsed (JObj [(u ''connections'', JObj [([], blank_record)])]),
         trace = [Save (JObj [(u ''connections'', JObj [([], blank_record)])])]\<rparr>)"
    using connection_add_success[OF add_args_get none guid reg, where e = ?e, OF _ _ refl]
    by (simp add: s mcps strip_examples blank_record_def world_of_def env_of_def)
  have 2: "connection_remove ?e [(u ''name'', JStr [])] w = (Inr (err (u ''name is required'')), w)" for w
    by (rule connection_remove_blank[where n = "[]"]) (simp_all add: dict_get_def s)
  have 3: "connection_remove ?e [(u ''name'', JStr (u '' ''))] w = (Inr (err (u ''name is required'')), w)" for w
    by (rule connection_remove_blank[where n = "u '' ''"]) (simp_all add: dict_get_def s)
  from 1 2 3 show ?thesis by (intro conjI)
qed









section \<open>The run tool of mm\<close>

text \<open>
  Notions of the statements below.  A "set graphic rendition" sequence is
  \<open>ESC [ params m\<close>, the parameters being digits and semicolons; a private-mode
  sequence is \<open>ESC [ ? digits h\<close> or \<open>ESC [ ? digits l\<close> with at least one digit
  (the cursor-visibility toggle is \<open>ESC [ ? 25 h\<close> and \<open>ESC [ ? 25 l\<close>).  A text is
  free of a kind of sequence when no stretch of it is such a sequence.  Removing the
  sequences of a kind from an output: the output is a text free of them, or a text free of
  them, then a sequence, then more output, of which the sequences are removed in turn;
  what is left is the texts, in order.
\<close>

definition sgr_sequence :: "pstr \<Rightarrow> bool" where
  "sgr_sequence s \<longleftrightarrow>
     (case s of
        a # b # rest \<Rightarrow> a = 27 \<and> b = 91 \<and> rest \<noteq> [] \<and> last rest = 109 \<and>
                         list_all (\<lambda>c. is_digit c \<or> c = 59) (butlast rest)
      | _ \<Rightarrow> False)"

definition mode_sequence :: "pstr \<Rightarrow> bool" where
  "mode_sequence s \<longleftrightarrow>
     (case s of
        a # b # q # rest \<Rightarrow> a = 27 \<and> b = 91 \<and> q = 63 \<and> rest \<noteq> [] \<and>
                             (last rest = 104 \<or> last rest = 108) \<and>
                             butlast rest \<noteq> [] \<and> list_all is_digit (butlast rest)
      | _ \<Rightarrow> False)"

definition free_of :: "(pstr \<Rightarrow> bool) \<Rightarrow> pstr \<Rightarrow> bool" where
  "free_of seq t \<longleftrightarrow> \<not> list_ex seq (sublists t)"

inductive removes :: "(pstr \<Rightarrow> bool) \<Rightarrow> pstr \<Rightarrow> pstr \<Rightarrow> bool" for seq where
  last_text: "free_of seq t \<Longrightarrow> removes seq t t"
| sequence: "free_of seq t \<Longrightarrow> seq s \<Longrightarrow> removes seq out res \<Longrightarrow> removes seq (t @ s @ out) (t @ res)"

text \<open>The body of the request \<open>run\<close> sends to \<open>/run\<close>, and the world once it is sent.\<close>

definition run_request :: "dict \<Rightarrow> json" where
  "run_request arguments =
     JObj [(u ''connection'', dict_get arguments (u ''connection'') JNull),
           (u ''module'', dict_get arguments (u ''module'') JNull),
           (u ''command'', dict_get arguments (u ''command'') JNull),
           (u ''caller_id'', JStr (u ''mm-mcp''))]"

definition after_run :: "dict \<Rightarrow> world \<Rightarrow> world" where
  "after_run arguments w = w\<lparr>trace := trace w @ [PoolCall (u ''/run'') (u ''POST'') (Some (run_request arguments))]\<rparr>"

text \<open>What \<open>run\<close> makes of the final output, and the warning it puts before it.\<close>

definition rendering :: "pstr \<Rightarrow> pstr" where
  "rendering out = (if strip out \<noteq> [] then strip out else u ''(no output)'')"

definition warning :: "pstr \<Rightarrow> pstr \<Rightarrow> pstr" where
  "warning expected got = u ''WARNING: Wrong account! Expected '' @ expected @ u '', got '' @ got @ [10, 10]"

text \<open>The text for \<open>auth_required\<close> around a given sign-in hint.\<close>

definition device_prompt :: "pstr \<Rightarrow> pstr \<Rightarrow> pstr \<Rightarrow> pstr \<Rightarrow> pstr" where
  "device_prompt code hint connection module =
     u ''**DEVICE CODE: '' @ code @ u ''**'' @ [10] @
     u ''Go to: https://microsoft.com/devicelogin'' @ [10] @
     hint @ [10, 10] @
     u ''Connection: '' @ connection @ [10] @
     u ''Module: '' @ module @ [10, 10] @
     u ''After authenticating, retry the command.''"

lemma sgr_sequence_iff:
  "sgr_sequence s \<longleftrightarrow> (\<exists>ps. list_all (\<lambda>c. is_digit c \<or> c = 59) ps \<and> s = [27, 91] @ ps @ [109])"
proof
  assume "sgr_sequence s"
  then obtain rest where s: "s = 27 # 91 # rest" and r: "rest \<noteq> []" "last rest = 109"
      "list_all (\<lambda>c. is_digit c \<or> c = 59) (butlast rest)"
    by (auto simp: sgr_sequence_def split: list.splits)
  from r(1,2) have "rest = butlast rest @ [109]"
    using append_butlast_last_id[of rest] by simp
  with s r(3) show "\<exists>ps. list_all (\<lambda>c. is_digit c \<or> c = 59) ps \<and> s = [27, 91] @ ps @ [109]"
    by (intro exI[of _ "butlast rest"]) simp
next
  assume "\<exists>ps. list_all (\<lambda>c. is_digit c \<or> c = 59) ps \<and> s = [27, 91] @ ps @ [109]"
  then show "sgr_sequence s"
    by (auto simp: sgr_sequence_def)
qed

lemma mode_sequence_iff:
  "mode_sequence s \<longleftrightarrow>
     (\<exists>ds t. ds \<noteq> [] \<and> list_all is_digit ds \<and> (t = 104 \<or> t = 108) \<and> s = [27, 91, 63] @ ds @ [t])"
proof
  assume "mode_sequence s"
  then obtain rest where s: "s = 27 # 91 # 63 # rest" and r: "rest \<noteq> []" "last rest = 104 \<or> last rest = 108"
      "butlast rest \<noteq> []" "list_all is_digit (butlast rest)"
    by (auto simp: mode_sequence_def split: list.splits)
  from r(1) have "rest = butlast rest @ [last rest]"
    by simp
  with s r show "\<exists>ds t. ds \<noteq> [] \<and> list_all is_digit ds \<and> (t = 104 \<or> t = 108) \<and> s = [27, 91, 63] @ ds @ [t]"
    by (intro exI[of _ "butlast rest"] exI[of _ "last rest"]) simp
next
  assume "\<exists>ds t. ds \<noteq> [] \<and> list_all is_digit ds \<and> (t = 104 \<or> t = 108) \<and> s = [27, 91, 63] @ ds @ [t]"
  then show "mode_sequence s"
    by (auto simp: mode_sequence_def)
qed

lemma free_of_iff: "free_of seq t \<longleftrightarrow> (\<forall>s. seq s \<longrightarrow> \<not> sublist s t)"
  by (auto simp: free_of_def list_ex_iff)

lemma free_of_Cons:
  assumes "free_of seq t" and "\<And>s. seq s \<Longrightarrow> \<not> prefix s (c # t)"
  shows "free_of seq (c # t)"
  using assms by (auto simp: free_of_iff sublist_Cons_right)

lemma sgr_end_Some_iff:
  "sgr_end cs = Some after \<longleftrightarrow>
     (\<exists>ps. list_all (\<lambda>c. is_digit c \<or> c = 59) ps \<and> cs = 91 # ps @ 109 # after)"
proof
  assume a: "sgr_end cs = Some after"
  then obtain rest where cs: "cs = 91 # rest"
    by (cases cs) (auto simp: sgr_end_def split: if_splits)
  with a have d: "dropWhile (\<lambda>c. is_digit c \<or> c = 59) rest = 109 # after"
    by (auto simp: sgr_end_def split: if_splits list.splits)
  have "rest = takeWhile (\<lambda>c. is_digit c \<or> c = 59) rest @ dropWhile (\<lambda>c. is_digit c \<or> c = 59) rest"
    by simp
  with d have "rest = takeWhile (\<lambda>c. is_digit c \<or> c = 59) rest @ 109 # after"
    by simp
  moreover have "list_all (\<lambda>c. is_digit c \<or> c = 59) (takeWhile (\<lambda>c. is_digit c \<or> c = 59) rest)"
    unfolding list_all_iff by (blast dest: set_takeWhileD)
  ultimately show "\<exists>ps. list_all (\<lambda>c. is_digit c \<or> c = 59) ps \<and> cs = 91 # ps @ 109 # after"
    using cs by blast
next
  assume "\<exists>ps. list_all (\<lambda>c. is_digit c \<or> c = 59) ps \<and> cs = 91 # ps @ 109 # after"
  then obtain ps where ps: "list_all (\<lambda>c. is_digit c \<or> c = 59) ps" and cs: "cs = 91 # ps @ 109 # after"
    by blast
  from ps have "dropWhile (\<lambda>c. is_digit c \<or> c = 59) (ps @ 109 # after) = 109 # after"
    by (simp add: dropWhile_append2 list_all_iff is_digit_def)
  with cs show "sgr_end cs = Some after"
    by (simp add: sgr_end_def)
qed

lemma cursor_end_Some_iff:
  "cursor_end cs = Some after \<longleftrightarrow>
     (\<exists>ds t. ds \<noteq> [] \<and> list_all is_digit ds \<and> (t = 104 \<or> t = 108) \<and> cs = 91 # 63 # ds @ t # after)"
proof
  assume a: "cursor_end cs = Some after"
  then obtain rest where cs: "cs = 91 # 63 # rest" and ne: "takeWhile is_digit rest \<noteq> []"
    by (cases cs; cases "tl cs") (auto simp: cursor_end_def split: if_splits)
  with a obtain t where d: "dropWhile is_digit rest = t # after" and t: "t = 104 \<or> t = 108"
    by (auto simp: cursor_end_def split: if_splits list.splits)
  have "rest = takeWhile is_digit rest @ dropWhile is_digit rest"
    by simp
  with d have "rest = takeWhile is_digit rest @ t # after"
    by simp
  moreover have "list_all is_digit (takeWhile is_digit rest)"
    unfolding list_all_iff by (blast dest: set_takeWhileD)
  ultimately show "\<exists>ds t. ds \<noteq> [] \<and> list_all is_digit ds \<and> (t = 104 \<or> t = 108) \<and> cs = 91 # 63 # ds @ t # after"
    using cs ne t by blast
next
  assume "\<exists>ds t. ds \<noteq> [] \<and> list_all is_digit ds \<and> (t = 104 \<or> t = 108) \<and> cs = 91 # 63 # ds @ t # after"
  then obtain ds t where ds: "ds \<noteq> []" "list_all is_digit ds" and t: "t = 104 \<or> t = 108"
      and cs: "cs = 91 # 63 # ds @ t # after"
    by blast
  from t have nd: "\<not> is_digit t" by (auto simp: is_digit_def)
  from ds(2) nd have "takeWhile is_digit (ds @ t # after) = ds"
    by (simp add: takeWhile_append2 list_all_iff)
  moreover from ds(2) nd have "dropWhile is_digit (ds @ t # after) = t # after"
    by (simp add: dropWhile_append2 list_all_iff)
  ultimately show "cursor_end cs = Some after"
    using ds(1) t cs by (auto simp: cursor_end_def)
qed

lemma sgr_at_head:
  assumes "sgr_sequence s" and "prefix s (c # cs)"
  shows "c = 27 \<and> (\<exists>after. sgr_end cs = Some after)"
proof -
  from assms(1) obtain ps where ps: "list_all (\<lambda>c. is_digit c \<or> c = 59) ps" and s: "s = [27, 91] @ ps @ [109]"
    by (auto simp: sgr_sequence_iff)
  from assms(2) obtain r where "c # cs = s @ r"
    by (auto simp: prefix_def)
  with s have "c = 27" and "cs = 91 # ps @ 109 # r"
    by simp_all
  with ps show ?thesis
    using sgr_end_Some_iff[of cs r] by blast
qed

lemma mode_at_head:
  assumes "mode_sequence s" and "prefix s (c # cs)"
  shows "c = 27 \<and> (\<exists>after. cursor_end cs = Some after)"
proof -
  from assms(1) obtain ds t where ds: "ds \<noteq> []" "list_all is_digit ds" "t = 104 \<or> t = 108"
      and s: "s = [27, 91, 63] @ ds @ [t]"
    by (auto simp: mode_sequence_iff)
  from assms(2) obtain r where "c # cs = s @ r"
    by (auto simp: prefix_def)
  with s have "c = 27" and "cs = 91 # 63 # ds @ t # r"
    by simp_all
  with ds show ?thesis
    using cursor_end_Some_iff[of cs r] by blast
qed

lemma removes_Cons:
  assumes "removes seq cs res" and "\<And>s. seq s \<Longrightarrow> \<not> prefix s (c # cs)"
  shows "removes seq (c # cs) (c # res)"
  using assms(1)
proof (cases rule: removes.cases)
  case last_text
  with assms(2) show ?thesis
    by (auto intro!: removes.last_text free_of_Cons)
next
  case (sequence t s out res')
  have "free_of seq (c # t)"
  proof (rule free_of_Cons)
    show "free_of seq t" by (rule sequence(3))
  next
    fix x assume "seq x"
    then have "\<not> prefix x (c # cs)" by (rule assms(2))
    then show "\<not> prefix x (c # t)"
      unfolding sequence(1) using prefix_prefix[of x "c # t" "s @ out"] by auto
  qed
  from removes.sequence[OF this sequence(4,5)] show ?thesis
    unfolding sequence(1,2) by simp
qed

lemma free_of_Nil: "\<not> seq [] \<Longrightarrow> free_of seq []"
  by (simp add: free_of_def)

lemma removes_sgr: "removes sgr_sequence out (sub_sgr out)"
proof (induction out rule: sub_sgr.induct)
  case 1
  show ?case
    by (simp add: removes.last_text free_of_Nil sgr_sequence_def)
next
  case (2 c cs)
  show ?case
  proof (cases "c = 27 \<and> sgr_end cs \<noteq> None")
    case True
    then obtain after where e: "sgr_end cs = Some after" and c: "c = 27" by auto
    then obtain ps where ps: "list_all (\<lambda>c. is_digit c \<or> c = 59) ps" and cs: "cs = 91 # ps @ 109 # after"
      by (auto simp: sgr_end_Some_iff)
    from ps have s: "sgr_sequence ([27, 91] @ ps @ [109])"
      by (auto simp: sgr_sequence_iff)
    have "free_of sgr_sequence []"
      by (simp add: free_of_Nil sgr_sequence_def)
    from removes.sequence[OF this s "2.IH"(2)[OF c e]]
    show ?thesis using c cs e by simp
  next
    case False
    then have step: "sub_sgr (c # cs) = c # sub_sgr cs"
      by (auto split: option.splits)
    have ih: "removes sgr_sequence cs (sub_sgr cs)"
      using False "2.IH"(1,3) by (cases "c = 27") auto
    have "removes sgr_sequence (c # cs) (c # sub_sgr cs)"
      using ih
    proof (rule removes_Cons)
      fix s assume "sgr_sequence s"
      with False show "\<not> prefix s (c # cs)"
        by (auto dest: sgr_at_head)
    qed
    with step show ?thesis by simp
  qed
qed

lemma removes_mode: "removes mode_sequence out (sub_cursor out)"
proof (induction out rule: sub_cursor.induct)
  case 1
  show ?case
    by (simp add: removes.last_text free_of_Nil mode_sequence_def)
next
  case (2 c cs)
  show ?case
  proof (cases "c = 27 \<and> cursor_end cs \<noteq> None")
    case True
    then obtain after where e: "cursor_end cs = Some after" and c: "c = 27" by auto
    then obtain ds t where ds: "ds \<noteq> []" "list_all is_digit ds" "t = 104 \<or> t = 108"
        and cs: "cs = 91 # 63 # ds @ t # after"
      by (auto simp: cursor_end_Some_iff)
    from ds have s: "mode_sequence ([27, 91, 63] @ ds @ [t])"
      unfolding mode_sequence_iff by blast
    have "free_of mode_sequence []"
      by (simp add: free_of_Nil mode_sequence_def)
    from removes.sequence[OF this s "2.IH"(2)[OF c e]]
    show ?thesis using c cs e by simp
  next
    case False
    then have step: "sub_cursor (c # cs) = c # sub_cursor cs"
      by (auto split: option.splits)
    have ih: "removes mode_sequence cs (sub_cursor cs)"
      using False "2.IH"(1,3) by (cases "c = 27") auto
    have "removes mode_sequence (c # cs) (c # sub_cursor cs)"
      using ih
    proof (rule removes_Cons)
      fix s assume "mode_sequence s"
      with False show "\<not> prefix s (c # cs)"
        by (auto dest: mode_at_head)
    qed
    with step show ?thesis by simp
  qed
qed


lemma free_of_tail: "free_of seq (c # t) \<Longrightarrow> free_of seq t"
  by (auto simp: free_of_iff sublist_Cons_right)

lemma free_of_head: "free_of seq t \<Longrightarrow> seq s \<Longrightarrow> \<not> prefix s t"
  by (auto simp: free_of_iff)

lemma sub_sgr_free:
  assumes "free_of sgr_sequence t" and "r = [] \<or> hd r = 27"
  shows "sub_sgr (t @ r) = t @ sub_sgr r"
  using assms(1)
proof (induction t)
  case Nil
  show ?case by simp
next
  case (Cons c t)
  from Cons.prems have ih: "sub_sgr (t @ r) = t @ sub_sgr r"
    by (intro Cons.IH) (rule free_of_tail)
  have "sgr_end (t @ r) = None" if c: "c = 27"
  proof (rule ccontr)
    assume "sgr_end (t @ r) \<noteq> None"
    then obtain after where "sgr_end (t @ r) = Some after" by auto
    then obtain ps where ps: "list_all (\<lambda>c. is_digit c \<or> c = 59) ps" and tr: "t @ r = (91 # ps @ [109]) @ after"
      by (auto simp: sgr_end_Some_iff)
    from ps have s: "sgr_sequence (27 # 91 # ps @ [109])"
      unfolding sgr_sequence_iff by auto
    from ps have no_esc: "27 \<notin> set (91 # ps @ [109])"
      by (auto simp: list_all_iff is_digit_def)
    from tr obtain us where "t = (91 # ps @ [109]) @ us \<or> (t @ us = 91 # ps @ [109] \<and> r = us @ after)"
      unfolding append_eq_append_conv2 by blast
    then have "prefix (91 # ps @ [109]) t"
    proof
      assume "t = (91 # ps @ [109]) @ us"
      then show ?thesis by (simp add: prefix_def)
    next
      assume a: "t @ us = 91 # ps @ [109] \<and> r = us @ after"
      show ?thesis
      proof (cases us)
        case Nil
        with a show ?thesis by simp
      next
        case (Cons x xs)
        with a have "hd r = x" and "r \<noteq> []" by simp_all
        with assms(2) have "x = 27" by simp
        moreover from a Cons have "x \<in> set (91 # ps @ [109])"
          by (metis in_set_conv_decomp)
        ultimately show ?thesis using no_esc by simp
      qed
    qed
    then have "prefix (27 # 91 # ps @ [109]) (c # t)"
      using c by simp
    with s Cons.prems show False
      by (auto dest: free_of_head)
  qed
  with ih show ?case by simp
qed

lemma sub_cursor_free:
  assumes "free_of mode_sequence t" and "r = [] \<or> hd r = 27"
  shows "sub_cursor (t @ r) = t @ sub_cursor r"
  using assms(1)
proof (induction t)
  case Nil
  show ?case by simp
next
  case (Cons c t)
  from Cons.prems have ih: "sub_cursor (t @ r) = t @ sub_cursor r"
    by (intro Cons.IH) (rule free_of_tail)
  have "cursor_end (t @ r) = None" if c: "c = 27"
  proof (rule ccontr)
    assume "cursor_end (t @ r) \<noteq> None"
    then obtain after where "cursor_end (t @ r) = Some after" by auto
    then obtain ds x where ds: "ds \<noteq> []" "list_all is_digit ds" "x = 104 \<or> x = 108"
        and tr: "t @ r = (91 # 63 # ds @ [x]) @ after"
      by (auto simp: cursor_end_Some_iff)
    from ds have s: "mode_sequence (27 # 91 # 63 # ds @ [x])"
      unfolding mode_sequence_iff by auto
    from ds have no_esc: "27 \<notin> set (91 # 63 # ds @ [x])"
      by (auto simp: list_all_iff is_digit_def)
    from tr obtain us where "t = (91 # 63 # ds @ [x]) @ us \<or> (t @ us = 91 # 63 # ds @ [x] \<and> r = us @ after)"
      unfolding append_eq_append_conv2 by blast
    then have "prefix (91 # 63 # ds @ [x]) t"
    proof
      assume "t = (91 # 63 # ds @ [x]) @ us"
      then show ?thesis by (simp add: prefix_def)
    next
      assume a: "t @ us = 91 # 63 # ds @ [x] \<and> r = us @ after"
      show ?thesis
      proof (cases us)
        case Nil
        with a show ?thesis by simp
      next
        case (Cons y ys)
        with a have "hd r = y" and "r \<noteq> []" by simp_all
        with assms(2) have "y = 27" by simp
        moreover from a Cons have "y \<in> set (91 # 63 # ds @ [x])"
          by (metis in_set_conv_decomp)
        ultimately show ?thesis using no_esc by simp
      qed
    qed
    then have "prefix (27 # 91 # 63 # ds @ [x]) (c # t)"
      using c by simp
    with s Cons.prems show False
      by (auto dest: free_of_head)
  qed
  with ih show ?case by simp
qed

lemma removes_sgr_unique: "removes sgr_sequence out res \<Longrightarrow> res = sub_sgr out"
proof (induction rule: removes.induct)
  case (last_text t)
  from sub_sgr_free[OF this, of "[]"] show ?case by simp
next
  case (sequence t s out res)
  from sequence(2) obtain ps where ps: "list_all (\<lambda>c. is_digit c \<or> c = 59) ps" and s: "s = [27, 91] @ ps @ [109]"
    by (auto simp: sgr_sequence_iff)
  from ps have "sgr_end (91 # ps @ 109 # out) = Some out"
    unfolding sgr_end_Some_iff by blast
  then have "sub_sgr (s @ out) = sub_sgr out"
    unfolding s by simp
  moreover have "sub_sgr (t @ s @ out) = t @ sub_sgr (s @ out)"
    using sequence(1) by (rule sub_sgr_free) (simp add: s)
  ultimately show ?case using sequence.IH by simp
qed

lemma removes_mode_unique: "removes mode_sequence out res \<Longrightarrow> res = sub_cursor out"
proof (induction rule: removes.induct)
  case (last_text t)
  from sub_cursor_free[OF this, of "[]"] show ?case by simp
next
  case (sequence t s out res)
  from sequence(2) obtain ds x where ds: "ds \<noteq> []" "list_all is_digit ds" "x = 104 \<or> x = 108"
      and s: "s = [27, 91, 63] @ ds @ [x]"
    by (auto simp: mode_sequence_iff)
  from ds have "cursor_end (91 # 63 # ds @ x # out) = Some out"
    unfolding cursor_end_Some_iff by blast
  then have "sub_cursor (s @ out) = sub_cursor out"
    unfolding s by simp
  moreover have "sub_cursor (t @ s @ out) = t @ sub_cursor (s @ out)"
    using sequence(1) by (rule sub_cursor_free) (simp add: s)
  ultimately show ?case using sequence.IH by simp
qed

lemma run_call:
  assumes "truthy (dict_get arguments (u ''connection'') JNull)"
      and "truthy (dict_get arguments (u ''module'') JNull)"
      and "truthy (dict_get arguments (u ''command'') JNull)"
      and "http e (u ''/run'') (u ''POST'') (Some (run_request arguments)) = Responded (JObj r)"
      and "dict_get r (u ''status'') JNull = JStr st"
  shows "call_tool_impl e (u ''run'') arguments w =
           (if st = u ''auth_required'' then
              run_auth_required e (dict_get arguments (u ''connection'') JNull)
                (dict_get arguments (u ''module'') JNull) (JObj r) (after_run arguments w)
            else if st = u ''auth_in_progress'' then
              (Inr (Text (u ''Auth in progress by another caller. Retry in a few seconds.'')), after_run arguments w)
            else if st = u ''error'' then
              (Inr (Text (u ''Error: '' @ py_str (fmt e) (dict_get r (u ''error'') (JStr (u ''Unknown error''))))),
               after_run arguments w)
            else if st = u ''success'' then
              run_success e (dict_get arguments (u ''connection'') JNull) (JObj r) (after_run arguments w)
            else (Inr (JsonDump (JObj r)), after_run arguments w))"
  using assms
  by (simp add: call_tool_impl_def call_pool_def Let_def run_request_def[symmetric] after_run_def)

lemma run_success_silent:
  assumes "dict_get r (u ''output'') (JStr []) = JStr out"
      and "\<not> truthy (dict_get r (u ''authenticated_as'') JNull)"
  shows "run_success e connection (JObj r) w = (Inr (Text (rendering (sub_cursor (sub_sgr out)))), w)"
  using assms by (simp add: run_success_def Let_def rendering_def)

lemma run_success_identified:
  assumes "dict_get r (u ''output'') (JStr []) = JStr out"
      and "dict_get r (u ''authenticated_as'') JNull = JStr got" and "got \<noteq> []"
      and "load_registry w = Inr (JObj reg)"
      and "dict_get reg (u ''connections'') (JObj []) = JObj conns"
      and "dict_get conns c (JObj []) = JObj cfg"
      and "dict_get cfg (u ''expectedEmail'') (JStr []) = JStr expected"
  shows "run_success e (JStr c) (JObj r) w =
           (Inr (Text (rendering
              ((if expected \<noteq> [] \<and> lower e expected \<noteq> lower e got then warning expected got else [])
               @ sub_cursor (sub_sgr out)))), w)"
  using assms by (simp add: run_success_def Let_def rendering_def warning_def)

lemma run_success_unexpected:
  assumes "dict_get r (u ''output'') (JStr []) = JStr out"
      and "dict_get r (u ''authenticated_as'') JNull = JStr got" and "got \<noteq> []"
      and "load_registry w = Inr (JObj reg)"
      and "dict_get reg (u ''connections'') (JObj []) = JObj conns"
      and "dict_get conns c (JObj []) = JObj cfg"
      and "\<not> truthy (dict_get cfg (u ''expectedEmail'') (JStr []))"
  shows "run_success e (JStr c) (JObj r) w = (Inr (Text (rendering (sub_cursor (sub_sgr out)))), w)"
  using assms by (simp add: run_success_def Let_def rendering_def)

lemma strip_keeps_prefix:
  assumes "p \<noteq> []" and "\<not> isspace (hd p)" and "\<not> isspace (last p)"
  shows "prefix p (strip (p @ q))"
proof -
  from assms(1,2) have "dropWhile isspace (p @ q) = p @ q"
    by (cases p) simp_all
  moreover from assms(1,3) have "dropWhile isspace (rev p) = rev p"
    by (cases "rev p") (simp_all add: last_rev[symmetric] hd_rev)
  then have "\<exists>ys. dropWhile isspace (rev q @ rev p) = ys @ rev p"
    by (auto simp: dropWhile_append)
  ultimately obtain ys where "strip (p @ q) = rev (ys @ rev p)"
    by (auto simp: strip_def)
  then show ?thesis by simp
qed

lemma warned_rendering:
  "prefix (u ''WARNING: Wrong account! Expected'') (rendering (warning expected got @ out))"
proof -
  let ?p = "u ''WARNING: Wrong account! Expected''"
  have w: "warning expected got @ out = ?p @ ([32] @ expected @ u '', got '' @ got @ [10, 10] @ out)"
    by (simp add: warning_def u_def)
  have "prefix ?p (strip (?p @ ([32] @ expected @ u '', got '' @ got @ [10, 10] @ out)))"
    by (rule strip_keeps_prefix) (simp_all add: u_def isspace_def)
  then show ?thesis
    unfolding w rendering_def by (auto simp: u_def)
qed

lemma run_auth_required_text:
  assumes "load_registry w = Inr (JObj reg)"
      and "dict_get reg (u ''connections'') (JObj []) = JObj conns"
      and "dict_get conns c (JObj []) = JObj cfg"
  shows "run_auth_required e (JStr c) module (JObj r) w =
           (Inr (Text (device_prompt (py_str (fmt e) (dict_get r (u ''device_code'') (JStr [])))
              (if truthy (dict_get cfg (u ''expectedEmail'') (JStr []))
               then [10] @ u ''>>> SIGN IN AS: '' @ py_str (fmt e) (dict_get cfg (u ''expectedEmail'') (JStr [])) @ u '' <<<''
               else if truthy (dict_get cfg (u ''tenant'') (JStr []))
               then [10] @ u ''>>> Sign in with your @'' @ py_str (fmt e) (dict_get cfg (u ''tenant'') (JStr [])) @ u '' account <<<''
               else [])
              c (py_str (fmt e) module))), w)"
  using assms by (simp add: run_auth_required_def device_prompt_def)

lemma strip_empty_iff: "strip s = [] \<longleftrightarrow> list_all isspace s"
proof
  assume "strip s = []"
  then have "dropWhile isspace (rev (dropWhile isspace s)) = []"
    unfolding strip_def by (simp only: rev_is_Nil_conv)
  then have all: "\<forall>c\<in>set (dropWhile isspace s). isspace c"
    by (simp only: dropWhile_eq_Nil_conv set_rev)
  have "dropWhile isspace s = []"
  proof (rule ccontr)
    assume ne: "dropWhile isspace s \<noteq> []"
    then have "\<not> isspace (hd (dropWhile isspace s))" by (rule hd_dropWhile)
    moreover from ne have "hd (dropWhile isspace s) \<in> set (dropWhile isspace s)" by (rule hd_in_set)
    ultimately show False using all by blast
  qed
  then show "list_all isspace s"
    by (simp only: dropWhile_eq_Nil_conv list_all_iff)
next
  assume "list_all isspace s"
  then have "dropWhile isspace s = []"
    by (simp only: dropWhile_eq_Nil_conv list_all_iff)
  then show "strip s = []"
    unfolding strip_def by (simp only: rev.simps dropWhile.simps)
qed

lemma strip_trims_ends:
  "\<exists>a b. s = a @ strip s @ b \<and> list_all isspace a \<and> list_all isspace b"
proof -
  let ?d = "dropWhile isspace s"
  let ?t = "takeWhile isspace (rev ?d)"
  have s: "s = takeWhile isspace s @ ?d"
    by (simp only: takeWhile_dropWhile_id)
  have "rev ?d = ?t @ dropWhile isspace (rev ?d)"
    by (simp only: takeWhile_dropWhile_id)
  then have "rev (rev ?d) = rev (?t @ dropWhile isspace (rev ?d))"
    by (rule arg_cong)
  then have d: "?d = strip s @ rev ?t"
    unfolding strip_def by (simp only: rev_rev_ident rev_append)
  have "s = takeWhile isspace s @ strip s @ rev ?t"
    using s d by (simp only: )
  moreover have "list_all isspace (takeWhile isspace s)"
    unfolding list_all_iff by (blast dest: set_takeWhileD)
  moreover have "list_all isspace (rev ?t)"
    unfolding list_all_iff set_rev by (blast dest: set_takeWhileD)
  ultimately show ?thesis by blast
qed

lemma load_registry_after_run [simp]: "load_registry (after_run arguments w) = load_registry w"
  by (simp add: load_registry_def after_run_def)

lemma rendering_cases: "rendering t = (if list_all isspace t then u ''(no output)'' else strip t)"
  by (simp add: rendering_def strip_empty_iff)

lemma strip_ends:
  assumes "strip s \<noteq> []"
  shows "\<not> isspace (hd (strip s)) \<and> \<not> isspace (last (strip s))"
proof -
  let ?d = "dropWhile isspace s"
  let ?e = "dropWhile isspace (rev ?d)"
  from assms have e: "?e \<noteq> []"
    unfolding strip_def by (simp only: rev_is_Nil_conv not_False_eq_True)
  then have 1: "\<not> isspace (hd ?e)" by (rule hd_dropWhile)
  have 2: "last (strip s) = hd ?e"
    unfolding strip_def using e by (simp only: last_rev)
  have 3: "hd (strip s) = last ?e"
    unfolding strip_def using e by (simp only: hd_rev)
  have "rev ?d = takeWhile isspace (rev ?d) @ ?e"
    by (simp only: takeWhile_dropWhile_id)
  then have "last (rev ?d) = last (takeWhile isspace (rev ?d) @ ?e)"
    by (rule arg_cong)
  with e have 4: "last (rev ?d) = last ?e"
    by (simp only: last_append if_False)
  from e have d: "?d \<noteq> []"
    by (auto simp only: dropWhile.simps rev.simps)
  then have 5: "last (rev ?d) = hd ?d"
    by (simp only: last_rev)
  from d have "\<not> isspace (hd ?d)" by (rule hd_dropWhile)
  with 1 2 3 4 5 show ?thesis by (simp only: not_False_eq_True simp_thms)
qed

lemma run_success_shape:
  assumes "dict_get r (u ''output'') (JStr []) = JStr out"
  shows "(\<exists>x. run_success e connection (JObj r) w = (Inl x, w)) \<or>
         (\<exists>pre. (pre = [] \<or> (\<exists>expected got. pre = warning expected got)) \<and>
                run_success e connection (JObj r) w =
                  (Inr (Text (rendering (pre @ sub_cursor (sub_sgr out)))), w))"
proof -
  let ?S = "sub_cursor (sub_sgr out)"
  let ?X = "if truthy (dict_get r (u ''authenticated_as'') JNull) then
                bnd (load_registry w) (\<lambda>registry.
                bnd (py_get registry (u ''connections'') (JObj [])) (\<lambda>conns.
                bnd (py_get_key conns connection (JObj [])) (\<lambda>conn_config.
                bnd (py_get conn_config (u ''expectedEmail'') (JStr [])) (\<lambda>expected_email.
                  if truthy expected_email then
                    bnd (py_lower (lower e) expected_email) (\<lambda>expected_l.
                    bnd (py_lower (lower e) (dict_get r (u ''authenticated_as'') JNull)) (\<lambda>authenticated_l.
                      if expected_l \<noteq> authenticated_l
                      then Inr (u ''WARNING: Wrong account! Expected '' @ py_str (fmt e) expected_email @
                                u '', got '' @ py_str (fmt e) (dict_get r (u ''authenticated_as'') JNull) @ [10, 10] @ ?S)
                      else Inr ?S))
                  else Inr ?S))))
              else Inr ?S"
  have call: "run_success e connection (JObj r) w =
                attempt ?X w (\<lambda>output. (Inr (Text (rendering output)), w))"
    using assms by (simp add: run_success_def Let_def rendering_def)
  have w: "u ''WARNING: Wrong account! Expected '' @ a @ u '', got '' @ b @ [10, 10] @ ?S = warning a b @ ?S" for a b
    by (simp add: warning_def)
  have "(\<exists>x. ?X = Inl x) \<or> ?X = Inr ?S \<or> (\<exists>a b. ?X = Inr (warning a b @ ?S))"
    unfolding w by (auto simp: bnd_def split: sum.splits)
  then show ?thesis
    unfolding call by (elim disjE exE) (auto simp: attempt_simps)
qed


text \<open>
  C1, as the code has it.  Take a \<open>run\<close> call that the pool answers with status
  \<open>success\<close> and a string output.  The first pass removes the "set graphic rendition"
  sequences \<open>ESC [ params m\<close> of the output: the output is stretches of text that hold
  no such sequence, with such sequences between them, and what is left is the stretches in
  order; nothing else is what the pass leaves.  The second pass does the same to what the
  first has left, for the sequences \<open>ESC [ ? digits h\<close> and \<open>ESC [ ? digits l\<close>,
  the cursor-visibility toggle among them.  The call then raises, or its result is the text
  left by the two passes, with the wrong-account warning before it where that is due, trimmed:
  leading and trailing whitespace is removed and nothing else, and a text that is empty or
  all whitespace is rendered as \<open>(no output)\<close>.  Without an \<open>authenticated_as\<close> in
  the answer the call does not raise and there is no warning.
\<close>

theorem success_output_rendering:
  assumes "truthy (dict_get arguments (u ''connection'') JNull)"
      and "truthy (dict_get arguments (u ''module'') JNull)"
      and "truthy (dict_get arguments (u ''command'') JNull)"
      and "http e (u ''/run'') (u ''POST'') (Some (run_request arguments)) = Responded (JObj r)"
      and "dict_get r (u ''status'') JNull = JStr (u ''success'')"
      and "dict_get r (u ''output'') (JStr []) = JStr out"
  shows "removes sgr_sequence out (sub_sgr out)
       \<and> (\<forall>m. removes sgr_sequence out m \<longrightarrow> m = sub_sgr out)
       \<and> removes mode_sequence (sub_sgr out) (sub_cursor (sub_sgr out))
       \<and> (\<forall>m. removes mode_sequence (sub_sgr out) m \<longrightarrow> m = sub_cursor (sub_sgr out))
       \<and> ((\<exists>x. call_tool_impl e (u ''run'') arguments w = (Inl x, after_run arguments w)) \<or>
          (\<exists>pre. (pre = [] \<or> (\<exists>expected got. pre = warning expected got)) \<and>
                 call_tool_impl e (u ''run'') arguments w =
                   (Inr (Text (if list_all isspace (pre @ sub_cursor (sub_sgr out)) then u ''(no output)''
                               else strip (pre @ sub_cursor (sub_sgr out)))),
                    after_run arguments w)))
       \<and> (\<not> truthy (dict_get r (u ''authenticated_as'') JNull) \<longrightarrow>
            call_tool_impl e (u ''run'') arguments w =
              (Inr (Text (if list_all isspace (sub_cursor (sub_sgr out)) then u ''(no output)''
                          else strip (sub_cursor (sub_sgr out)))),
               after_run arguments w))
       \<and> (\<forall>t. \<exists>a b. t = a @ strip t @ b \<and> list_all isspace a \<and> list_all isspace b \<and>
                    (strip t = [] \<or> \<not> isspace (hd (strip t)) \<and> \<not> isspace (last (strip t))))"
proof -
  let ?S = "sub_cursor (sub_sgr out)"
  have call: "call_tool_impl e (u ''run'') arguments w =
          run_success e (dict_get arguments (u ''connection'') JNull) (JObj r) (after_run arguments w)"
    using run_call[OF assms(1-5)] by simp
  have 1: "removes sgr_sequence out (sub_sgr out)"
    by (rule removes_sgr)
  have 2: "\<forall>m. removes sgr_sequence out m \<longrightarrow> m = sub_sgr out"
    by (blast dest: removes_sgr_unique)
  have 3: "removes mode_sequence (sub_sgr out) ?S"
    by (rule removes_mode)
  have 4: "\<forall>m. removes mode_sequence (sub_sgr out) m \<longrightarrow> m = ?S"
    by (blast dest: removes_mode_unique)
  have 5: "(\<exists>x. call_tool_impl e (u ''run'') arguments w = (Inl x, after_run arguments w)) \<or>
          (\<exists>pre. (pre = [] \<or> (\<exists>expected got. pre = warning expected got)) \<and>
                 call_tool_impl e (u ''run'') arguments w =
                   (Inr (Text (if list_all isspace (pre @ ?S) then u ''(no output)'' else strip (pre @ ?S))),
                    after_run arguments w))"
    using run_success_shape[OF assms(6), of e "dict_get arguments (u ''connection'') JNull" "after_run arguments w"]
    unfolding call rendering_cases .
  have 6: "\<not> truthy (dict_get r (u ''authenticated_as'') JNull) \<longrightarrow>
            call_tool_impl e (u ''run'') arguments w =
              (Inr (Text (if list_all isspace ?S then u ''(no output)'' else strip ?S)), after_run arguments w)"
    using run_success_silent[OF assms(6), of e "dict_get arguments (u ''connection'') JNull" "after_run arguments w"]
    unfolding call rendering_cases by blast
  have 7: "\<forall>t. \<exists>a b. t = a @ strip t @ b \<and> list_all isspace a \<and> list_all isspace b \<and>
                    (strip t = [] \<or> \<not> isspace (hd (strip t)) \<and> \<not> isspace (last (strip t)))"
    using strip_trims_ends strip_ends by blast
  from 1 2 3 4 5 6 7 show ?thesis by (intro conjI)
qed

lemma run_args_get:
  "dict_get (run_args name) (u ''connection'') JNull = JStr (u name)"
  "dict_get (run_args name) (u ''module'') JNull = JStr (u ''exo'')"
  "dict_get (run_args name) (u ''command'') JNull = JStr (u ''Get-Mailbox'')"
  by (simp_all add: run_args_def dict_get_def)

lemma run_args_truthy:
  "name \<noteq> [] \<Longrightarrow> truthy (dict_get (run_args name) (u ''connection'') JNull)"
  "truthy (dict_get (run_args name) (u ''module'') JNull)"
  "truthy (dict_get (run_args name) (u ''command'') JNull)"
  by (simp_all add: run_args_get)

lemma answer_get:
  "dict_get ([(u ''status'', JStr (u status)), (u ''output'', JStr output)] @ others) (u ''status'') JNull
     = JStr (u status)"
  "dict_get ([(u ''status'', JStr (u status)), (u ''output'', JStr output)] @ others) (u ''output'') (JStr [])
     = JStr output"
  by (simp_all add: dict_get_def)

theorem success_output_rendering_witness:
  "call_tool_impl
       (env_of (Responded (answer ''success''
          ([27] @ u ''[1;32m OK '' @ [27] @ u ''[?25h'' @ [27] @ u ''[2J'' @ [27] @ u ''[0m'') [])) SaveOk)
       (u ''run'') (run_args ''Prod'') (world_of [prod_entry])
     = (Inr (Text (u ''OK '' @ [27] @ u ''[2J'')), after_run (run_args ''Prod'') (world_of [prod_entry]))
   \<and> removes sgr_sequence ([27] @ u ''[1;32m OK '' @ [27] @ u ''[?25h'' @ [27] @ u ''[2J'' @ [27] @ u ''[0m'')
        (u '' OK '' @ [27] @ u ''[?25h'' @ [27] @ u ''[2J'')
   \<and> removes mode_sequence (u '' OK '' @ [27] @ u ''[?25h'' @ [27] @ u ''[2J'') (u '' OK '' @ [27] @ u ''[2J'')
   \<and> call_tool_impl (env_of (Responded (answer ''success'' (u ''   '') [])) SaveOk)
       (u ''run'') (run_args ''Prod'') (world_of [prod_entry])
     = (Inr (Text (u ''(no output)'')), after_run (run_args ''Prod'') (world_of [prod_entry]))
   \<and> call_tool_impl
       (env_of (Responded (answer ''success'' ([27] @ u ''['' @ [27] @ u ''[0m?25h'') [])) SaveOk)
       (u ''run'') (run_args ''Prod'') (world_of [prod_entry])
     = (Inr (Text (u ''(no output)'')), after_run (run_args ''Prod'') (world_of [prod_entry]))"
proof -
  let ?o1 = "[27] @ u ''[1;32m OK '' @ [27] @ u ''[?25h'' @ [27] @ u ''[2J'' @ [27] @ u ''[0m''"
  let ?o2 = "u ''   ''"
  let ?o3 = "[27] @ u ''['' @ [27] @ u ''[0m?25h''"
  let ?e = "\<lambda>out. env_of (Responded (answer ''success'' out [])) SaveOk"
  let ?w = "world_of [prod_entry]"
  have t: "truthy (dict_get (run_args ''Prod'') (u ''connection'') JNull)"
          "truthy (dict_get (run_args ''Prod'') (u ''module'') JNull)"
          "truthy (dict_get (run_args ''Prod'') (u ''command'') JNull)"
    by (simp_all add: run_args_truthy)
  have h: "http (?e out) (u ''/run'') (u ''POST'') (Some (run_request (run_args ''Prod''))) =
             Responded (JObj ([(u ''status'', JStr (u ''success'')), (u ''output'', JStr out)] @ []))" for out
    by (simp add: answer_def)
  have quiet: "\<not> truthy (dict_get ([(u ''status'', JStr (u ''success'')), (u ''output'', JStr out)] @ [])
                          (u ''authenticated_as'') JNull)" for out
    by (simp add: dict_get_def)
  have p1: "sub_sgr ?o1 = u '' OK '' @ [27] @ u ''[?25h'' @ [27] @ u ''[2J''"
           "sub_cursor (u '' OK '' @ [27] @ u ''[?25h'' @ [27] @ u ''[2J'') = u '' OK '' @ [27] @ u ''[2J''"
    by (simp_all add: u_def sgr_end_def cursor_end_def is_digit_def)
  have p2: "sub_cursor (sub_sgr ?o2) = u ''   ''"
    by (simp add: u_def)
  have p3: "sub_cursor (sub_sgr ?o3) = []"
    by (simp add: u_def sgr_end_def cursor_end_def is_digit_def)
  have v: "\<not> list_all isspace (u '' OK '' @ [27] @ u ''[2J'')"
          "strip (u '' OK '' @ [27] @ u ''[2J'') = u ''OK '' @ [27] @ u ''[2J''"
          "list_all isspace (u ''   '')" "list_all isspace []"
    by (simp_all add: u_def strip_def isspace_def)
  note m1 = success_output_rendering[OF t h[of "?o1"] answer_get, where w = ?w, unfolded p1]
  note m2 = success_output_rendering[OF t h[of "?o2"] answer_get, where w = ?w, unfolded p2]
  note m3 = success_output_rendering[OF t h[of "?o3"] answer_get, where w = ?w, unfolded p3]
  have "call_tool_impl (?e ?o1) (u ''run'') (run_args ''Prod'') ?w
     = (Inr (Text (if list_all isspace (u '' OK '' @ [27] @ u ''[2J'') then u ''(no output)''
                   else strip (u '' OK '' @ [27] @ u ''[2J''))), after_run (run_args ''Prod'') ?w)"
    using m1 quiet[of ?o1] by blast
  then have 1: "call_tool_impl (?e ?o1) (u ''run'') (run_args ''Prod'') ?w
     = (Inr (Text (u ''OK '' @ [27] @ u ''[2J'')), after_run (run_args ''Prod'') ?w)"
    by (simp only: v if_False)
  have 2: "removes sgr_sequence ?o1 (u '' OK '' @ [27] @ u ''[?25h'' @ [27] @ u ''[2J'')"
    using m1 by blast
  have 3: "removes mode_sequence (u '' OK '' @ [27] @ u ''[?25h'' @ [27] @ u ''[2J'') (u '' OK '' @ [27] @ u ''[2J'')"
    using m1 by blast
  have "call_tool_impl (?e ?o2) (u ''run'') (run_args ''Prod'') ?w
     = (Inr (Text (if list_all isspace (u ''   '') then u ''(no output)'' else strip (u ''   ''))),
        after_run (run_args ''Prod'') ?w)"
    using m2 quiet[of ?o2] by blast
  then have 4: "call_tool_impl (?e ?o2) (u ''run'') (run_args ''Prod'') ?w
     = (Inr (Text (u ''(no output)'')), after_run (run_args ''Prod'') ?w)"
    by (simp only: v if_True)
  have "call_tool_impl (?e ?o3) (u ''run'') (run_args ''Prod'') ?w
     = (Inr (Text (if list_all isspace [] then u ''(no output)'' else strip [])),
        after_run (run_args ''Prod'') ?w)"
    using m3 quiet[of ?o3] by blast
  then have 5: "call_tool_impl (?e ?o3) (u ''run'') (run_args ''Prod'') ?w
     = (Inr (Text (u ''(no output)'')), after_run (run_args ''Prod'') ?w)"
    by (simp only: v if_True)
  from 1 2 3 4 5 show ?thesis by (intro conjI)
qed

text \<open>
  C1 as stated fails on the bytes it says are left untouched: the output \<open>" OK"\<close> holds
  no control sequence, yet what is rendered is \<open>"OK"\<close>, without the leading space.
\<close>

theorem success_output_trimmed_counterexample:
  "call_tool_impl (env_of (Responded (answer ''success'' (u '' OK'') [])) SaveOk)
       (u ''run'') (run_args ''Prod'') (world_of [prod_entry])
     = (Inr (Text (u ''OK'')), after_run (run_args ''Prod'') (world_of [prod_entry]))
   \<and> sub_cursor (sub_sgr (u '' OK'')) = u '' OK''
   \<and> u ''OK'' \<noteq> u '' OK''"
proof -
  have out: "sub_cursor (sub_sgr (u '' OK'')) = u '' OK''"
    by (simp add: u_def)
  have shown: "strip (u '' OK'') = u ''OK''"
    by (simp add: u_def strip_def isspace_def)
  have "call_tool_impl (env_of (Responded (answer ''success'' (u '' OK'') [])) SaveOk)
       (u ''run'') (run_args ''Prod'') (world_of [prod_entry])
     = (Inr (Text (u ''OK'')), after_run (run_args ''Prod'') (world_of [prod_entry]))"
    by (simp add: call_tool_impl_def call_pool_def run_success_def Let_def run_args_get answer_def
                  dict_get_def[of "[(u ''status'', _), _]"] out shown after_run_def run_request_def)
  with out show ?thesis by simp
qed

lemma warned_strip:
  "strip (warning expected got @ out) \<noteq> [] \<and>
   prefix (u ''WARNING: Wrong account! Expected'') (strip (warning expected got @ out))"
proof -
  let ?p = "u ''WARNING: Wrong account! Expected''"
  have w: "warning expected got @ out = ?p @ ([32] @ expected @ u '', got '' @ got @ [10, 10] @ out)"
    by (simp add: warning_def u_def)
  have p: "prefix ?p (strip (?p @ ([32] @ expected @ u '', got '' @ got @ [10, 10] @ out)))"
    by (rule strip_keeps_prefix) (simp_all add: u_def isspace_def)
  then have "strip (?p @ ([32] @ expected @ u '', got '' @ got @ [10, 10] @ out)) \<noteq> []"
    by (auto simp: u_def)
  with p show ?thesis unfolding w by simp
qed

text \<open>
  C2.  Take a \<open>run\<close> call on a connection \<open>c\<close> that the pool answers with status
  \<open>success\<close>, a string output and a non-empty \<open>authenticated_as\<close>, with a registry
  whose connections are an object and whose record for \<open>c\<close> (or the empty record, when
  there is none) is an object.  When the record's \<open>expectedEmail\<close> is a non-empty
  string whose lower-case form differs from that of \<open>authenticated_as\<close>, the call
  yields a result, not an exception: the warning followed by the stripped output, trimmed
  at both ends like every rendering, which begins with \<open>WARNING: Wrong account!\<close>.
  When the lower-case forms are equal, or \<open>expectedEmail\<close> is absent or empty, the
  result is the rendering of the stripped output alone.  The stripped output is what the
  two passes leave of the output: the first removes its "set graphic rendition" sequences,
  the second the private-mode sequences (the cursor-visibility toggle among them) of
  what the first has left, and nothing else is what they leave.
\<close>

theorem wrong_account_warning:
  assumes "dict_get arguments (u ''connection'') JNull = JStr c" and "c \<noteq> []"
      and "truthy (dict_get arguments (u ''module'') JNull)"
      and "truthy (dict_get arguments (u ''command'') JNull)"
      and "http e (u ''/run'') (u ''POST'') (Some (run_request arguments)) = Responded (JObj r)"
      and "dict_get r (u ''status'') JNull = JStr (u ''success'')"
      and "dict_get r (u ''output'') (JStr []) = JStr out"
      and "dict_get r (u ''authenticated_as'') JNull = JStr got" and "got \<noteq> []"
      and "load_registry w = Inr (JObj reg)"
      and "dict_get reg (u ''connections'') (JObj []) = JObj conns"
      and "dict_get conns c (JObj []) = JObj cfg"
  shows "(dict_get cfg (u ''expectedEmail'') (JStr []) = JStr expected \<and> expected \<noteq> [] \<and>
          lower e expected \<noteq> lower e got \<longrightarrow>
            call_tool_impl e (u ''run'') arguments w =
              (Inr (Text (strip (u ''WARNING: Wrong account! Expected '' @ expected @ u '', got '' @ got @
                                 [10, 10] @ sub_cursor (sub_sgr out)))),
               after_run arguments w)
            \<and> prefix (u ''WARNING: Wrong account! Expected'')
                 (strip (u ''WARNING: Wrong account! Expected '' @ expected @ u '', got '' @ got @
                         [10, 10] @ sub_cursor (sub_sgr out))))
       \<and> (dict_get cfg (u ''expectedEmail'') (JStr []) = JStr expected \<and>
          lower e expected = lower e got \<longrightarrow>
            call_tool_impl e (u ''run'') arguments w =
              (Inr (Text (if list_all isspace (sub_cursor (sub_sgr out)) then u ''(no output)''
                          else strip (sub_cursor (sub_sgr out)))),
               after_run arguments w))
       \<and> (\<not> truthy (dict_get cfg (u ''expectedEmail'') (JStr [])) \<longrightarrow>
            call_tool_impl e (u ''run'') arguments w =
              (Inr (Text (if list_all isspace (sub_cursor (sub_sgr out)) then u ''(no output)''
                          else strip (sub_cursor (sub_sgr out)))),
               after_run arguments w))
       \<and> removes sgr_sequence out (sub_sgr out)
       \<and> (\<forall>m. removes sgr_sequence out m \<longrightarrow> m = sub_sgr out)
       \<and> removes mode_sequence (sub_sgr out) (sub_cursor (sub_sgr out))
       \<and> (\<forall>m. removes mode_sequence (sub_sgr out) m \<longrightarrow> m = sub_cursor (sub_sgr out))"
proof -
  let ?S = "sub_cursor (sub_sgr out)"
  have passes: "removes sgr_sequence out (sub_sgr out)"
               "\<forall>m. removes sgr_sequence out m \<longrightarrow> m = sub_sgr out"
               "removes mode_sequence (sub_sgr out) ?S"
               "\<forall>m. removes mode_sequence (sub_sgr out) m \<longrightarrow> m = ?S"
    by (blast intro: removes_sgr removes_mode dest: removes_sgr_unique removes_mode_unique)+
  from assms(1,2) have conn: "truthy (dict_get arguments (u ''connection'') JNull)" by simp
  have call: "call_tool_impl e (u ''run'') arguments w = run_success e (JStr c) (JObj r) (after_run arguments w)"
    using run_call[OF conn assms(3-6)] assms(1) by simp
  have reg: "load_registry (after_run arguments w) = Inr (JObj reg)"
    using assms(10) by simp
  have warn: "call_tool_impl e (u ''run'') arguments w =
                (Inr (Text (strip (warning expected got @ ?S))), after_run arguments w)"
    if "dict_get cfg (u ''expectedEmail'') (JStr []) = JStr expected" "expected \<noteq> []"
       "lower e expected \<noteq> lower e got"
    using run_success_identified[OF assms(7-9) reg assms(11,12) that(1), of e] that(2,3) call
          warned_strip[of expected got ?S]
    by (simp add: rendering_def)
  have same: "call_tool_impl e (u ''run'') arguments w =
                (Inr (Text (if list_all isspace ?S then u ''(no output)'' else strip ?S)), after_run arguments w)"
    if "dict_get cfg (u ''expectedEmail'') (JStr []) = JStr expected" "lower e expected = lower e got"
    using run_success_identified[OF assms(7-9) reg assms(11,12) that(1), of e] that(2) call
    by (simp add: rendering_cases)
  have none: "call_tool_impl e (u ''run'') arguments w =
                (Inr (Text (if list_all isspace ?S then u ''(no output)'' else strip ?S)), after_run arguments w)"
    if "\<not> truthy (dict_get cfg (u ''expectedEmail'') (JStr []))"
    using run_success_unexpected[OF assms(7-9) reg assms(11,12) that, of e] call
    by (simp add: rendering_cases)
  have w: "u ''WARNING: Wrong account! Expected '' @ expected @ u '', got '' @ got @ [10, 10] @ ?S
             = warning expected got @ ?S"
    by (simp add: warning_def)
  show ?thesis
    unfolding w using warn same none warned_strip[of expected got ?S] passes by blast
qed

theorem wrong_account_warning_witness:
  "call_tool_impl
       (env_of (Responded (answer ''success'' ([27] @ u ''[32mOK'' @ [27] @ u ''[?25h'' @ [27] @ u ''[0m'')
                   [(u ''authenticated_as'', JStr (u ''x@y.com''))])) SaveOk)
       (u ''run'') (run_args ''Mail'') (world_of [prod_entry, mail_entry])
     = (Inr (Text (u ''WARNING: Wrong account! Expected a@b.com, got x@y.com'' @ [10, 10] @ u ''OK'')),
        after_run (run_args ''Mail'') (world_of [prod_entry, mail_entry]))
   \<and> call_tool_impl
       (env_of (Responded (answer ''success'' ([27] @ u ''[32mOK'' @ [27] @ u ''[?25h'' @ [27] @ u ''[0m'')
                   [(u ''authenticated_as'', JStr (u ''A@B.com''))])) SaveOk)
       (u ''run'') (run_args ''Mail'') (world_of [prod_entry, mail_entry])
     = (Inr (Text (u ''OK'')), after_run (run_args ''Mail'') (world_of [prod_entry, mail_entry]))
   \<and> removes sgr_sequence ([27] @ u ''[32mOK'' @ [27] @ u ''[?25h'' @ [27] @ u ''[0m'')
        (u ''OK'' @ [27] @ u ''[?25h'')
   \<and> removes mode_sequence (u ''OK'' @ [27] @ u ''[?25h'') (u ''OK'')"
proof -
  let ?out = "[27] @ u ''[32mOK'' @ [27] @ u ''[?25h'' @ [27] @ u ''[0m''"
  let ?w = "world_of [prod_entry, mail_entry]"
  let ?cfg = "[(u ''appId'', JStr (u ''00000000-0000-0000-0000-000000000003'')),
               (u ''tenant'', JStr (u ''b.com'')), (u ''description'', JStr (u ''mail'')),
               (u ''mcps'', JList [JStr (u ''mm'')]), (u ''expectedEmail'', JStr (u ''a@b.com''))]"
  let ?e = "\<lambda>who. env_of (Responded (answer ''success'' ?out [(u ''authenticated_as'', JStr (u who))])) SaveOk"
  let ?r = "\<lambda>who. [(u ''status'', JStr (u ''success'')), (u ''output'', JStr ?out)] @
                   [(u ''authenticated_as'', JStr (u who))]"
  have a: "dict_get (run_args ''Mail'') (u ''connection'') JNull = JStr (u ''Mail'')" "u ''Mail'' \<noteq> []"
    by (simp_all add: run_args_get)
  have h: "http (?e who) (u ''/run'') (u ''POST'') (Some (run_request (run_args ''Mail''))) = Responded (JObj (?r who))"
    for who by (simp add: answer_def)
  have who: "dict_get (?r who) (u ''authenticated_as'') JNull = JStr (u who)" for who
    by (simp add: dict_get_def)
  have reg: "load_registry ?w = Inr (JObj [(u ''connections'', JObj [prod_entry, mail_entry])])"
            "dict_get [(u ''connections'', JObj [prod_entry, mail_entry])] (u ''connections'') (JObj [])
               = JObj [prod_entry, mail_entry]"
            "dict_get [prod_entry, mail_entry] (u ''Mail'') (JObj []) = JObj ?cfg"
            "dict_get ?cfg (u ''expectedEmail'') (JStr []) = JStr (u ''a@b.com'')"
    by (simp_all add: load_registry_def dict_get_def prod_entry_def mail_entry_def)
  have low: "ascii_lower (u ''a@b.com'') \<noteq> ascii_lower (u ''x@y.com'')"
            "ascii_lower (u ''a@b.com'') = ascii_lower (u ''A@B.com'')"
    by (simp_all add: ascii_lower_def u_def)
  have out: "sub_cursor (sub_sgr ?out) = u ''OK''"
    by (simp add: u_def sgr_end_def cursor_end_def is_digit_def)
  have shown: "strip (u ''WARNING: Wrong account! Expected '' @ u ''a@b.com'' @ u '', got '' @ u ''x@y.com'' @
                      [10, 10] @ u ''OK'')
                 = u ''WARNING: Wrong account! Expected a@b.com, got x@y.com'' @ [10, 10] @ u ''OK''"
              "\<not> list_all isspace (u ''OK'')" "strip (u ''OK'') = u ''OK''"
    by (simp_all add: u_def strip_def isspace_def)
  from wrong_account_warning
         [OF a run_args_truthy(2,3) h[of "''x@y.com''"] answer_get who[of "''x@y.com''"] _ reg(1-3),
          where expected = "u ''a@b.com''", THEN conjunct1, unfolded out shown]
       reg(4) low(1)
  have 1: "call_tool_impl (?e ''x@y.com'') (u ''run'') (run_args ''Mail'') ?w
     = (Inr (Text (u ''WARNING: Wrong account! Expected a@b.com, got x@y.com'' @ [10, 10] @ u ''OK'')),
        after_run (run_args ''Mail'') ?w)"
    by simp
  from wrong_account_warning
         [OF a run_args_truthy(2,3) h[of "''A@B.com''"] answer_get who[of "''A@B.com''"] _ reg(1-3),
          where expected = "u ''a@b.com''", THEN conjunct2, THEN conjunct1, unfolded out shown]
       reg(4) low(2)
  have 2: "call_tool_impl (?e ''A@B.com'') (u ''run'') (run_args ''Mail'') ?w
     = (Inr (Text (u ''OK'')), after_run (run_args ''Mail'') ?w)"
    by (simp add: shown(2))
  have mid: "sub_sgr ?out = u ''OK'' @ [27] @ u ''[?25h''"
            "sub_cursor (u ''OK'' @ [27] @ u ''[?25h'') = u ''OK''"
    by (simp_all add: u_def sgr_end_def cursor_end_def is_digit_def)
  note passes = wrong_account_warning
         [OF a run_args_truthy(2,3) h[of "''x@y.com''"] answer_get who[of "''x@y.com''"] _ reg(1-3),
          where expected = "u ''a@b.com''", THEN conjunct2, THEN conjunct2, THEN conjunct2, unfolded mid]
  have 3: "removes sgr_sequence ?out (u ''OK'' @ [27] @ u ''[?25h'')"
    using passes by simp
  have 4: "removes mode_sequence (u ''OK'' @ [27] @ u ''[?25h'') (u ''OK'')"
    using passes by simp
  from 1 2 3 4 show ?thesis by (intro conjI)
qed

lemma device_prompt_holds:
  "sublist code (device_prompt code hint connection module)
   \<and> sublist hint (device_prompt code hint connection module)
   \<and> sublist (u ''https://microsoft.com/devicelogin'') (device_prompt code hint connection module)
   \<and> sublist (u ''After authenticating, retry the command.'') (device_prompt code hint connection module)"
proof -
  let ?p = "device_prompt code hint connection module"
  have "?p = u ''**DEVICE CODE: '' @ code @ (u ''**'' @ [10] @
     u ''Go to: https://microsoft.com/devicelogin'' @ [10] @ hint @ [10, 10] @
     u ''Connection: '' @ connection @ [10] @ u ''Module: '' @ module @ [10, 10] @
     u ''After authenticating, retry the command.'')"
    by (simp add: device_prompt_def)
  then have 1: "sublist code ?p" by (simp only: sublist_appendI)
  have "?p = (u ''**DEVICE CODE: '' @ code @ u ''**'' @ [10] @
     u ''Go to: https://microsoft.com/devicelogin'' @ [10]) @ hint @ ([10, 10] @
     u ''Connection: '' @ connection @ [10] @ u ''Module: '' @ module @ [10, 10] @
     u ''After authenticating, retry the command.'')"
    by (simp add: device_prompt_def)
  then have 2: "sublist hint ?p" by (simp only: sublist_appendI)
  have "?p = (u ''**DEVICE CODE: '' @ code @ u ''**'' @ [10] @ u ''Go to: '') @
     u ''https://microsoft.com/devicelogin'' @ ([10] @ hint @ [10, 10] @
     u ''Connection: '' @ connection @ [10] @ u ''Module: '' @ module @ [10, 10] @
     u ''After authenticating, retry the command.'')"
    by (simp add: device_prompt_def u_def)
  then have 3: "sublist (u ''https://microsoft.com/devicelogin'') ?p" by (simp only: sublist_appendI)
  have "?p = (u ''**DEVICE CODE: '' @ code @ u ''**'' @ [10] @
     u ''Go to: https://microsoft.com/devicelogin'' @ [10] @ hint @ [10, 10] @
     u ''Connection: '' @ connection @ [10] @ u ''Module: '' @ module @ [10, 10]) @
     u ''After authenticating, retry the command.''"
    by (simp add: device_prompt_def)
  then have 4: "sublist (u ''After authenticating, retry the command.'') ?p"
    by (simp only: sublist_append_leftI)
  from 1 2 3 4 show ?thesis by blast
qed

text \<open>
  C3, as the code has it.  Take a \<open>run\<close> call on a connection \<open>c\<close> that the pool
  answers with status \<open>auth_required\<close>, with a registry whose connections are an object
  and whose record for \<open>c\<close> (or the empty record, when there is none) is an object.  The
  result is the device prompt: it holds the device code, the sign-in URL, the hint and the
  instruction to retry after authenticating.  The hint names the record's
  \<open>expectedEmail\<close> when that is a non-empty string; else it names the record's
  \<open>tenant\<close> when that is a non-empty string; and when the record has neither, the hint
  is empty: the prompt then has the device code, the URL and the instruction only.
\<close>

theorem device_code_prompt:
  assumes "dict_get arguments (u ''connection'') JNull = JStr c" and "c \<noteq> []"
      and "truthy (dict_get arguments (u ''module'') JNull)"
      and "truthy (dict_get arguments (u ''command'') JNull)"
      and "http e (u ''/run'') (u ''POST'') (Some (run_request arguments)) = Responded (JObj r)"
      and "dict_get r (u ''status'') JNull = JStr (u ''auth_required'')"
      and "load_registry w = Inr (JObj reg)"
      and "dict_get reg (u ''connections'') (JObj []) = JObj conns"
      and "dict_get conns c (JObj []) = JObj cfg"
      and "code = py_str (fmt e) (dict_get r (u ''device_code'') (JStr []))"
      and "module = py_str (fmt e) (dict_get arguments (u ''module'') JNull)"
  shows "(dict_get cfg (u ''expectedEmail'') (JStr []) = JStr expected \<and> expected \<noteq> [] \<longrightarrow>
            call_tool_impl e (u ''run'') arguments w =
              (Inr (Text (device_prompt code ([10] @ u ''>>> SIGN IN AS: '' @ expected @ u '' <<<'') c module)),
               after_run arguments w))
       \<and> (\<not> truthy (dict_get cfg (u ''expectedEmail'') (JStr [])) \<and>
          dict_get cfg (u ''tenant'') (JStr []) = JStr tenant \<and> tenant \<noteq> [] \<longrightarrow>
            call_tool_impl e (u ''run'') arguments w =
              (Inr (Text (device_prompt code
                            ([10] @ u ''>>> Sign in with your @'' @ tenant @ u '' account <<<'') c module)),
               after_run arguments w))
       \<and> (\<not> truthy (dict_get cfg (u ''expectedEmail'') (JStr [])) \<and>
          \<not> truthy (dict_get cfg (u ''tenant'') (JStr [])) \<longrightarrow>
            call_tool_impl e (u ''run'') arguments w =
              (Inr (Text (device_prompt code [] c module)), after_run arguments w))
       \<and> sublist code (device_prompt code hint c module)
       \<and> sublist hint (device_prompt code hint c module)
       \<and> sublist (u ''https://microsoft.com/devicelogin'') (device_prompt code hint c module)
       \<and> sublist (u ''After authenticating, retry the command.'') (device_prompt code hint c module)
       \<and> sublist expected ([10] @ u ''>>> SIGN IN AS: '' @ expected @ u '' <<<'')
       \<and> sublist tenant ([10] @ u ''>>> Sign in with your @'' @ tenant @ u '' account <<<'')"
proof -
  have named: "sublist expected ([10] @ u ''>>> SIGN IN AS: '' @ expected @ u '' <<<'')"
              "sublist tenant ([10] @ u ''>>> Sign in with your @'' @ tenant @ u '' account <<<'')"
    using sublist_appendI[of expected "[10] @ u ''>>> SIGN IN AS: ''" "u '' <<<''"]
          sublist_appendI[of tenant "[10] @ u ''>>> Sign in with your @''" "u '' account <<<''"]
    by simp_all
  from assms(1,2) have conn: "truthy (dict_get arguments (u ''connection'') JNull)" by simp
  have reg: "load_registry (after_run arguments w) = Inr (JObj reg)"
    using assms(7) by simp
  have "call_tool_impl e (u ''run'') arguments w =
          run_auth_required e (JStr c) (dict_get arguments (u ''module'') JNull) (JObj r) (after_run arguments w)"
    using run_call[OF conn assms(3-6)] assms(1) by simp
  also note run_auth_required_text[OF reg assms(8,9)]
  finally have call: "call_tool_impl e (u ''run'') arguments w =
           (Inr (Text (device_prompt code
              (if truthy (dict_get cfg (u ''expectedEmail'') (JStr []))
               then [10] @ u ''>>> SIGN IN AS: '' @ py_str (fmt e) (dict_get cfg (u ''expectedEmail'') (JStr [])) @ u '' <<<''
               else if truthy (dict_get cfg (u ''tenant'') (JStr []))
               then [10] @ u ''>>> Sign in with your @'' @ py_str (fmt e) (dict_get cfg (u ''tenant'') (JStr [])) @ u '' account <<<''
               else [])
              c module)), after_run arguments w)"
    unfolding assms(10,11) .
  have 1: "call_tool_impl e (u ''run'') arguments w =
              (Inr (Text (device_prompt code ([10] @ u ''>>> SIGN IN AS: '' @ expected @ u '' <<<'') c module)),
               after_run arguments w)"
    if "dict_get cfg (u ''expectedEmail'') (JStr []) = JStr expected" "expected \<noteq> []"
    using call that by simp
  have 2: "call_tool_impl e (u ''run'') arguments w =
              (Inr (Text (device_prompt code
                            ([10] @ u ''>>> Sign in with your @'' @ tenant @ u '' account <<<'') c module)),
               after_run arguments w)"
    if "\<not> truthy (dict_get cfg (u ''expectedEmail'') (JStr []))"
       "dict_get cfg (u ''tenant'') (JStr []) = JStr tenant" "tenant \<noteq> []"
    using call that by simp
  have 3: "call_tool_impl e (u ''run'') arguments w =
              (Inr (Text (device_prompt code [] c module)), after_run arguments w)"
    if "\<not> truthy (dict_get cfg (u ''expectedEmail'') (JStr []))"
       "\<not> truthy (dict_get cfg (u ''tenant'') (JStr []))"
    using call that by simp
  from 1 2 3 device_prompt_holds[of code hint c module] named show ?thesis by blast
qed

lemma auth_answer_run:
  "http (env_of (Responded auth_answer) SaveOk) (u ''/run'') (u ''POST'') (Some (run_request (run_args name)))
     = Responded (JObj [(u ''status'', JStr (u ''auth_required'')), (u ''device_code'', JStr (u ''ABC-123''))])"
  "dict_get [(u ''status'', JStr (u ''auth_required'')), (u ''device_code'', JStr (u ''ABC-123''))]
     (u ''status'') JNull = JStr (u ''auth_required'')"
  "u ''ABC-123'' = py_str (fmt (env_of (Responded auth_answer) SaveOk))
     (dict_get [(u ''status'', JStr (u ''auth_required'')), (u ''device_code'', JStr (u ''ABC-123''))]
        (u ''device_code'') (JStr []))"
  "u ''exo'' = py_str (fmt (env_of (Responded auth_answer) SaveOk))
     (dict_get (run_args name) (u ''module'') JNull)"
  by (simp_all add: auth_answer_def dict_get_def run_args_def)

lemma mail_registry:
  "load_registry (world_of [prod_entry, mail_entry]) = Inr (JObj [(u ''connections'', JObj [prod_entry, mail_entry])])"
  "dict_get [(u ''connections'', JObj [prod_entry, mail_entry])] (u ''connections'') (JObj [])
     = JObj [prod_entry, mail_entry]"
  by (simp_all add: load_registry_def dict_get_def)

theorem device_code_prompt_witness:
  "call_tool_impl (env_of (Responded auth_answer) SaveOk) (u ''run'') (run_args ''Mail'')
       (world_of [prod_entry, mail_entry])
     = (Inr (Text (device_prompt (u ''ABC-123'') ([10] @ u ''>>> SIGN IN AS: '' @ u ''a@b.com'' @ u '' <<<'')
                     (u ''Mail'') (u ''exo''))),
        after_run (run_args ''Mail'') (world_of [prod_entry, mail_entry]))
   \<and> call_tool_impl (env_of (Responded auth_answer) SaveOk) (u ''run'') (run_args ''Prod'')
       (world_of [prod_entry, mail_entry])
     = (Inr (Text (device_prompt (u ''ABC-123'')
                     ([10] @ u ''>>> Sign in with your @'' @ u ''contoso.com'' @ u '' account <<<'')
                     (u ''Prod'') (u ''exo''))),
        after_run (run_args ''Prod'') (world_of [prod_entry, mail_entry]))
   \<and> sublist (u ''a@b.com'')
       (device_prompt (u ''ABC-123'') ([10] @ u ''>>> SIGN IN AS: '' @ u ''a@b.com'' @ u '' <<<'')
          (u ''Mail'') (u ''exo''))"
proof -
  let ?e = "env_of (Responded auth_answer) SaveOk"
  let ?w = "world_of [prod_entry, mail_entry]"
  have a: "dict_get (run_args ''Mail'') (u ''connection'') JNull = JStr (u ''Mail'')" "u ''Mail'' \<noteq> []"
          "dict_get (run_args ''Prod'') (u ''connection'') JNull = JStr (u ''Prod'')" "u ''Prod'' \<noteq> []"
    by (simp_all add: run_args_get)
  have mail: "dict_get [prod_entry, mail_entry] (u ''Mail'') (JObj []) = JObj (case snd mail_entry of JObj d \<Rightarrow> d)"
             "dict_get (case snd mail_entry of JObj d \<Rightarrow> d) (u ''expectedEmail'') (JStr []) = JStr (u ''a@b.com'')"
    by (simp_all add: dict_get_def prod_entry_def mail_entry_def)
  have prod: "dict_get [prod_entry, mail_entry] (u ''Prod'') (JObj []) = JObj (case snd prod_entry of JObj d \<Rightarrow> d)"
             "\<not> truthy (dict_get (case snd prod_entry of JObj d \<Rightarrow> d) (u ''expectedEmail'') (JStr []))"
             "dict_get (case snd prod_entry of JObj d \<Rightarrow> d) (u ''tenant'') (JStr []) = JStr (u ''contoso.com'')"
    by (simp_all add: dict_get_def prod_entry_def mail_entry_def)
  note m = device_code_prompt
         [OF a(1,2) run_args_truthy(2,3) auth_answer_run(1,2) mail_registry mail(1) auth_answer_run(3,4),
          where expected = "u ''a@b.com''"
            and hint = "[10] @ u ''>>> SIGN IN AS: '' @ u ''a@b.com'' @ u '' <<<''"]
  note p = device_code_prompt
         [OF a(3,4) run_args_truthy(2,3) auth_answer_run(1,2) mail_registry prod(1) auth_answer_run(3,4),
          where tenant = "u ''contoso.com''"]
  have 1: "call_tool_impl ?e (u ''run'') (run_args ''Mail'') ?w
     = (Inr (Text (device_prompt (u ''ABC-123'') ([10] @ u ''>>> SIGN IN AS: '' @ u ''a@b.com'' @ u '' <<<'')
                     (u ''Mail'') (u ''exo''))),
        after_run (run_args ''Mail'') ?w)"
    using m[THEN conjunct1] mail(2) by simp
  have 2: "call_tool_impl ?e (u ''run'') (run_args ''Prod'') ?w
     = (Inr (Text (device_prompt (u ''ABC-123'')
                     ([10] @ u ''>>> Sign in with your @'' @ u ''contoso.com'' @ u '' account <<<'')
                     (u ''Prod'') (u ''exo''))),
        after_run (run_args ''Prod'') ?w)"
    using p[THEN conjunct2, THEN conjunct1] prod(2,3) by simp
  have "sublist ([10] @ u ''>>> SIGN IN AS: '' @ u ''a@b.com'' @ u '' <<<'')
          (device_prompt (u ''ABC-123'') ([10] @ u ''>>> SIGN IN AS: '' @ u ''a@b.com'' @ u '' <<<'')
             (u ''Mail'') (u ''exo''))"
    using m by blast
  moreover have "sublist (u ''a@b.com'') ([10] @ u ''>>> SIGN IN AS: '' @ u ''a@b.com'' @ u '' <<<'')"
    using sublist_appendI[of "u ''a@b.com''" "[10] @ u ''>>> SIGN IN AS: ''" "u '' <<<''"] by simp
  ultimately have 3: "sublist (u ''a@b.com'')
       (device_prompt (u ''ABC-123'') ([10] @ u ''>>> SIGN IN AS: '' @ u ''a@b.com'' @ u '' <<<'')
          (u ''Mail'') (u ''exo''))"
    by (rule sublist_order.order.trans[rotated])
  from 1 2 3 show ?thesis by blast
qed

text \<open>
  C3 as stated fails where the registry gives neither an \<open>expectedEmail\<close> nor a
  \<open>tenant\<close> for the connection: for a connection the registry does not have, the
  prompt holds the device code and no sign-in hint.
\<close>

theorem device_code_no_hint_counterexample:
  "call_tool_impl (env_of (Responded auth_answer) SaveOk) (u ''run'') (run_args ''Nope'')
       (world_of [prod_entry, mail_entry])
     = (Inr (Text (u ''**DEVICE CODE: ABC-123**'' @ [10] @
                   u ''Go to: https://microsoft.com/devicelogin'' @ [10] @ [10, 10] @
                   u ''Connection: Nope'' @ [10] @ u ''Module: exo'' @ [10, 10] @
                   u ''After authenticating, retry the command.'')),
        after_run (run_args ''Nope'') (world_of [prod_entry, mail_entry]))
   \<and> \<not> sublist (u ''ign in'')
         (u ''**DEVICE CODE: ABC-123**'' @ [10] @
          u ''Go to: https://microsoft.com/devicelogin'' @ [10] @ [10, 10] @
          u ''Connection: Nope'' @ [10] @ u ''Module: exo'' @ [10, 10] @
          u ''After authenticating, retry the command.'')"
proof -
  have "call_tool_impl (env_of (Responded auth_answer) SaveOk) (u ''run'') (run_args ''Nope'')
       (world_of [prod_entry, mail_entry])
     = (Inr (Text (u ''**DEVICE CODE: ABC-123**'' @ [10] @
                   u ''Go to: https://microsoft.com/devicelogin'' @ [10] @ [10, 10] @
                   u ''Connection: Nope'' @ [10] @ u ''Module: exo'' @ [10, 10] @
                   u ''After authenticating, retry the command.'')),
        after_run (run_args ''Nope'') (world_of [prod_entry, mail_entry]))"
    by (simp add: call_tool_impl_def call_pool_def run_auth_required_def Let_def run_args_def auth_answer_def
                  load_registry_def dict_get_def prod_entry_def mail_entry_def after_run_def
                  run_request_def u_merge)
  moreover have "\<not> sublist (u ''ign in'')
         (u ''**DEVICE CODE: ABC-123**'' @ [10] @
          u ''Go to: https://microsoft.com/devicelogin'' @ [10] @ [10, 10] @
          u ''Connection: Nope'' @ [10] @ u ''Module: exo'' @ [10, 10] @
          u ''After authenticating, retry the command.'')"
    by (simp add: u_def sublist_code)
  ultimately show ?thesis by (rule conjI)
qed

end
